theory Spec2Isabelle
  imports Complex_Main "HOL-Library.Monad_Syntax"
begin

section \<open>Numbers, characters and the Python built-ins the program relies on\<close>

text \<open>
  The program computes with Python floats (IEEE doubles). Here a float is a finite number,
  one of the two infinities, or not-a-number. A finite float is an exact rational:
  arithmetic on finite floats does not round, overflow or underflow, and the two zeros are
  one. The non-finite floats arise from their spellings and from arithmetic on them, where
  they follow IEEE 754.
  Strings are lists of 8-bit characters, read as the code points U+0000 to U+00FF;
  the serial line and the control socket deliver bytes, and every character the
  program tests for lies in the ASCII range.
\<close>

datatype pyfloat = Fin rat | PInf | NInf | NaN

fun fneg :: "pyfloat \<Rightarrow> pyfloat" where
  "fneg (Fin x) = Fin (- x)"
| "fneg PInf = NInf"
| "fneg NInf = PInf"
| "fneg NaN = NaN"

fun fadd :: "pyfloat \<Rightarrow> pyfloat \<Rightarrow> pyfloat" where
  "fadd (Fin x) (Fin y) = Fin (x + y)"
| "fadd NaN y = NaN"
| "fadd x NaN = NaN"
| "fadd PInf NInf = NaN"
| "fadd NInf PInf = NaN"
| "fadd PInf y = PInf"
| "fadd x PInf = PInf"
| "fadd NInf y = NInf"
| "fadd x NInf = NInf"

definition fsub :: "pyfloat \<Rightarrow> pyfloat \<Rightarrow> pyfloat" where
  "fsub x y = fadd x (fneg y)"

definition inf_times :: "rat \<Rightarrow> pyfloat" where
  \<comment> \<open>the product of plus infinity and a finite number\<close>
  "inf_times x = (if 0 < x then PInf else if x < 0 then NInf else NaN)"

fun fmul :: "pyfloat \<Rightarrow> pyfloat \<Rightarrow> pyfloat" where
  "fmul (Fin x) (Fin y) = Fin (x * y)"
| "fmul NaN y = NaN"
| "fmul x NaN = NaN"
| "fmul (Fin x) PInf = inf_times x"
| "fmul (Fin x) NInf = inf_times (- x)"
| "fmul PInf (Fin y) = inf_times y"
| "fmul NInf (Fin y) = inf_times (- y)"
| "fmul PInf PInf = PInf"
| "fmul PInf NInf = NInf"
| "fmul NInf PInf = NInf"
| "fmul NInf NInf = PInf"

fun fgt0 :: "pyfloat \<Rightarrow> bool" where
  \<comment> \<open>\<open>x > 0\<close>\<close>
  "fgt0 (Fin x) = (0 < x)"
| "fgt0 PInf = True"
| "fgt0 NInf = False"
| "fgt0 NaN = False"

definition feq :: "pyfloat \<Rightarrow> pyfloat \<Rightarrow> bool" where
  \<comment> \<open>\<open>x == y\<close>: not-a-number equals nothing, itself included\<close>
  "feq x y = (x \<noteq> NaN \<and> y \<noteq> NaN \<and> x = y)"

subsection \<open>Character classes\<close>

definition isprintable :: "char \<Rightarrow> bool" where
  \<comment> \<open>\<open>str.isprintable\<close> on U+0000..U+00FF: the controls, the no-break space U+00A0 and the
      soft hyphen U+00AD are not printable; the ASCII space is.\<close>
  "isprintable c =
     (let n = (of_char c :: nat) in (32 \<le> n \<and> n \<le> 126) \<or> (161 \<le> n \<and> n \<noteq> 173))"

definition space_chars :: string where
  \<comment> \<open>the white space of \<open>str.isspace\<close>, \<open>str.strip\<close> and \<open>str.split\<close>, on U+0000..U+00FF\<close>
  "space_chars =
     [CHR 0x09, CHR 0x0A, CHR 0x0B, CHR 0x0C, CHR 0x0D, CHR 0x1C, CHR 0x1D, CHR 0x1E,
      CHR 0x1F, CHR 0x20, CHR 0x85, CHR 0xA0]"

definition isspace :: "char \<Rightarrow> bool" where
  "isspace c = (c \<in> set space_chars)"

definition strip :: "string \<Rightarrow> string" where
  "strip s = rev (dropWhile isspace (rev (dropWhile isspace s)))"

definition upper_char :: "char \<Rightarrow> char" where
  \<comment> \<open>\<open>str.upper\<close> on one character. The three lower-case letters of this range whose
      upper-case form lies outside it (U+00B5, U+00DF, U+00FF) are left in place: neither
      they nor their images are ASCII letters.\<close>
  "upper_char c =
     (let n = (of_char c :: nat)
      in if (97 \<le> n \<and> n \<le> 122) \<or> (224 \<le> n \<and> n \<le> 254 \<and> n \<noteq> 247)
         then char_of (n - 32) else c)"

definition upper :: "string \<Rightarrow> string" where
  "upper s = map upper_char s"

subsection \<open>Regular expressions\<close>

text \<open>
  \<open>re.match\<close> with a pattern anchored at both ends decides membership in the pattern's
  language. Patterns are terms of \<open>rexp\<close>; \<open>matches\<close> decides membership by derivatives.
\<close>

datatype rexp =
    Zero
  | Eps
  | Cls "char list"
  | Seq rexp rexp
  | Alt rexp rexp
  | Star rexp

definition Opt :: "rexp \<Rightarrow> rexp" where
  "Opt r = Alt Eps r"

definition Plus :: "rexp \<Rightarrow> rexp" where
  "Plus r = Seq r (Star r)"

fun nullable :: "rexp \<Rightarrow> bool" where
  "nullable Zero = False"
| "nullable Eps = True"
| "nullable (Cls cs) = False"
| "nullable (Seq r s) = (nullable r \<and> nullable s)"
| "nullable (Alt r s) = (nullable r \<or> nullable s)"
| "nullable (Star r) = True"

fun deriv :: "char \<Rightarrow> rexp \<Rightarrow> rexp" where
  "deriv c Zero = Zero"
| "deriv c Eps = Zero"
| "deriv c (Cls cs) = (if c \<in> set cs then Eps else Zero)"
| "deriv c (Seq r s) =
     (if nullable r then Alt (Seq (deriv c r) s) (deriv c s) else Seq (deriv c r) s)"
| "deriv c (Alt r s) = Alt (deriv c r) (deriv c s)"
| "deriv c (Star r) = Seq (deriv c r) (Star r)"

fun matches :: "rexp \<Rightarrow> string \<Rightarrow> bool" where
  "matches r [] = nullable r"
| "matches r (c # w) = matches (deriv c r) w"

text \<open>The language of a pattern, as sets of strings.\<close>

definition conc :: "string set \<Rightarrow> string set \<Rightarrow> string set" where
  "conc A B = {u @ v | u v. u \<in> A \<and> v \<in> B}"

inductive_set star :: "string set \<Rightarrow> string set" for A :: "string set" where
  star_nil: "[] \<in> star A"
| star_app: "u \<in> A \<Longrightarrow> v \<in> star A \<Longrightarrow> u @ v \<in> star A"

fun lang :: "rexp \<Rightarrow> string set" where
  "lang Zero = {}"
| "lang Eps = {[]}"
| "lang (Cls cs) = {[c] | c. c \<in> set cs}"
| "lang (Seq r s) = conc (lang r) (lang s)"
| "lang (Alt r s) = lang r \<union> lang s"
| "lang (Star r) = star (lang r)"

text \<open>The characters that occur in a pattern.\<close>

fun rchars :: "rexp \<Rightarrow> char set" where
  "rchars Zero = {}"
| "rchars Eps = {}"
| "rchars (Cls cs) = set cs"
| "rchars (Seq r s) = rchars r \<union> rchars s"
| "rchars (Alt r s) = rchars r \<union> rchars s"
| "rchars (Star r) = rchars r"

subsection \<open>The built-in \<open>float\<close>\<close>

definition rx_digit :: rexp where
  "rx_digit = Cls ''0123456789''"

definition rx_sign :: rexp where
  "rx_sign = Cls ''-+''"

definition rx_dot :: rexp where
  "rx_dot = Cls ''.''"

definition rx_e :: rexp where
  "rx_e = Cls ''eE''"

definition float_space_chars :: string where
  \<comment> \<open>the white space \<open>float\<close> removes at both ends, on U+0000..U+00FF; unlike
      \<open>str.strip\<close> it takes none of U+001C..U+001F\<close>
  "float_space_chars =
     [CHR 0x09, CHR 0x0A, CHR 0x0B, CHR 0x0C, CHR 0x0D, CHR 0x20, CHR 0x85, CHR 0xA0]"

definition rx_space :: rexp where
  "rx_space = Cls float_space_chars"

definition rx_digitpart :: rexp where
  \<comment> \<open>\<open>digitpart ::= digit (["_"] digit)*\<close>\<close>
  "rx_digitpart = Seq rx_digit (Star (Seq (Opt (Cls ''_'')) rx_digit))"

definition rx_number :: rexp where
  \<comment> \<open>\<open>number ::= [digitpart] "." digitpart | digitpart ["."]\<close>\<close>
  "rx_number =
     Alt (Seq (Opt rx_digitpart) (Seq rx_dot rx_digitpart)) (Seq rx_digitpart (Opt rx_dot))"

definition rx_exponent :: rexp where
  \<comment> \<open>\<open>exponent ::= ("e" | "E") [sign] digitpart\<close>\<close>
  "rx_exponent = Seq rx_e (Seq (Opt rx_sign) rx_digitpart)"

definition float_grammar :: rexp where
  \<comment> \<open>The decimal numbers \<open>float(str)\<close> accepts, after the Python language reference: white
      space, \<open>[sign] number [exponent]\<close>, white space.\<close>
  "float_grammar =
     Seq (Star rx_space)
       (Seq (Opt rx_sign) (Seq rx_number (Seq (Opt rx_exponent) (Star rx_space))))"

definition rx_infinity :: rexp where
  \<comment> \<open>\<open>"inf" | "infinity"\<close>, in any letter case\<close>
  "rx_infinity =
     Seq (Cls ''iI'') (Seq (Cls ''nN'') (Seq (Cls ''fF'')
       (Opt (Seq (Cls ''iI'') (Seq (Cls ''nN'') (Seq (Cls ''iI'') (Seq (Cls ''tT'')
         (Cls ''yY''))))))))"

definition rx_nan :: rexp where
  \<comment> \<open>\<open>"nan"\<close>, in any letter case\<close>
  "rx_nan = Seq (Cls ''nN'') (Seq (Cls ''aA'') (Cls ''nN''))"

definition infinity_grammar :: rexp where
  "infinity_grammar =
     Seq (Star rx_space) (Seq (Opt rx_sign) (Seq rx_infinity (Star rx_space)))"

definition nan_grammar :: rexp where
  "nan_grammar = Seq (Star rx_space) (Seq (Opt rx_sign) (Seq rx_nan (Star rx_space)))"

definition float_strip :: "string \<Rightarrow> string" where
  "float_strip s =
     rev (dropWhile (\<lambda>c. c \<in> set float_space_chars)
       (rev (dropWhile (\<lambda>c. c \<in> set float_space_chars) s)))"

definition digits_val :: "string \<Rightarrow> int" where
  "digits_val ds = foldl (\<lambda>a c. 10 * a + (of_char c - 48)) 0 ds"

definition split_sign :: "string \<Rightarrow> int \<times> string" where
  "split_sign s =
     (case s of
        [] \<Rightarrow> (1, [])
      | c # r \<Rightarrow> if c = CHR ''-'' then (- 1, r) else if c = CHR ''+'' then (1, r) else (1, s))"

definition pow10 :: "int \<Rightarrow> rat" where
  "pow10 k = (if 0 \<le> k then 10 ^ nat k else 1 / 10 ^ nat (- k))"

definition float_value :: "string \<Rightarrow> rat" where
  \<comment> \<open>the value of a string of \<open>float_grammar\<close>\<close>
  "float_value s =
     (let t = filter (\<lambda>c. c \<noteq> CHR ''_'') (float_strip s);
          (sg, body) = split_sign t;
          mant = takeWhile (\<lambda>c. c \<notin> set ''eE'') body;
          (esg, eds) = split_sign (drop 1 (dropWhile (\<lambda>c. c \<notin> set ''eE'') body));
          ip = takeWhile (\<lambda>c. c \<noteq> CHR ''.'') mant;
          fp = drop 1 (dropWhile (\<lambda>c. c \<noteq> CHR ''.'') mant)
      in of_int sg * of_int (digits_val (ip @ fp))
           * pow10 (esg * digits_val eds - int (length fp)))"

definition py_float :: "string \<Rightarrow> pyfloat option" where
  \<comment> \<open>\<open>float(s)\<close>; \<open>None\<close> is the \<open>ValueError\<close>\<close>
  "py_float s =
     (if matches float_grammar s then Some (Fin (float_value s))
      else if matches infinity_grammar s
        then Some (if fst (split_sign (float_strip s)) < 0 then NInf else PInf)
      else if matches nan_grammar s then Some NaN
      else None)"

definition round_half_even :: "rat \<Rightarrow> int" where
  "round_half_even x =
     (let f = \<lfloor>x\<rfloor>; d = x - of_int f
      in if d < 1 / 2 then f else if 1 / 2 < d then f + 1 else if even f then f else f + 1)"

fun round8 :: "pyfloat \<Rightarrow> pyfloat" where
  \<comment> \<open>\<open>round(x, 8)\<close>: a finite float goes to the nearest multiple of \<open>10\<^sup>-\<^sup>8\<close>, ties to the
      even one; a float that is not finite is returned as it is\<close>
  "round8 (Fin x) = Fin (of_int (round_half_even (x * 10 ^ 8)) / 10 ^ 8)"
| "round8 PInf = PInf"
| "round8 NInf = NInf"
| "round8 NaN = NaN"

type_synonym datetime = int

text \<open>
  A \<open>datetime\<close> is the number of microseconds since the epoch. A dictionary is the list of
  its items in insertion order; its values are numbers or time stamps.
\<close>

datatype pyval = Num pyfloat | Time datetime

type_synonym pydict = "(string \<times> pyval) list"

datatype exn = TypeError | QueueFull | KeyError | ValueError

definition py_round8 :: "pyval \<Rightarrow> exn + pyval" where
  \<comment> \<open>\<open>round(v, 8)\<close>: a \<open>datetime\<close> has no \<open>__round__\<close>\<close>
  "py_round8 v = (case v of Num x \<Rightarrow> Inr (Num (round8 x)) | Time t \<Rightarrow> Inl TypeError)"

section \<open>utils.py\<close>

datatype pyobj = PyStr string | PyBytes string | PyNum pyfloat | PyNone

definition float_pattern :: rexp where
  \<comment> \<open>\<open>^[-+]?[0-9]*\.?[0-9]+([eE][-+]?[0-9]+)?$\<close>; the final \<open>$\<close> also matches before a
      newline that ends the string\<close>
  "float_pattern =
     Seq (Opt rx_sign)
       (Seq (Star rx_digit)
         (Seq (Opt rx_dot)
           (Seq (Plus rx_digit)
             (Seq (Opt (Seq rx_e (Seq (Opt rx_sign) (Plus rx_digit))))
               (Opt (Cls [CHR 0x0A]))))))"

definition is_valid_float_string :: "pyobj \<Rightarrow> bool" where
  "is_valid_float_string v =
     (case v of
        PyStr s0 \<Rightarrow>
          (let s = filter isprintable s0
           in if s = [] then False else matches float_pattern s)
      | _ \<Rightarrow> False)"

definition clean_sensor_value :: "pyobj \<Rightarrow> string" where
  "clean_sensor_value value_str =
     (case value_str of
        PyStr s \<Rightarrow>
          (let cleaned = filter isprintable s
           in if is_valid_float_string (PyStr cleaned) then cleaned else ''0.0'')
      | _ \<Rightarrow> ''0.0'')"

definition generate_simulated_data :: "(pyfloat \<Rightarrow> string) \<Rightarrow> (nat \<Rightarrow> pyfloat) \<Rightarrow> string list" where
  \<comment> \<open>\<open>rnd i\<close> is the value of the \<open>i\<close>-th call of \<open>np.random.uniform\<close>, \<open>str_of\<close> the
      built-in \<open>str\<close> on floats\<close>
  "generate_simulated_data str_of rnd =
     [str_of (rnd 0), str_of (rnd 1), str_of (rnd 2), str_of (rnd 3), str_of (rnd 4),
      str_of (rnd 5), str_of (rnd 6), str_of (rnd 7), str_of (rnd 8), str_of (rnd 9),
      str_of (rnd 10), ''0'']"

definition round_only_roundable_dict_keys :: "pydict \<Rightarrow> string list \<Rightarrow> exn + pydict" where
  \<comment> \<open>the loop over the keys of \<open>my_data\<close>, in the dictionary's order\<close>
  "round_only_roundable_dict_keys my_data keys_to_round =
     foldl
       (\<lambda>my_data_rounded (key, val).
          case my_data_rounded of
            Inl e \<Rightarrow> Inl e
          | Inr acc \<Rightarrow>
              if key \<in> set keys_to_round
              then (case py_round8 val of Inl e \<Rightarrow> Inl e | Inr r \<Rightarrow> Inr (acc @ [(key, r)]))
              else Inr (acc @ [(key, val)]))
       (Inr []) my_data"

section \<open>serial_handler.py\<close>

fun split_from :: "string \<Rightarrow> string \<Rightarrow> string list" where
  "split_from cur [] = (if cur = [] then [] else [cur])"
| "split_from cur (c # cs) =
     (if isspace c then (if cur = [] then split_from [] cs else cur # split_from [] cs)
      else split_from (cur @ [c]) cs)"

definition split :: "string \<Rightarrow> string list" where
  \<comment> \<open>\<open>str.split()\<close>: the maximal runs of characters that are not white space\<close>
  "split s = split_from [] s"

record serial_handler =  \<comment> \<open>\<open>self.serial is not None\<close>, \<open>self.error_count\<close>\<close>
  has_serial :: bool
  sh_error_count :: int

datatype serial_read = ReadRaises | ReadBytes string

definition read_data ::
  "(string \<Rightarrow> string option) \<Rightarrow> (pyfloat \<Rightarrow> string) \<Rightarrow> (nat \<Rightarrow> pyfloat) \<Rightarrow>
   serial_handler \<Rightarrow> serial_read \<Rightarrow> serial_handler \<times> bool \<times> string list" where
  \<comment> \<open>\<open>decode\<close> is \<open>bytes.decode\<close> (\<open>None\<close> for \<open>UnicodeDecodeError\<close>); the last argument
      is what \<open>self.serial.read_until\<close> does at this call\<close>
  "read_data decode str_of rnd h rd =
     (let failed = (h\<lparr>sh_error_count := sh_error_count h + 1\<rparr>, False,
                    generate_simulated_data str_of rnd)
      in if has_serial h then
           (case rd of
              ReadRaises \<Rightarrow> failed
            | ReadBytes data \<Rightarrow>
                (let data_clean = filter (\<lambda>b. b \<noteq> CHR 0x00) data
                 in case decode data_clean of
                      None \<Rightarrow> failed
                    | Some text \<Rightarrow>
                        (let values = split (strip text)
                         in if length values < 12 then failed
                            else (h, True, map (\<lambda>val. clean_sensor_value (PyStr val)) values))))
         else (h, True, generate_simulated_data str_of rnd))"

section \<open>config.py\<close>

definition FIELDNAMES :: "string list" where
  "FIELDNAMES =
     [''tNow'', ''u_m_s'', ''v_m_s'', ''w_m_s'', ''2dSpeed_m_s'', ''3DSpeed_m_s'',
      ''Azimuth_deg'', ''Elev_deg'', ''Press_Pa'', ''Temp_C'', ''Hum_RH'', ''SonicTemp_C'',
      ''Error'']"

section \<open>data_processor.py\<close>

text \<open>
  \<open>processed_values\<close>, the array of 13 entries that travels through the queues, is a record
  whose fields are the positions 0 to 12. A row of the \<open>StandardLogger\<close>'s data frame holds
  the first twelve of them under the frame's column names.
\<close>

record processed =
  a_tNow :: datetime
  a_u :: pyfloat
  a_v :: pyfloat
  a_w :: pyfloat
  a_d2 :: pyfloat
  a_d3 :: pyfloat
  a_az :: pyfloat
  a_ele :: pyfloat
  a_press :: pyfloat
  a_temp :: pyfloat
  a_rh :: pyfloat
  a_sonic :: pyfloat
  a_err :: pyfloat

record frame_row =
  col_TIME :: datetime
  col_U :: pyfloat
  col_V :: pyfloat
  col_W :: pyfloat
  col_d2 :: pyfloat
  col_d3 :: pyfloat
  col_Az :: pyfloat
  col_Ele_deg :: pyfloat
  col_Press_raw :: pyfloat
  col_Temp :: pyfloat
  col_RH :: pyfloat
  col_Sonic :: pyfloat

definition concat_data :: "frame_row list \<Rightarrow> processed \<Rightarrow> frame_row list" where
  "concat_data df1 data_array =
     df1 @ [\<lparr>col_TIME = a_tNow data_array, col_U = a_u data_array, col_V = a_v data_array,
             col_W = a_w data_array, col_d2 = a_d2 data_array, col_d3 = a_d3 data_array,
             col_Az = a_az data_array, col_Ele_deg = a_ele data_array,
             col_Press_raw = a_press data_array, col_Temp = a_temp data_array,
             col_RH = a_rh data_array, col_Sonic = a_sonic data_array\<rparr>]"

definition float_at :: "string list \<Rightarrow> nat \<Rightarrow> pyfloat option" where
  \<comment> \<open>\<open>float(values[n])\<close>; \<open>None\<close> is the \<open>IndexError\<close> or the \<open>ValueError\<close>, which
      \<open>process_raw_data\<close> handles alike\<close>
  "float_at values n = (if n < length values then py_float (values ! n) else None)"

definition data_dict_of :: "processed \<Rightarrow> pydict" where
  "data_dict_of a =
     [(''tNow'', Time (a_tNow a)), (''u_m_s'', Num (a_u a)), (''v_m_s'', Num (a_v a)),
      (''w_m_s'', Num (a_w a)), (''2dSpeed_m_s'', Num (a_d2 a)),
      (''3DSpeed_m_s'', Num (a_d3 a)), (''Azimuth_deg'', Num (a_az a)),
      (''Elev_deg'', Num (a_ele a)), (''Press_Pa'', Num (a_press a)),
      (''Temp_C'', Num (a_temp a)), (''Hum_RH'', Num (a_rh a)),
      (''SonicTemp_C'', Num (a_sonic a)), (''Error'', Num (a_err a))]"

definition process_raw_data_try :: "string list \<Rightarrow> datetime \<Rightarrow> processed option" where
  \<comment> \<open>the body of the \<open>try\<close> statement; \<open>None\<close> when it raises\<close>
  "process_raw_data_try values t_now =
     do {
       u \<leftarrow> float_at values 0;
       v \<leftarrow> float_at values 1;
       w \<leftarrow> float_at values 2;
       d2 \<leftarrow> float_at values 3;
       d3 \<leftarrow> float_at values 4;
       az \<leftarrow> float_at values 5;
       ele \<leftarrow> float_at values 6;
       press_raw \<leftarrow> float_at values 7;
       temp \<leftarrow> float_at values 8;
       rh \<leftarrow> float_at values 9;
       sonic \<leftarrow> float_at values 10;
       err_count \<leftarrow> float_at values 11;
       let corrected_press = fmul (fadd (fmul (Fin 0.02) press_raw) (Fin 950)) (Fin 100);
       let corrected_temp = fsub (fmul (fmul (Fin 100) (Fin (1 / 4000))) temp) (Fin 50);
       let corrected_rh = fmul (fmul (Fin 100) (Fin (1 / 4000))) rh;
       Some \<lparr>a_tNow = t_now, a_u = u, a_v = v, a_w = w, a_d2 = d2, a_d3 = d3,
             a_az = az, a_ele = ele, a_press = corrected_press, a_temp = corrected_temp,
             a_rh = corrected_rh, a_sonic = sonic, a_err = err_count\<rparr>
     }"

definition process_raw_data :: "string list \<Rightarrow> int \<Rightarrow> datetime \<Rightarrow> processed \<times> pydict" where
  \<comment> \<open>\<open>t_now\<close> is the value of \<open>datetime.now()\<close>; the three \<open>except\<close> clauses do the same\<close>
  "process_raw_data values error_count t_now =
     (let processed_values =
            (case process_raw_data_try values t_now of
               Some a \<Rightarrow> a
             | None \<Rightarrow>
                 \<lparr>a_tNow = t_now, a_u = Fin 0, a_v = Fin 0, a_w = Fin 0, a_d2 = Fin 0,
                  a_d3 = Fin 0, a_az = Fin 0, a_ele = Fin 0, a_press = Fin 0, a_temp = Fin 0,
                  a_rh = Fin 0, a_sonic = Fin 0, a_err = Fin (of_int (error_count + 1))\<rparr>)
      in (processed_values, data_dict_of processed_values))"

definition keys_to_round :: "string list" where
  "keys_to_round =
     [''u_m_s'', ''v_m_s'', ''w_m_s'', ''2dSpeed_m_s'', ''3DSpeed_m_s'', ''Azimuth_deg'',
      ''Elev_deg'', ''Press_Pa'', ''Temp_C'', ''Hum_RH'', ''SonicTemp_C'', ''Error'']"

definition prepare_data_for_logging :: "pydict \<Rightarrow> exn + pydict" where
  "prepare_data_for_logging data_dict = round_only_roundable_dict_keys data_dict keys_to_round"

section \<open>threads.py\<close>

subsection \<open>ModeMonitor\<close>

record mode_monitor =
  mm_host :: string
  mm_port :: nat

datatype socket_input =
    NotReadable  \<comment> \<open>\<open>select\<close> does not report the socket\<close>
  | RecvRaises  \<comment> \<open>\<open>select\<close> or \<open>recvfrom\<close> raises\<close>
  | Datagram string  \<comment> \<open>the bytes \<open>recvfrom\<close> returns\<close>

type_synonym datagram_sent = "string \<times> string \<times> nat"  \<comment> \<open>payload, host, port\<close>

definition check_mode_command ::
  "(string \<Rightarrow> string option) \<Rightarrow> bool \<Rightarrow> mode_monitor \<Rightarrow> socket_input \<Rightarrow> pyfloat \<Rightarrow>
   bool \<times> pyfloat \<times> datagram_sent list" where
  \<comment> \<open>The result is the value returned, \<open>sdl_mode.value\<close> afterwards and the datagrams sent.
      \<open>decode\<close> is \<open>bytes.decode\<close>; \<open>send_raises\<close> tells whether creating the response socket
      or \<open>sendto\<close> raises. The outer \<open>except Exception\<close> turns every failure into \<open>False\<close>.\<close>
  "check_mode_command decode send_raises self inp sdl_mode =
     (case inp of
        NotReadable \<Rightarrow> (False, sdl_mode, [])
      | RecvRaises \<Rightarrow> (False, sdl_mode, [])
      | Datagram data \<Rightarrow>
          (case decode data of
             None \<Rightarrow> (False, sdl_mode, [])
           | Some text \<Rightarrow>
               (let command = strip text
                in if upper command = ''STATUS'' then
                     (let mode_str = (if fgt0 sdl_mode then ''32Hz'' else ''1Hz'');
                          status_msg = ''CURRENT_MODE:'' @ mode_str
                      in (False, sdl_mode,
                          if send_raises then [] else [(status_msg, mm_host self, 8251)]))
                   else
                     (case py_float command of
                        Some new_status \<Rightarrow>
                          if \<not> feq new_status sdl_mode then (True, new_status, [])
                          else (False, sdl_mode, [])
                      | None \<Rightarrow> (False, sdl_mode, [])))))"

subsection \<open>HighFrequencyLogger\<close>

text \<open>
  The loggers are modelled one pass of their loop at a time. The clock, the rates and the
  times a logger keeps are finite numbers of seconds. \<open>sdl_mode k\<close> is the value that the
  \<open>k\<close>-th place of the loop body that reads \<open>sdl_mode.value\<close> finds there.
\<close>

record high_frequency_logger =
  hf_high_freq_rate :: rat
  hf_mode_changed :: bool
  hf_last_write_time :: rat
  hf_last_mode :: pyfloat

definition hf_pass ::
  "high_frequency_logger \<Rightarrow> (nat \<Rightarrow> pyfloat) \<Rightarrow> rat \<Rightarrow> processed list \<Rightarrow>
   high_frequency_logger \<times> processed list \<times> (exn + pydict) option" where
  \<comment> \<open>One pass of the loop of \<open>HighFrequencyLogger.run\<close>: the logger, the items left in
      \<open>data_queue\<close>, and the argument of \<open>data_logger.write_logfile\<close> when it is reached.
      \<open>current_time\<close> is \<open>time.time()\<close>.\<close>
  "hf_pass self sdl_mode current_time data_queue =
     (let current_mode = sdl_mode 0;
          (s1, q1) =
            (if \<not> feq current_mode (hf_last_mode self)
             then (self\<lparr>hf_last_mode := current_mode, hf_mode_changed := True\<rparr>, [])
             else (self, data_queue))
      in if q1 \<noteq> [] \<and> fgt0 (sdl_mode 1) then
           (if current_time - hf_last_write_time s1 < hf_high_freq_rate s1 then (s1, q1, None)
            else
              (let new_data = hd q1;
                   s2 = s1\<lparr>hf_last_write_time := current_time, hf_mode_changed := False\<rparr>;
                   rounded_data = prepare_data_for_logging (data_dict_of new_data)
               in (s2, tl q1, Some rounded_data)))
         else (s1, q1, None))"

subsection \<open>StandardLogger\<close>

record standard_logger =
  sl_standard_rate :: rat
  sl_data_frame :: "frame_row list"
  sl_mode_changed :: bool
  sl_display_counter :: nat
  sl_last_1hz_update :: rat
  sl_last_display_update :: rat
  sl_last_data :: "processed option"
  sl_last_mode :: pyfloat

definition buffer_limit :: nat where
  "buffer_limit = 32"

definition take_sample :: "standard_logger \<Rightarrow> processed \<Rightarrow> standard_logger" where
  \<comment> \<open>the body of the loop that empties the queue\<close>
  "take_sample self data_array =
     (let df = concat_data (sl_data_frame self) data_array
      in self\<lparr>sl_last_data := Some data_array,
              sl_data_frame :=
                (if buffer_limit < length df then drop (length df - buffer_limit) df else df)\<rparr>)"

definition second_of :: "datetime \<Rightarrow> int" where
  \<comment> \<open>the wall-clock second a time stamp lies in\<close>
  "second_of t = t div 1000000"

fun fdiv_count :: "pyfloat \<Rightarrow> nat \<Rightarrow> pyfloat" where
  \<comment> \<open>a sum divided by a positive count\<close>
  "fdiv_count (Fin x) n = Fin (x / of_nat n)"
| "fdiv_count PInf n = PInf"
| "fdiv_count NInf n = NInf"
| "fdiv_count NaN n = NaN"

definition fmean :: "pyfloat list \<Rightarrow> pyfloat" where
  \<comment> \<open>the mean of a column of a group, which skips not-a-number\<close>
  "fmean xs =
     (let ys = filter (\<lambda>x. x \<noteq> NaN) xs
      in if ys = [] then NaN else fdiv_count (foldl fadd (Fin 0) ys) (length ys))"

definition first_second :: "frame_row list \<Rightarrow> frame_row list" where
  \<comment> \<open>The rows behind row \<open>0\<close> of \<open>resample("1s")\<close>: resampling groups the rows by the
      wall-clock second of \<open>TIME\<close>, earliest second first.\<close>
  "first_second df =
     filter (\<lambda>r. second_of (col_TIME r) = min_list (map (\<lambda>r. second_of (col_TIME r)) df)) df"

definition averaged_row :: "frame_row list \<Rightarrow> datetime \<Rightarrow> processed \<Rightarrow> pydict" where
  \<comment> \<open>\<open>my_data\<close> when there is enough data: row \<open>0\<close> of the resampled frame and the error
      count of the latest sample\<close>
  "averaged_row df exact_second_timestamp last_data =
     (let g = first_second df
      in [(''tNow'', Time exact_second_timestamp), (''u_m_s'', Num (fmean (map col_U g))),
          (''v_m_s'', Num (fmean (map col_V g))), (''w_m_s'', Num (fmean (map col_W g))),
          (''2dSpeed_m_s'', Num (fmean (map col_d2 g))),
          (''3DSpeed_m_s'', Num (fmean (map col_d3 g))),
          (''Azimuth_deg'', Num (fmean (map col_Az g))),
          (''Elev_deg'', Num (fmean (map col_Ele_deg g))),
          (''Press_Pa'', Num (fmean (map col_Press_raw g))),
          (''Temp_C'', Num (fmean (map col_Temp g))), (''Hum_RH'', Num (fmean (map col_RH g))),
          (''SonicTemp_C'', Num (fmean (map col_Sonic g))),
          (''Error'', Num (a_err last_data))])"

record standard_output =
  displayed :: "(pydict \<times> string) option"  \<comment> \<open>the arguments of \<open>format_data_display\<close>\<close>
  written :: "pydict option"  \<comment> \<open>the argument of \<open>data_logger.write_logfile\<close>\<close>

definition standard_pass ::
  "standard_logger \<Rightarrow> (nat \<Rightarrow> pyfloat) \<Rightarrow> rat \<Rightarrow> processed list \<Rightarrow> datetime \<Rightarrow>
   standard_logger \<times> standard_output" where
  \<comment> \<open>One pass of the loop of \<open>StandardLogger.run\<close>. \<open>incoming\<close> are the items the pass takes
      from \<open>data_queue\<close>, oldest first; \<open>current_time\<close> is \<open>time.time()\<close> and \<open>now\<close> is
      \<open>datetime.now()\<close>.\<close>
  "standard_pass self sdl_mode current_time incoming now =
     (let current_mode = sdl_mode 0;
          s1 = (if \<not> feq current_mode (sl_last_mode self)
                then self\<lparr>sl_last_mode := current_mode,
                          sl_last_display_update :=
                            (if fgt0 current_mode then 0 else sl_last_display_update self),
                          sl_mode_changed := True, sl_display_counter := 0\<rparr>
                else self);
          enough_data_for_1hz = (buffer_limit \<le> length (sl_data_frame s1));
          time_for_1hz_update = (sl_standard_rate s1 \<le> current_time - sl_last_1hz_update s1);
          time_for_display = (1 \<le> current_time - sl_last_display_update s1);
          s2 = foldl take_sample s1 incoming
      in case sl_last_data s2 of
           None \<Rightarrow> (s2, \<lparr>displayed = None, written = None\<rparr>)
         | Some last_data \<Rightarrow>
             if time_for_1hz_update \<or> (fgt0 (sdl_mode 1) \<and> time_for_display) then
               (let s3 = s2\<lparr>sl_last_1hz_update :=
                               (if time_for_1hz_update then current_time
                                else sl_last_1hz_update s2),
                             sl_last_display_update :=
                               (if time_for_display then current_time
                                else sl_last_display_update s2)\<rparr>;
                    exact_second_timestamp = now - now mod 1000000;
                    my_data =
                      (if enough_data_for_1hz
                       then averaged_row (sl_data_frame s2) exact_second_timestamp last_data
                       else data_dict_of (last_data\<lparr>a_tNow := exact_second_timestamp\<rparr>))
                in case prepare_data_for_logging my_data of
                     Inl e \<Rightarrow> (s3, \<lparr>displayed = None, written = None\<rparr>)
                   | Inr my_data_rounded \<Rightarrow>
                       (let current_mode_str = (if fgt0 (sdl_mode 2) then ''32 Hz'' else ''1 Hz'');
                            shown = (feq (sdl_mode 3) (Fin 0) \<or> time_for_display);
                            s4 = (if shown
                                  then s3\<lparr>sl_display_counter := sl_display_counter s3 + 1\<rparr>
                                  else s3)
                        in (s4,
                            \<lparr>displayed =
                               (if shown then Some (my_data_rounded, current_mode_str) else None),
                             written =
                               (if time_for_1hz_update \<and> feq (sdl_mode 4) (Fin 0)
                                then Some my_data_rounded else None)\<rparr>)))
             else (s2, \<lparr>displayed = None, written = None\<rparr>))"

section \<open>weather_station.py\<close>

text \<open>
  A \<open>queue.Queue\<close> is its bound and its items, oldest first; a bound of \<open>0\<close> is no bound.
  The producer is modelled on its own: no consumer takes an item while a sample is enqueued.
\<close>

record 'a pyqueue =
  q_maxsize :: nat
  q_items :: "'a list"

definition full :: "'a pyqueue \<Rightarrow> bool" where
  "full q = (0 < q_maxsize q \<and> q_maxsize q \<le> length (q_items q))"

definition put_nowait :: "'a pyqueue \<Rightarrow> 'a \<Rightarrow> exn + 'a pyqueue" where
  \<comment> \<open>\<open>q.put(x, block=False)\<close>\<close>
  "put_nowait q x = (if full q then Inl QueueFull else Inr (q\<lparr>q_items := q_items q @ [x]\<rparr>))"

definition drain :: "'a pyqueue \<Rightarrow> 'a pyqueue" where
  \<comment> \<open>\<open>while not q.empty(): q.get_nowait()\<close>\<close>
  "drain q = q\<lparr>q_items := []\<rparr>"

datatype log_level = DEBUG | INFO | WARNING | ERROR

type_synonym log_record = "log_level \<times> string"

record queues =
  queue_high_freq :: "processed pyqueue"
  queue_standard :: "processed pyqueue"
  queue_visualization :: "processed pyqueue"

definition enqueue_sample ::
  "pyfloat \<Rightarrow> processed \<Rightarrow> queues \<Rightarrow> nat \<Rightarrow> queues \<times> nat \<times> log_record list" where
  \<comment> \<open>The \<open>try\<close> statement of the main loop that adds \<open>processed_values\<close> to the queues:
      the result is the queues, \<open>data_points_count\<close> and the records logged. The text of a
      \<open>queue.Full\<close> exception is empty.\<close>
  "enqueue_sample sdl_mode processed_values qs data_points_count =
     (let (hf, count, log_hf) =
            (if fgt0 sdl_mode then
               (case put_nowait (queue_high_freq qs) processed_values of
                  Inr q \<Rightarrow> (q, data_points_count + 1, [])
                | Inl e \<Rightarrow>
                    (case put_nowait (drain (queue_high_freq qs)) processed_values of
                       Inr q \<Rightarrow>
                         (q, data_points_count + 1,
                          [(INFO, ''High frequency queue cleared and new data added'')])
                     | Inl e' \<Rightarrow>
                         (drain (queue_high_freq qs), data_points_count,
                          [(WARNING, ''High frequency queue handling error: ''),
                           (WARNING, ''High frequency queue full, skipping data point'')])))
             else (queue_high_freq qs, data_points_count, []))
      in case put_nowait (queue_standard qs) processed_values of
           Inl e \<Rightarrow>
             (qs\<lparr>queue_high_freq := hf\<rparr>, count,
              log_hf @ [(WARNING, ''Standard queue full, skipping data point'')])
         | Inr st \<Rightarrow>
             (case put_nowait (queue_visualization qs) processed_values of
                Inr viz \<Rightarrow>
                  (\<lparr>queue_high_freq = hf, queue_standard = st, queue_visualization = viz\<rparr>,
                   count, log_hf)
              | Inl e \<Rightarrow>
                  (case put_nowait (drain (queue_visualization qs)) processed_values of
                     Inr viz \<Rightarrow>
                       (\<lparr>queue_high_freq = hf, queue_standard = st,
                         queue_visualization = viz\<rparr>,
                        count,
                        log_hf @ [(DEBUG, ''Visualization queue cleared and new data added'')])
                   | Inl e' \<Rightarrow>
                       (\<lparr>queue_high_freq = hf, queue_standard = st,
                         queue_visualization = drain (queue_visualization qs)\<rparr>,
                        count,
                        log_hf @ [(WARNING, ''Visualization queue handling error: '')]))))"

definition push_policy :: "'a pyqueue \<Rightarrow> 'a \<Rightarrow> 'a pyqueue \<times> bool" where
  \<comment> \<open>The push policy in the words of the specification: attempt a non-blocking push; if
      the queue is full, drain it and retry once; if it is still full, drop the sample. The
      second component tells whether the sample was dropped.\<close>
  "push_policy q x =
     (if \<not> full q then (q\<lparr>q_items := q_items q @ [x]\<rparr>, False)
      else if \<not> full (drain q) then (q\<lparr>q_items := [x]\<rparr>, False)
      else (drain q, True))"

section \<open>logger.py\<close>

text \<open>
  The \<open>DataLogger\<close> is modelled with the directory it writes to: \<open>dl_files\<close> are the paths of
  the files that exist, and \<open>dl_events\<close> are the operations on log files performed so far,
  in order. Only the logger changes the directory. \<open>strftime\<close> formats a time with
  \<open>self.strftime_str\<close>, and \<open>open_ok\<close> tells whether \<open>open\<close> succeeds on a path. The
  symbolic links are left out; their names are not names of log files.
\<close>

datatype fs_event =
    Opened string bool  \<comment> \<open>\<open>open(path, "a")\<close>, and whether the file existed before\<close>
  | Closed string
  | Header string "string list"  \<comment> \<open>\<open>writeheader\<close>: the path and the field names written\<close>
  | Row string pydict  \<comment> \<open>\<open>writerow\<close>\<close>

record data_logger =
  dl_log_dir :: string
  dl_fieldnames :: "string list"
  dl_name_change_cnt :: nat
  dl_fname_prefix :: string
  dl_file_exists :: bool
  dl_fd_log :: string  \<comment> \<open>the path of \<open>self.fd_log\<close>\<close>
  dl_fd_open :: bool  \<comment> \<open>whether \<open>self.fd_log\<close> is open\<close>
  dl_first_log_line :: bool
  dl_q_fname :: "string list"
  dl_files :: "string list"
  dl_events :: "fs_event list"

definition path_join :: "string \<Rightarrow> string \<Rightarrow> string" where
  \<comment> \<open>\<open>os.path.join\<close> of two components\<close>
  "path_join a b =
     (if b \<noteq> [] \<and> hd b = CHR ''/'' then b
      else if a = [] \<or> last a = CHR ''/'' then a @ b
      else a @ ''/'' @ b)"

definition open_new_logfile_at_current_time ::
  "(datetime \<Rightarrow> string) \<Rightarrow> (string \<Rightarrow> bool) \<Rightarrow> datetime \<Rightarrow> data_logger \<Rightarrow>
   bool \<times> data_logger" where
  \<comment> \<open>\<open>t_now_fname\<close> is \<open>datetime.now()\<close>. The first component is \<open>False\<close> when the method
      leaves through \<open>sys.exit(-1)\<close>.\<close>
  "open_new_logfile_at_current_time strftime open_ok t_now_fname self =
     (let fname_prefix = strftime t_now_fname;
          csv_name_log =
            path_join (dl_log_dir self) (fname_prefix @ ''_weather_station_data.csv'');
          file_exists = (csv_name_log \<in> set (dl_files self));
          s1 = self\<lparr>dl_fname_prefix := fname_prefix, dl_file_exists := file_exists\<rparr>
      in if open_ok csv_name_log then
           (True,
            s1\<lparr>dl_fd_log := csv_name_log, dl_fd_open := True, dl_first_log_line := True,
               dl_files := (if file_exists then dl_files s1 else dl_files s1 @ [csv_name_log]),
               dl_events := dl_events s1 @ [Opened csv_name_log file_exists]\<rparr>)
         else (False, s1))"











section \<open>Properties\<close>

subsection \<open>Regular expressions: the matcher decides the language\<close>

lemma concI: "u \<in> A \<Longrightarrow> v \<in> B \<Longrightarrow> u @ v \<in> conc A B"
  by (auto simp: conc_def)

lemma concE: "w \<in> conc A B \<Longrightarrow> (\<And>u v. w = u @ v \<Longrightarrow> u \<in> A \<Longrightarrow> v \<in> B \<Longrightarrow> P) \<Longrightarrow> P"
  by (auto simp: conc_def)

lemma conc_mono: "A \<subseteq> A' \<Longrightarrow> B \<subseteq> B' \<Longrightarrow> conc A B \<subseteq> conc A' B'"
  by (auto simp: conc_def)

lemma conc_nil_left: "[] \<in> A \<Longrightarrow> B \<subseteq> conc A B"
proof
  fix w assume "[] \<in> A" "w \<in> B"
  then have "[] @ w \<in> conc A B" by (rule concI)
  then show "w \<in> conc A B" by simp
qed

lemma conc_nil_right: "[] \<in> B \<Longrightarrow> A \<subseteq> conc A B"
proof
  fix w assume "[] \<in> B" "w \<in> A"
  then have "w @ [] \<in> conc A B" by (intro concI)
  then show "w \<in> conc A B" by simp
qed

lemma star_mono: "A \<subseteq> B \<Longrightarrow> star A \<subseteq> star B"
proof
  fix w assume sub: "A \<subseteq> B" and "w \<in> star A"
  from this(2) show "w \<in> star B"
    by induction (use sub in \<open>auto intro: star.intros\<close>)
qed

lemma star_conc_closed: "u \<in> star A \<Longrightarrow> v \<in> star A \<Longrightarrow> u @ v \<in> star A"
  by (induction rule: star.induct) (auto intro: star.intros)

lemma plus_sub_star: "conc A (star A) \<subseteq> star A"
  by (auto elim!: concE intro: star.intros)

lemma star_plus_absorb: "conc (star A) (conc A (star A)) \<subseteq> conc A (star A)"
proof
  fix w assume "w \<in> conc (star A) (conc A (star A))"
  then obtain u v where w: "w = u @ v" and u: "u \<in> star A" and v: "v \<in> conc A (star A)"
    by (rule concE)
  from u v show "w \<in> conc A (star A)" unfolding w
  proof (induction rule: star.induct)
    case star_nil
    then show ?case by simp
  next
    case (star_app a r)
    then have "r @ v \<in> star A" using plus_sub_star by blast
    with star_app.hyps(1) have "a @ (r @ v) \<in> conc A (star A)" by (rule concI)
    then show ?case by simp
  qed
qed

lemma star_cases_sub: "star A \<subseteq> {[]} \<union> conc A (star A)"
proof
  fix w assume "w \<in> star A"
  then show "w \<in> {[]} \<union> conc A (star A)"
    by cases (auto intro: concI)
qed

lemma nullable_iff: "nullable r \<longleftrightarrow> [] \<in> lang r"
  by (induction r) (auto simp: conc_def intro: star.intros)

lemma deriv_star_aux:
  "x \<in> star A \<Longrightarrow> x = c # w \<Longrightarrow> w \<in> conc {u. c # u \<in> A} (star A)"
proof (induction arbitrary: w rule: star.induct)
  case star_nil
  then show ?case by simp
next
  case (star_app u v)
  show ?case
  proof (cases u)
    case Nil
    with star_app show ?thesis by simp
  next
    case (Cons a u')
    with star_app.prems have "a = c" "w = u' @ v" by simp_all
    moreover from Cons star_app.hyps(1) \<open>a = c\<close> have "u' \<in> {u. c # u \<in> A}" by simp
    ultimately show ?thesis using star_app.hyps(2) by (auto intro: concI)
  qed
qed

lemma lang_deriv: "lang (deriv c r) = {w. c # w \<in> lang r}"
proof (induction r)
  case (Seq r s)
  have "{w. c # w \<in> conc (lang r) (lang s)} =
        conc {w. c # w \<in> lang r} (lang s) \<union> (if [] \<in> lang r then {w. c # w \<in> lang s} else {})"
    by (auto simp: conc_def Cons_eq_append_conv) 
  with Seq show ?case by (simp add: nullable_iff)
next
  case (Star r)
  have "{w. c # w \<in> star (lang r)} = conc {w. c # w \<in> lang r} (star (lang r))"
  proof (intro equalityI subsetI)
    fix w assume "w \<in> {w. c # w \<in> star (lang r)}"
    then show "w \<in> conc {w. c # w \<in> lang r} (star (lang r))"
      using deriv_star_aux by blast
  next
    fix w assume "w \<in> conc {w. c # w \<in> lang r} (star (lang r))"
    then obtain u v where "w = u @ v" "c # u \<in> lang r" "v \<in> star (lang r)"
      by (auto elim: concE)
    then have "(c # u) @ v \<in> star (lang r)" by (intro star.intros)
    with \<open>w = u @ v\<close> show "w \<in> {w. c # w \<in> star (lang r)}" by simp
  qed
  with Star show ?case by simp
qed auto

lemma matches_iff: "matches r w \<longleftrightarrow> w \<in> lang r"
  by (induction w arbitrary: r) (simp_all add: nullable_iff lang_deriv)

subsection \<open>Every string of the sensor pattern is a decimal number for \<open>float\<close>\<close>

lemma conc_assoc: "conc (conc A B) C = conc A (conc B C)"
proof (intro equalityI subsetI)
  fix w assume "w \<in> conc (conc A B) C"
  then obtain ab c where 1: "w = ab @ c" "ab \<in> conc A B" "c \<in> C" by (rule concE)
  from 1(2) obtain a b where 2: "ab = a @ b" "a \<in> A" "b \<in> B" by (rule concE)
  from 2(3) 1(3) have "b @ c \<in> conc B C" by (rule concI)
  with 2(2) have "a @ (b @ c) \<in> conc A (conc B C)" by (rule concI)
  with 1(1) 2(1) show "w \<in> conc A (conc B C)" by simp
next
  fix w assume "w \<in> conc A (conc B C)"
  then obtain a bc where 1: "w = a @ bc" "a \<in> A" "bc \<in> conc B C" by (rule concE)
  from 1(3) obtain b c where 2: "bc = b @ c" "b \<in> B" "c \<in> C" by (rule concE)
  from 1(2) 2(2) have "a @ b \<in> conc A B" by (rule concI)
  then have "(a @ b) @ c \<in> conc (conc A B) C" using 2(3) by (rule concI)
  with 1(1) 2(1) show "w \<in> conc (conc A B) C" by simp
qed

lemma conc_Un_left: "conc (A \<union> B) C = conc A C \<union> conc B C"
  by (auto simp: conc_def)

lemma conc_unit_left: "conc {[]} A = A"
  by (auto simp: conc_def)

lemma conc_unit_right: "conc A {[]} = A"
  by (auto simp: conc_def)

lemma conc_Un_right: "conc A (B \<union> C) = conc A B \<union> conc A C"
  by (auto simp: conc_def)

lemma lang_Opt: "lang (Opt r) = {[]} \<union> lang r"
  by (simp add: Opt_def)

lemma lang_Plus: "lang (Plus r) = conc (lang r) (star (lang r))"
  by (simp add: Plus_def)

lemma digits_sub_digitpart: "lang (Plus rx_digit) \<subseteq> lang rx_digitpart"
proof -
  have "lang rx_digit \<subseteq> conc (lang (Opt (Cls ''_''))) (lang rx_digit)"
    by (rule conc_nil_left) (simp add: lang_Opt)
  then have "star (lang rx_digit) \<subseteq> star (conc (lang (Opt (Cls ''_''))) (lang rx_digit))"
    by (rule star_mono)
  then show ?thesis
    unfolding lang_Plus rx_digitpart_def lang.simps by (intro conc_mono subset_refl)
qed

lemma mantissa_sub_number:
  "conc (conc (lang (Star rx_digit)) (lang (Opt rx_dot))) (lang (Plus rx_digit)) \<subseteq> lang rx_number"
proof -
  let ?D = "lang rx_digit" and ?P = "lang (Plus rx_digit)" and ?DP = "lang rx_digitpart"
  have nodot: "conc (star ?D) ?P \<subseteq> lang rx_number"
  proof -
    have "conc (star ?D) ?P \<subseteq> ?P" unfolding lang_Plus by (rule star_plus_absorb)
    also have "\<dots> \<subseteq> ?DP" by (rule digits_sub_digitpart)
    also have "\<dots> \<subseteq> conc ?DP (lang (Opt rx_dot))"
      by (rule conc_nil_right) (simp add: lang_Opt)
    also have "\<dots> \<subseteq> lang rx_number" by (simp add: rx_number_def)
    finally show ?thesis .
  qed
  have dot: "conc (conc (star ?D) (lang rx_dot)) ?P \<subseteq> lang rx_number"
  proof -
    have "star ?D \<subseteq> {[]} \<union> ?P" unfolding lang_Plus by (rule star_cases_sub)
    also have "\<dots> \<subseteq> lang (Opt rx_digitpart)"
      using digits_sub_digitpart by (auto simp: lang_Opt)
    finally have "conc (star ?D) (conc (lang rx_dot) ?P)
        \<subseteq> conc (lang (Opt rx_digitpart)) (conc (lang rx_dot) ?DP)"
      by (intro conc_mono subset_refl digits_sub_digitpart)
    also have "\<dots> \<subseteq> lang rx_number" by (simp add: rx_number_def)
    finally show ?thesis by (simp add: conc_assoc)
  qed
  have "conc (conc (star ?D) (lang (Opt rx_dot))) ?P
      = conc (star ?D) ?P \<union> conc (conc (star ?D) (lang rx_dot)) ?P"
    unfolding lang_Opt conc_Un_right conc_Un_left conc_unit_right by (rule refl)
  with nodot dot show ?thesis by simp
qed

lemma exponent_sub:
  "lang (Opt (Seq rx_e (Seq (Opt rx_sign) (Plus rx_digit)))) \<subseteq> lang (Opt rx_exponent)"
proof -
  have "conc (lang rx_e) (conc (lang (Opt rx_sign)) (lang (Plus rx_digit)))
      \<subseteq> conc (lang rx_e) (conc (lang (Opt rx_sign)) (lang rx_digitpart))"
    by (intro conc_mono subset_refl digits_sub_digitpart)
  then show ?thesis by (auto simp: lang_Opt rx_exponent_def)
qed

lemma newline_sub_space: "lang (Opt (Cls [CHR 0x0A])) \<subseteq> lang (Star rx_space)"
proof -
  have "[CHR 0x0A] \<in> lang rx_space" by (simp add: rx_space_def float_space_chars_def)
  then have "[CHR 0x0A] @ [] \<in> star (lang rx_space)" by (intro star.intros)
  then show ?thesis by (auto simp: lang_Opt intro: star_nil)
qed

lemma float_pattern_sub_grammar: "lang float_pattern \<subseteq> lang float_grammar"
proof -
  have "lang float_pattern =
      conc (lang (Opt rx_sign))
        (conc (conc (conc (lang (Star rx_digit)) (lang (Opt rx_dot))) (lang (Plus rx_digit)))
          (conc (lang (Opt (Seq rx_e (Seq (Opt rx_sign) (Plus rx_digit)))))
            (lang (Opt (Cls [CHR 0x0A])))))"
    by (simp add: float_pattern_def conc_assoc)
  also have "\<dots> \<subseteq>
      conc (lang (Opt rx_sign))
        (conc (lang rx_number) (conc (lang (Opt rx_exponent)) (lang (Star rx_space))))"
    by (intro conc_mono subset_refl mantissa_sub_number exponent_sub newline_sub_space)
  also have "\<dots> = lang (Seq (Opt rx_sign) (Seq rx_number (Seq (Opt rx_exponent) (Star rx_space))))"
    by simp
  also have "\<dots> \<subseteq> conc (lang (Star rx_space))
      (lang (Seq (Opt rx_sign) (Seq rx_number (Seq (Opt rx_exponent) (Star rx_space)))))"
    by (rule conc_nil_left) (simp add: star_nil)
  also have "\<dots> = lang float_grammar"
    by (simp add: float_grammar_def)
  finally show ?thesis .
qed

lemma matches_pattern_float: "matches float_pattern s \<Longrightarrow> py_float s \<noteq> None"
  using float_pattern_sub_grammar by (auto simp: py_float_def matches_iff)

lemma zero_literal_float: "py_float ''0.0'' \<noteq> None"
  by code_simp

lemma clean_sensor_value_float: "py_float (clean_sensor_value v) \<noteq> None"
proof (cases v)
  case (PyStr s)
  show ?thesis
  proof (cases "is_valid_float_string (PyStr (filter isprintable s))")
    case True
    then have "matches float_pattern (filter isprintable s)"
      by (simp add: is_valid_float_string_def Let_def split: if_splits)
    then have "py_float (filter isprintable s) \<noteq> None" by (rule matches_pattern_float)
    with True PyStr show ?thesis by (simp add: clean_sensor_value_def)
  next
    case False
    with PyStr show ?thesis by (simp add: clean_sensor_value_def zero_literal_float)
  qed
qed (simp_all add: clean_sensor_value_def zero_literal_float)

lemma generate_simulated_data_float:
  "\<forall>i<11. py_float (str_of (rnd i)) \<noteq> None \<Longrightarrow>
   x \<in> set (generate_simulated_data str_of rnd) \<Longrightarrow> py_float x \<noteq> None"
proof -
  assume sim: "\<forall>i<11. py_float (str_of (rnd i)) \<noteq> None"
    and x: "x \<in> set (generate_simulated_data str_of rnd)"
  have zero: "py_float ''0'' \<noteq> None" by code_simp
  have p: "py_float (str_of (rnd i)) \<noteq> None" if "i < 11" for i
    using sim that by blast
  from x show ?thesis
    unfolding generate_simulated_data_def
    using zero p[of 0] p[of 1] p[of 2] p[of 3] p[of 4] p[of 5] p[of 6] p[of 7] p[of 8]
      p[of 9] p[of 10]
    by auto
qed

text \<open>
  C10. \<open>clean_sensor_value\<close> returns, for every input, a string that \<open>float\<close> parses:
  an input that is not a string, and a string that fails the decimal pattern once its
  non-printable characters are removed, are replaced by \<open>"0.0"\<close>. Hence every list that
  \<open>SerialHandler.read_data\<close> returns holds only strings that \<open>float\<close> parses, given that
  \<open>str\<close> of a simulated draw is such a string.
\<close>

theorem clean_sensor_value_float_parseable:
  "py_float (clean_sensor_value v) \<noteq> None
   \<and> ((\<forall>s. w \<noteq> PyStr s) \<longrightarrow> clean_sensor_value w = ''0.0'')
   \<and> (\<not> matches float_pattern (filter isprintable s) \<longrightarrow> clean_sensor_value (PyStr s) = ''0.0'')
   \<and> ((\<forall>i<11. py_float (str_of (rnd i)) \<noteq> None) \<longrightarrow>
        (\<forall>x \<in> set (snd (snd (read_data decode str_of rnd h rd))). py_float x \<noteq> None))"
proof (intro conjI impI ballI)
  show "py_float (clean_sensor_value v) \<noteq> None" by (rule clean_sensor_value_float)
next
  assume "\<forall>s. w \<noteq> PyStr s"
  then show "clean_sensor_value w = ''0.0''"
    by (cases w) (simp_all add: clean_sensor_value_def)
next
  assume "\<not> matches float_pattern (filter isprintable s)"
  then show "clean_sensor_value (PyStr s) = ''0.0''"
    by (simp add: clean_sensor_value_def is_valid_float_string_def)
next
  fix x
  assume sim: "\<forall>i<11. py_float (str_of (rnd i)) \<noteq> None"
    and x: "x \<in> set (snd (snd (read_data decode str_of rnd h rd)))"
  from x consider "x \<in> set (generate_simulated_data str_of rnd)"
    | val where "x = clean_sensor_value (PyStr val)"
    by (auto simp: read_data_def Let_def split: if_splits serial_read.splits option.splits)
  then show "py_float x \<noteq> None"
  proof cases
    case 1
    with sim show ?thesis by (rule generate_simulated_data_float)
  next
    case 2
    then show ?thesis by (simp add: clean_sensor_value_float)
  qed
qed

theorem clean_sensor_value_float_parseable_witness:
  "(\<forall>s. PyNone \<noteq> PyStr s)
   \<and> \<not> matches float_pattern (filter isprintable ''1x2'')
   \<and> list_all (\<lambda>i. py_float (if fgt0 (Fin (rat_of_nat i - 5)) then ''1.5e0'' else ''-1.5'') \<noteq> None)
        [0 ..< 11]
   \<and> py_float (clean_sensor_value (PyStr ''12.5'')) \<noteq> None
   \<and> clean_sensor_value PyNone = ''0.0''
   \<and> clean_sensor_value (PyStr ''1x2'') = ''0.0''
   \<and> list_all (\<lambda>x. py_float x \<noteq> None)
        (snd (snd (read_data Some
          (\<lambda>x. if fgt0 x then ''1.5e0'' else ''-1.5'') (\<lambda>i. Fin (rat_of_nat i - 5))
          \<lparr>has_serial = True, sh_error_count = 0\<rparr>
          (ReadBytes ''1 2 3 4 5 6 7 8 9 10 11 1x2''))))"
proof -
  have h1: "\<forall>s. PyNone \<noteq> PyStr s" by simp
  have h2: "\<not> matches float_pattern (filter isprintable ''1x2'')" by code_simp
  have "py_float ''-1.5'' \<noteq> None" "py_float ''1.5e0'' \<noteq> None" by code_simp+
  then have h3: "\<forall>i<11. py_float (if fgt0 (Fin (rat_of_nat i - 5)) then ''1.5e0'' else ''-1.5'') \<noteq> None"
    by simp
  then have h3': "list_all (\<lambda>i. py_float (if fgt0 (Fin (rat_of_nat i - 5)) then ''1.5e0'' else ''-1.5'')
      \<noteq> None) [0 ..< 11]"
    unfolding list_all_iff by simp
  note w = clean_sensor_value_float_parseable [where v = "PyStr ''12.5''" and w = PyNone
      and s = "''1x2''" and str_of = "\<lambda>x. if fgt0 x then ''1.5e0'' else ''-1.5''"
      and rnd = "\<lambda>i. Fin (rat_of_nat i - 5)" and decode = Some
      and h = "\<lparr>has_serial = True, sh_error_count = 0\<rparr>"
      and rd = "ReadBytes ''1 2 3 4 5 6 7 8 9 10 11 1x2''"]
  note c1 = w [THEN conjunct1]
    and c2 = w [THEN conjunct2, THEN conjunct1, THEN mp, OF h1]
    and c3 = w [THEN conjunct2, THEN conjunct2, THEN conjunct1, THEN mp, OF h2]
    and c4 = w [THEN conjunct2, THEN conjunct2, THEN conjunct2, THEN mp, OF h3,
        folded list_all_iff]
  from h1 h2 h3' c1 c2 c3 c4 show ?thesis by (intro conjI)
qed

subsection \<open>Processing a raw reading\<close>

lemma float_at_parsed:
  assumes "map py_float (take 12 values) = map Some xs" and "length xs = 12" and "i < 12"
  shows "float_at values i = Some (xs ! i)"
proof -
  from assms(1) have "length (take 12 values) = length xs"
    by (metis length_map)
  with assms(2) have len: "12 \<le> length values" by simp
  with assms(3) have "py_float (values ! i) = map py_float (take 12 values) ! i"
    by simp
  also have "\<dots> = Some (xs ! i)" using assms by simp
  finally show ?thesis using len assms(3) by (simp add: float_at_def)
qed

lemma process_raw_data_try_parsed:
  assumes "map py_float (take 12 values) = map Some xs" and "length xs = 12"
  shows "process_raw_data_try values t_now =
    Some \<lparr>a_tNow = t_now, a_u = xs ! 0, a_v = xs ! 1, a_w = xs ! 2, a_d2 = xs ! 3, a_d3 = xs ! 4,
      a_az = xs ! 5, a_ele = xs ! 6,
      a_press = fmul (fadd (fmul (Fin 0.02) (xs ! 7)) (Fin 950)) (Fin 100),
      a_temp = fsub (fmul (fmul (Fin 100) (Fin (1 / 4000))) (xs ! 8)) (Fin 50),
      a_rh = fmul (fmul (Fin 100) (Fin (1 / 4000))) (xs ! 9),
      a_sonic = xs ! 10, a_err = xs ! 11\<rparr>"
proof -
  note p = float_at_parsed [OF assms]
  show ?thesis
    unfolding process_raw_data_try_def
    by (simp add: p [of 0] p [of 1, simplified] p [of 2] p [of 3] p [of 4] p [of 5] p [of 6]
        p [of 7] p [of 8] p [of 9] p [of 10] p [of 11])
qed

lemma process_raw_data_parsed:
  assumes "map py_float (take 12 values) = map Some xs" and "length xs = 12"
  shows "process_raw_data values error_count t_now =
     (\<lparr>a_tNow = t_now, a_u = xs ! 0, a_v = xs ! 1, a_w = xs ! 2, a_d2 = xs ! 3, a_d3 = xs ! 4,
       a_az = xs ! 5, a_ele = xs ! 6,
       a_press = fmul (fadd (fmul (Fin 0.02) (xs ! 7)) (Fin 950)) (Fin 100),
       a_temp = fsub (fmul (fmul (Fin 100) (Fin (1 / 4000))) (xs ! 8)) (Fin 50),
       a_rh = fmul (fmul (Fin 100) (Fin (1 / 4000))) (xs ! 9),
       a_sonic = xs ! 10, a_err = xs ! 11\<rparr>,
      [(''tNow'', Time t_now), (''u_m_s'', Num (xs ! 0)), (''v_m_s'', Num (xs ! 1)),
       (''w_m_s'', Num (xs ! 2)), (''2dSpeed_m_s'', Num (xs ! 3)),
       (''3DSpeed_m_s'', Num (xs ! 4)), (''Azimuth_deg'', Num (xs ! 5)),
       (''Elev_deg'', Num (xs ! 6)),
       (''Press_Pa'', Num (fmul (fadd (fmul (Fin 0.02) (xs ! 7)) (Fin 950)) (Fin 100))),
       (''Temp_C'', Num (fsub (fmul (fmul (Fin 100) (Fin (1 / 4000))) (xs ! 8)) (Fin 50))),
       (''Hum_RH'', Num (fmul (fmul (Fin 100) (Fin (1 / 4000))) (xs ! 9))),
       (''SonicTemp_C'', Num (xs ! 10)), (''Error'', Num (xs ! 11))])"
  by (simp add: process_raw_data_def process_raw_data_try_parsed [OF assms] data_dict_of_def
      Let_def)

lemma less_12_cases: "(i::nat) < 12 \<longleftrightarrow> i \<in> {0, 1, 2, 3, 4, 5, 6, 7, 8, 9, 10, 11}"
  by (simp only: insert_iff empty_iff) arith

lemma process_raw_data_try_None:
  "process_raw_data_try values t_now = None \<longleftrightarrow> (\<exists>i<12. float_at values i = None)"
proof -
  have "process_raw_data_try values t_now = None \<longleftrightarrow>
      (\<exists>i \<in> {0, 1, 2, 3, 4, 5, 6, 7, 8, 9, 10, 11}. float_at values i = None)"
    unfolding process_raw_data_try_def by (simp add: bind_eq_None_conv Let_def)
  then show ?thesis unfolding less_12_cases by (simp only: Bex_def)
qed

lemma process_raw_data_try_fails:
  assumes "length values < 12 \<or> (\<exists>i<12. py_float (values ! i) = None)"
  shows "process_raw_data_try values t_now = None"
proof -
  from assms have "\<exists>i<12. float_at values i = None"
  proof
    assume "length values < 12"
    then have "length values < 12 \<and> float_at values (length values) = None"
      by (simp add: float_at_def)
    then show ?thesis by blast
  next
    assume "\<exists>i<12. py_float (values ! i) = None"
    then obtain i where "i < 12" "py_float (values ! i) = None" by blast
    then have "i < 12 \<and> float_at values i = None" by (simp add: float_at_def)
    then show ?thesis by blast
  qed
  then show ?thesis by (simp only: process_raw_data_try_None)
qed

lemma process_raw_data_fallback:
  assumes "length values < 12 \<or> (\<exists>i<12. py_float (values ! i) = None)"
  shows "process_raw_data values error_count t_now =
     (\<lparr>a_tNow = t_now, a_u = Fin 0, a_v = Fin 0, a_w = Fin 0, a_d2 = Fin 0, a_d3 = Fin 0,
       a_az = Fin 0, a_ele = Fin 0, a_press = Fin 0, a_temp = Fin 0, a_rh = Fin 0,
       a_sonic = Fin 0, a_err = Fin (of_int (error_count + 1))\<rparr>,
      [(''tNow'', Time t_now), (''u_m_s'', Num (Fin 0)), (''v_m_s'', Num (Fin 0)),
       (''w_m_s'', Num (Fin 0)), (''2dSpeed_m_s'', Num (Fin 0)), (''3DSpeed_m_s'', Num (Fin 0)),
       (''Azimuth_deg'', Num (Fin 0)), (''Elev_deg'', Num (Fin 0)), (''Press_Pa'', Num (Fin 0)),
       (''Temp_C'', Num (Fin 0)), (''Hum_RH'', Num (Fin 0)), (''SonicTemp_C'', Num (Fin 0)),
       (''Error'', Num (Fin (of_int (error_count + 1))))])"
  by (simp add: process_raw_data_def process_raw_data_try_fails [OF assms] data_dict_of_def
      Let_def)

lemma parsed_or_fails:
  "length values < 12 \<or> (\<exists>i<12. py_float (values ! i) = None)
   \<or> (\<exists>xs. length xs = 12 \<and> map py_float (take 12 values) = map Some xs)"
proof (cases "length values < 12 \<or> (\<exists>i<12. py_float (values ! i) = None)")
  case True
  then show ?thesis by blast
next
  case False
  then have len: "12 \<le> length values" and ok: "\<And>i. i < 12 \<Longrightarrow> py_float (values ! i) \<noteq> None"
    by auto
  have "map py_float (take 12 values) = map Some (map (the \<circ> py_float) (take 12 values))"
    using len ok by (auto simp: list_eq_iff_nth_eq)
  moreover have "length (map (the \<circ> py_float) (take 12 values)) = 12" using len by simp
  ultimately show ?thesis by blast
qed

lemma data_dict_of_keys: "map fst (data_dict_of a) = FIELDNAMES"
  by (simp add: data_dict_of_def FIELDNAMES_def)

lemma calibration_finite:
  "fmul (fadd (fmul (Fin 0.02) (Fin p)) (Fin 950)) (Fin 100) = Fin ((0.02 * p + 950) * 100)"
  "fsub (fmul (fmul (Fin 100) (Fin (1 / 4000))) (Fin t)) (Fin 50) = Fin ((100 / 4000) * t - 50)"
  "fmul (fmul (Fin 100) (Fin (1 / 4000))) (Fin h) = Fin ((100 / 4000) * h)"
  by (simp_all add: fsub_def)

text \<open>
  C5. When the first twelve raw fields parse as finite numbers, \<open>process_raw_data\<close> computes
  the pressure as \<open>(0.02 * press_raw + 950) * 100\<close>, the temperature as
  \<open>(100 / 4000) * temp_raw - 50\<close> and the humidity as \<open>(100 / 4000) * rh_raw\<close>; the wind
  components \<open>u\<close>, \<open>v\<close>, \<open>w\<close>, the 2-D and 3-D speeds, azimuth, elevation and sonic
  temperature are the parsed values themselves, in the array and in the dictionary alike.
  The same expressions, in the arithmetic of floats, give the row when some parsed field is
  an infinity or not-a-number.
\<close>

theorem process_raw_data_calibration:
  "(map py_float (take 12 values) =
      map Some [Fin u, Fin v, Fin w, Fin d2, Fin d3, Fin az, Fin ele, Fin press_raw,
        Fin temp_raw, Fin rh_raw, Fin sonic, Fin err] \<longrightarrow>
    process_raw_data values error_count t_now =
      (\<lparr>a_tNow = t_now, a_u = Fin u, a_v = Fin v, a_w = Fin w, a_d2 = Fin d2, a_d3 = Fin d3,
        a_az = Fin az, a_ele = Fin ele, a_press = Fin ((0.02 * press_raw + 950) * 100),
        a_temp = Fin ((100 / 4000) * temp_raw - 50), a_rh = Fin ((100 / 4000) * rh_raw),
        a_sonic = Fin sonic, a_err = Fin err\<rparr>,
       [(''tNow'', Time t_now), (''u_m_s'', Num (Fin u)), (''v_m_s'', Num (Fin v)),
        (''w_m_s'', Num (Fin w)), (''2dSpeed_m_s'', Num (Fin d2)),
        (''3DSpeed_m_s'', Num (Fin d3)), (''Azimuth_deg'', Num (Fin az)),
        (''Elev_deg'', Num (Fin ele)),
        (''Press_Pa'', Num (Fin ((0.02 * press_raw + 950) * 100))),
        (''Temp_C'', Num (Fin ((100 / 4000) * temp_raw - 50))),
        (''Hum_RH'', Num (Fin ((100 / 4000) * rh_raw))), (''SonicTemp_C'', Num (Fin sonic)),
        (''Error'', Num (Fin err))]))
   \<and> (map py_float (take 12 values) = map Some xs \<and> length xs = 12 \<longrightarrow>
    process_raw_data values error_count t_now =
      (\<lparr>a_tNow = t_now, a_u = xs ! 0, a_v = xs ! 1, a_w = xs ! 2, a_d2 = xs ! 3,
        a_d3 = xs ! 4, a_az = xs ! 5, a_ele = xs ! 6,
        a_press = fmul (fadd (fmul (Fin 0.02) (xs ! 7)) (Fin 950)) (Fin 100),
        a_temp = fsub (fmul (fmul (Fin 100) (Fin (1 / 4000))) (xs ! 8)) (Fin 50),
        a_rh = fmul (fmul (Fin 100) (Fin (1 / 4000))) (xs ! 9),
        a_sonic = xs ! 10, a_err = xs ! 11\<rparr>,
       [(''tNow'', Time t_now), (''u_m_s'', Num (xs ! 0)), (''v_m_s'', Num (xs ! 1)),
        (''w_m_s'', Num (xs ! 2)), (''2dSpeed_m_s'', Num (xs ! 3)),
        (''3DSpeed_m_s'', Num (xs ! 4)), (''Azimuth_deg'', Num (xs ! 5)),
        (''Elev_deg'', Num (xs ! 6)),
        (''Press_Pa'', Num (fmul (fadd (fmul (Fin 0.02) (xs ! 7)) (Fin 950)) (Fin 100))),
        (''Temp_C'', Num (fsub (fmul (fmul (Fin 100) (Fin (1 / 4000))) (xs ! 8)) (Fin 50))),
        (''Hum_RH'', Num (fmul (fmul (Fin 100) (Fin (1 / 4000))) (xs ! 9))),
        (''SonicTemp_C'', Num (xs ! 10)), (''Error'', Num (xs ! 11))]))"
proof (intro conjI impI)
  assume h: "map py_float (take 12 values) =
      map Some [Fin u, Fin v, Fin w, Fin d2, Fin d3, Fin az, Fin ele, Fin press_raw,
        Fin temp_raw, Fin rh_raw, Fin sonic, Fin err]"
  have l: "length [Fin u, Fin v, Fin w, Fin d2, Fin d3, Fin az, Fin ele, Fin press_raw,
        Fin temp_raw, Fin rh_raw, Fin sonic, Fin err] = 12"
    by simp
  show "process_raw_data values error_count t_now =
      (\<lparr>a_tNow = t_now, a_u = Fin u, a_v = Fin v, a_w = Fin w, a_d2 = Fin d2, a_d3 = Fin d3,
        a_az = Fin az, a_ele = Fin ele, a_press = Fin ((0.02 * press_raw + 950) * 100),
        a_temp = Fin ((100 / 4000) * temp_raw - 50), a_rh = Fin ((100 / 4000) * rh_raw),
        a_sonic = Fin sonic, a_err = Fin err\<rparr>,
       [(''tNow'', Time t_now), (''u_m_s'', Num (Fin u)), (''v_m_s'', Num (Fin v)),
        (''w_m_s'', Num (Fin w)), (''2dSpeed_m_s'', Num (Fin d2)),
        (''3DSpeed_m_s'', Num (Fin d3)), (''Azimuth_deg'', Num (Fin az)),
        (''Elev_deg'', Num (Fin ele)),
        (''Press_Pa'', Num (Fin ((0.02 * press_raw + 950) * 100))),
        (''Temp_C'', Num (Fin ((100 / 4000) * temp_raw - 50))),
        (''Hum_RH'', Num (Fin ((100 / 4000) * rh_raw))), (''SonicTemp_C'', Num (Fin sonic)),
        (''Error'', Num (Fin err))])"
    unfolding process_raw_data_parsed [OF h l] by (simp add: fsub_def)
next
  assume "map py_float (take 12 values) = map Some xs \<and> length xs = 12"
  then show "process_raw_data values error_count t_now =
      (\<lparr>a_tNow = t_now, a_u = xs ! 0, a_v = xs ! 1, a_w = xs ! 2, a_d2 = xs ! 3,
        a_d3 = xs ! 4, a_az = xs ! 5, a_ele = xs ! 6,
        a_press = fmul (fadd (fmul (Fin 0.02) (xs ! 7)) (Fin 950)) (Fin 100),
        a_temp = fsub (fmul (fmul (Fin 100) (Fin (1 / 4000))) (xs ! 8)) (Fin 50),
        a_rh = fmul (fmul (Fin 100) (Fin (1 / 4000))) (xs ! 9),
        a_sonic = xs ! 10, a_err = xs ! 11\<rparr>,
       [(''tNow'', Time t_now), (''u_m_s'', Num (xs ! 0)), (''v_m_s'', Num (xs ! 1)),
        (''w_m_s'', Num (xs ! 2)), (''2dSpeed_m_s'', Num (xs ! 3)),
        (''3DSpeed_m_s'', Num (xs ! 4)), (''Azimuth_deg'', Num (xs ! 5)),
        (''Elev_deg'', Num (xs ! 6)),
        (''Press_Pa'', Num (fmul (fadd (fmul (Fin 0.02) (xs ! 7)) (Fin 950)) (Fin 100))),
        (''Temp_C'', Num (fsub (fmul (fmul (Fin 100) (Fin (1 / 4000))) (xs ! 8)) (Fin 50))),
        (''Hum_RH'', Num (fmul (fmul (Fin 100) (Fin (1 / 4000))) (xs ! 9))),
        (''SonicTemp_C'', Num (xs ! 10)), (''Error'', Num (xs ! 11))])"
    by (intro process_raw_data_parsed) simp_all
qed

theorem process_raw_data_calibration_witness:
  "map py_float (take 12 [''1'', ''-2.5'', ''3'', ''4'', ''5'', ''6'', ''7'', ''3500'', ''2800'',
        ''2000'', ''20'', ''0'', ''extra'']) =
      map Some [Fin 1, Fin (- 5 / 2), Fin 3, Fin 4, Fin 5, Fin 6, Fin 7, Fin 3500, Fin 2800,
        Fin 2000, Fin 20, Fin 0]
   \<and> process_raw_data [''1'', ''-2.5'', ''3'', ''4'', ''5'', ''6'', ''7'', ''3500'', ''2800'',
        ''2000'', ''20'', ''0'', ''extra''] 5 1700000000123456 =
      (\<lparr>a_tNow = 1700000000123456, a_u = Fin 1, a_v = Fin (- 5 / 2), a_w = Fin 3,
        a_d2 = Fin 4, a_d3 = Fin 5, a_az = Fin 6, a_ele = Fin 7, a_press = Fin 102000,
        a_temp = Fin 20, a_rh = Fin 50, a_sonic = Fin 20, a_err = Fin 0\<rparr>,
       [(''tNow'', Time 1700000000123456), (''u_m_s'', Num (Fin 1)),
        (''v_m_s'', Num (Fin (- 5 / 2))), (''w_m_s'', Num (Fin 3)),
        (''2dSpeed_m_s'', Num (Fin 4)), (''3DSpeed_m_s'', Num (Fin 5)),
        (''Azimuth_deg'', Num (Fin 6)), (''Elev_deg'', Num (Fin 7)),
        (''Press_Pa'', Num (Fin 102000)), (''Temp_C'', Num (Fin 20)),
        (''Hum_RH'', Num (Fin 50)), (''SonicTemp_C'', Num (Fin 20)),
        (''Error'', Num (Fin 0))])
   \<and> map py_float (take 12 [''1.5'', ''-2'', ''0.5'', ''4'', ''9'', ''6'', ''7'', ''inf'', ''nan'',
        ''-Infinity'', ''20'', ''0'']) =
      map Some [Fin (3 / 2), Fin (- 2), Fin (1 / 2), Fin 4, Fin 9, Fin 6, Fin 7, PInf, NaN, NInf, Fin 20, Fin 0]
   \<and> length [Fin (3 / 2), Fin (- 2), Fin (1 / 2), Fin 4, Fin 9, Fin 6, Fin 7, PInf, NaN, NInf, Fin 20, Fin 0]
      = 12
   \<and> process_raw_data [''1.5'', ''-2'', ''0.5'', ''4'', ''9'', ''6'', ''7'', ''inf'', ''nan'',
        ''-Infinity'', ''20'', ''0''] 5 1700000000123456 =
      (\<lparr>a_tNow = 1700000000123456, a_u = Fin (3 / 2), a_v = Fin (- 2), a_w = Fin (1 / 2),
        a_d2 = Fin 4, a_d3 = Fin 9, a_az = Fin 6, a_ele = Fin 7, a_press = PInf,
        a_temp = NaN, a_rh = NInf, a_sonic = Fin 20, a_err = Fin 0\<rparr>,
       [(''tNow'', Time 1700000000123456), (''u_m_s'', Num (Fin (3 / 2))),
        (''v_m_s'', Num (Fin (- 2))), (''w_m_s'', Num (Fin (1 / 2))),
        (''2dSpeed_m_s'', Num (Fin 4)), (''3DSpeed_m_s'', Num (Fin 9)),
        (''Azimuth_deg'', Num (Fin 6)), (''Elev_deg'', Num (Fin 7)),
        (''Press_Pa'', Num PInf), (''Temp_C'', Num NaN),
        (''Hum_RH'', Num NInf), (''SonicTemp_C'', Num (Fin 20)),
        (''Error'', Num (Fin 0))])"
proof -
  have h1: "map py_float (take 12 [''1'', ''-2.5'', ''3'', ''4'', ''5'', ''6'', ''7'', ''3500'',
        ''2800'', ''2000'', ''20'', ''0'', ''extra'']) =
      map Some [Fin 1, Fin (- 5 / 2), Fin 3, Fin 4, Fin 5, Fin 6, Fin 7, Fin 3500, Fin 2800,
        Fin 2000, Fin 20, Fin 0]"
    by code_simp
  have h2: "map py_float (take 12 [''1.5'', ''-2'', ''0.5'', ''4'', ''9'', ''6'', ''7'', ''inf'', ''nan'',
        ''-Infinity'', ''20'', ''0'']) =
      map Some [Fin (3 / 2), Fin (- 2), Fin (1 / 2), Fin 4, Fin 9, Fin 6, Fin 7, PInf, NaN, NInf, Fin 20, Fin 0]"
    by code_simp
  have h3: "length [Fin (3 / 2), Fin (- 2), Fin (1 / 2), Fin 4, Fin 9, Fin 6, Fin 7, PInf, NaN, NInf, Fin 20,
      Fin 0] = 12"
    by simp
  note a = process_raw_data_calibration [of "[''1'', ''-2.5'', ''3'', ''4'', ''5'', ''6'', ''7'',
        ''3500'', ''2800'', ''2000'', ''20'', ''0'', ''extra'']"
      1 "- 5 / 2" 3 4 5 6 7 3500 2800 2000 20 0 5 1700000000123456,
      THEN conjunct1, THEN mp, OF h1]
  note b = process_raw_data_calibration [of "[''1.5'', ''-2'', ''0.5'', ''4'', ''9'', ''6'', ''7'',
        ''inf'', ''nan'', ''-Infinity'', ''20'', ''0'']"
      _ _ _ _ _ _ _ _ _ _ _ _ 5 1700000000123456
      "[Fin (3 / 2), Fin (- 2), Fin (1 / 2), Fin 4, Fin 9, Fin 6, Fin 7, PInf, NaN, NInf, Fin 20, Fin 0]",
      THEN conjunct2, THEN mp, OF conjI [OF h2 h3]]
  from a have a': "process_raw_data [''1'', ''-2.5'', ''3'', ''4'', ''5'', ''6'', ''7'', ''3500'',
        ''2800'', ''2000'', ''20'', ''0'', ''extra''] 5 1700000000123456 =
      (\<lparr>a_tNow = 1700000000123456, a_u = Fin 1, a_v = Fin (- 5 / 2), a_w = Fin 3,
        a_d2 = Fin 4, a_d3 = Fin 5, a_az = Fin 6, a_ele = Fin 7, a_press = Fin 102000,
        a_temp = Fin 20, a_rh = Fin 50, a_sonic = Fin 20, a_err = Fin 0\<rparr>,
       [(''tNow'', Time 1700000000123456), (''u_m_s'', Num (Fin 1)),
        (''v_m_s'', Num (Fin (- 5 / 2))), (''w_m_s'', Num (Fin 3)),
        (''2dSpeed_m_s'', Num (Fin 4)), (''3DSpeed_m_s'', Num (Fin 5)),
        (''Azimuth_deg'', Num (Fin 6)), (''Elev_deg'', Num (Fin 7)),
        (''Press_Pa'', Num (Fin 102000)), (''Temp_C'', Num (Fin 20)),
        (''Hum_RH'', Num (Fin 50)), (''SonicTemp_C'', Num (Fin 20)),
        (''Error'', Num (Fin 0))])"
    by simp
  from b have b': "process_raw_data [''1.5'', ''-2'', ''0.5'', ''4'', ''9'', ''6'', ''7'', ''inf'', ''nan'',
        ''-Infinity'', ''20'', ''0''] 5 1700000000123456 =
      (\<lparr>a_tNow = 1700000000123456, a_u = Fin (3 / 2), a_v = Fin (- 2), a_w = Fin (1 / 2),
        a_d2 = Fin 4, a_d3 = Fin 9, a_az = Fin 6, a_ele = Fin 7, a_press = PInf,
        a_temp = NaN, a_rh = NInf, a_sonic = Fin 20, a_err = Fin 0\<rparr>,
       [(''tNow'', Time 1700000000123456), (''u_m_s'', Num (Fin (3 / 2))),
        (''v_m_s'', Num (Fin (- 2))), (''w_m_s'', Num (Fin (1 / 2))),
        (''2dSpeed_m_s'', Num (Fin 4)), (''3DSpeed_m_s'', Num (Fin 9)),
        (''Azimuth_deg'', Num (Fin 6)), (''Elev_deg'', Num (Fin 7)),
        (''Press_Pa'', Num PInf), (''Temp_C'', Num NaN),
        (''Hum_RH'', Num NInf), (''SonicTemp_C'', Num (Fin 20)),
        (''Error'', Num (Fin 0))])"
    by (simp add: fsub_def inf_times_def)
  from h1 a' h2 h3 b' show ?thesis by (intro conjI)
qed

text \<open>
  C9. When the first twelve fields parse, \<open>process_raw_data\<close> returns the calibrated row,
  whose \<open>Error\<close> entry is the parsed twelfth field, whatever \<open>error_count\<close> was passed.
  When there are fewer than twelve fields, or one of the first twelve does not parse, the
  eleven physical entries are \<open>0.0\<close> and \<open>Error\<close> is \<open>error_count + 1\<close>. Every input list
  is in one of the two cases, and for every input list the function returns a row with all
  thirteen field names.
\<close>

theorem process_raw_data_error_field:
  "(map py_float (take 12 values) = map Some xs \<and> length xs = 12 \<longrightarrow>
      process_raw_data values error_count t_now =
        (\<lparr>a_tNow = t_now, a_u = xs ! 0, a_v = xs ! 1, a_w = xs ! 2, a_d2 = xs ! 3,
          a_d3 = xs ! 4, a_az = xs ! 5, a_ele = xs ! 6,
          a_press = fmul (fadd (fmul (Fin 0.02) (xs ! 7)) (Fin 950)) (Fin 100),
          a_temp = fsub (fmul (fmul (Fin 100) (Fin (1 / 4000))) (xs ! 8)) (Fin 50),
          a_rh = fmul (fmul (Fin 100) (Fin (1 / 4000))) (xs ! 9),
          a_sonic = xs ! 10, a_err = xs ! 11\<rparr>,
         [(''tNow'', Time t_now), (''u_m_s'', Num (xs ! 0)), (''v_m_s'', Num (xs ! 1)),
          (''w_m_s'', Num (xs ! 2)), (''2dSpeed_m_s'', Num (xs ! 3)),
          (''3DSpeed_m_s'', Num (xs ! 4)), (''Azimuth_deg'', Num (xs ! 5)),
          (''Elev_deg'', Num (xs ! 6)),
          (''Press_Pa'', Num (fmul (fadd (fmul (Fin 0.02) (xs ! 7)) (Fin 950)) (Fin 100))),
          (''Temp_C'', Num (fsub (fmul (fmul (Fin 100) (Fin (1 / 4000))) (xs ! 8)) (Fin 50))),
          (''Hum_RH'', Num (fmul (fmul (Fin 100) (Fin (1 / 4000))) (xs ! 9))),
          (''SonicTemp_C'', Num (xs ! 10)), (''Error'', Num (xs ! 11))])
      \<and> a_err (fst (process_raw_data values error_count t_now)) = xs ! 11
      \<and> map_of (snd (process_raw_data values error_count t_now)) ''Error'' = Some (Num (xs ! 11))
      \<and> process_raw_data values other_count t_now = process_raw_data values error_count t_now)
   \<and> (length values < 12 \<or> (\<exists>i<12. py_float (values ! i) = None) \<longrightarrow>
      process_raw_data values error_count t_now =
        (\<lparr>a_tNow = t_now, a_u = Fin 0, a_v = Fin 0, a_w = Fin 0, a_d2 = Fin 0, a_d3 = Fin 0,
          a_az = Fin 0, a_ele = Fin 0, a_press = Fin 0, a_temp = Fin 0, a_rh = Fin 0,
          a_sonic = Fin 0, a_err = Fin (of_int (error_count + 1))\<rparr>,
         [(''tNow'', Time t_now), (''u_m_s'', Num (Fin 0)), (''v_m_s'', Num (Fin 0)),
          (''w_m_s'', Num (Fin 0)), (''2dSpeed_m_s'', Num (Fin 0)),
          (''3DSpeed_m_s'', Num (Fin 0)), (''Azimuth_deg'', Num (Fin 0)),
          (''Elev_deg'', Num (Fin 0)), (''Press_Pa'', Num (Fin 0)), (''Temp_C'', Num (Fin 0)),
          (''Hum_RH'', Num (Fin 0)), (''SonicTemp_C'', Num (Fin 0)),
          (''Error'', Num (Fin (of_int (error_count + 1))))]))
   \<and> (length values < 12 \<or> (\<exists>i<12. py_float (values ! i) = None)
      \<or> (\<exists>ys. length ys = 12 \<and> map py_float (take 12 values) = map Some ys))
   \<and> map fst (snd (process_raw_data values error_count t_now)) = FIELDNAMES"
proof (intro conjI impI)
  assume h: "map py_float (take 12 values) = map Some xs \<and> length xs = 12"
  note t = process_raw_data_parsed [OF h [THEN conjunct1] h [THEN conjunct2]]
  show "process_raw_data values error_count t_now =
        (\<lparr>a_tNow = t_now, a_u = xs ! 0, a_v = xs ! 1, a_w = xs ! 2, a_d2 = xs ! 3,
          a_d3 = xs ! 4, a_az = xs ! 5, a_ele = xs ! 6,
          a_press = fmul (fadd (fmul (Fin 0.02) (xs ! 7)) (Fin 950)) (Fin 100),
          a_temp = fsub (fmul (fmul (Fin 100) (Fin (1 / 4000))) (xs ! 8)) (Fin 50),
          a_rh = fmul (fmul (Fin 100) (Fin (1 / 4000))) (xs ! 9),
          a_sonic = xs ! 10, a_err = xs ! 11\<rparr>,
         [(''tNow'', Time t_now), (''u_m_s'', Num (xs ! 0)), (''v_m_s'', Num (xs ! 1)),
          (''w_m_s'', Num (xs ! 2)), (''2dSpeed_m_s'', Num (xs ! 3)),
          (''3DSpeed_m_s'', Num (xs ! 4)), (''Azimuth_deg'', Num (xs ! 5)),
          (''Elev_deg'', Num (xs ! 6)),
          (''Press_Pa'', Num (fmul (fadd (fmul (Fin 0.02) (xs ! 7)) (Fin 950)) (Fin 100))),
          (''Temp_C'', Num (fsub (fmul (fmul (Fin 100) (Fin (1 / 4000))) (xs ! 8)) (Fin 50))),
          (''Hum_RH'', Num (fmul (fmul (Fin 100) (Fin (1 / 4000))) (xs ! 9))),
          (''SonicTemp_C'', Num (xs ! 10)), (''Error'', Num (xs ! 11))])"
    by (rule t)
  show "a_err (fst (process_raw_data values error_count t_now)) = xs ! 11"
    unfolding t by simp
  show "map_of (snd (process_raw_data values error_count t_now)) ''Error'' = Some (Num (xs ! 11))"
    unfolding t by simp
  show "process_raw_data values other_count t_now = process_raw_data values error_count t_now"
    unfolding t t [of other_count] by (rule refl)
next
  assume "length values < 12 \<or> (\<exists>i<12. py_float (values ! i) = None)"
  then show "process_raw_data values error_count t_now =
        (\<lparr>a_tNow = t_now, a_u = Fin 0, a_v = Fin 0, a_w = Fin 0, a_d2 = Fin 0, a_d3 = Fin 0,
          a_az = Fin 0, a_ele = Fin 0, a_press = Fin 0, a_temp = Fin 0, a_rh = Fin 0,
          a_sonic = Fin 0, a_err = Fin (of_int (error_count + 1))\<rparr>,
         [(''tNow'', Time t_now), (''u_m_s'', Num (Fin 0)), (''v_m_s'', Num (Fin 0)),
          (''w_m_s'', Num (Fin 0)), (''2dSpeed_m_s'', Num (Fin 0)),
          (''3DSpeed_m_s'', Num (Fin 0)), (''Azimuth_deg'', Num (Fin 0)),
          (''Elev_deg'', Num (Fin 0)), (''Press_Pa'', Num (Fin 0)), (''Temp_C'', Num (Fin 0)),
          (''Hum_RH'', Num (Fin 0)), (''SonicTemp_C'', Num (Fin 0)),
          (''Error'', Num (Fin (of_int (error_count + 1))))])"
    by (rule process_raw_data_fallback)
next
  show "length values < 12 \<or> (\<exists>i<12. py_float (values ! i) = None)
      \<or> (\<exists>ys. length ys = 12 \<and> map py_float (take 12 values) = map Some ys)"
    by (rule parsed_or_fails)
next
  show "map fst (snd (process_raw_data values error_count t_now)) = FIELDNAMES"
    by (simp add: process_raw_data_def data_dict_of_keys Let_def)
qed

theorem process_raw_data_error_field_witness:
  "map py_float (take 12 [''inf'', ''0.2'', ''0.3'', ''0.4'', ''0.5'', ''10'', ''20'', ''3000'',
        ''2000'', ''1000'', ''25.5'', ''7'']) =
      map Some [PInf, Fin (1 / 5), Fin (3 / 10), Fin (2 / 5), Fin (1 / 2), Fin 10, Fin 20, Fin 3000,
        Fin 2000, Fin 1000, Fin (51 / 2), Fin 7]
   \<and> length [PInf, Fin (1 / 5), Fin (3 / 10), Fin (2 / 5), Fin (1 / 2), Fin 10, Fin 20, Fin 3000,
        Fin 2000, Fin 1000, Fin (51 / 2), Fin 7] = 12
   \<and> process_raw_data [''inf'', ''0.2'', ''0.3'', ''0.4'', ''0.5'', ''10'', ''20'', ''3000'',
        ''2000'', ''1000'', ''25.5'', ''7''] 3 1700000000123456 =
        (\<lparr>a_tNow = 1700000000123456, a_u = PInf, a_v = Fin (1 / 5), a_w = Fin (3 / 10),
          a_d2 = Fin (2 / 5), a_d3 = Fin (1 / 2), a_az = Fin 10, a_ele = Fin 20,
          a_press = Fin 101000, a_temp = Fin 0, a_rh = Fin 25, a_sonic = Fin (51 / 2),
          a_err = Fin 7\<rparr>,
         [(''tNow'', Time 1700000000123456), (''u_m_s'', Num PInf), (''v_m_s'', Num (Fin (1 / 5))),
          (''w_m_s'', Num (Fin (3 / 10))), (''2dSpeed_m_s'', Num (Fin (2 / 5))),
          (''3DSpeed_m_s'', Num (Fin (1 / 2))), (''Azimuth_deg'', Num (Fin 10)),
          (''Elev_deg'', Num (Fin 20)), (''Press_Pa'', Num (Fin 101000)),
          (''Temp_C'', Num (Fin 0)), (''Hum_RH'', Num (Fin 25)),
          (''SonicTemp_C'', Num (Fin (51 / 2))), (''Error'', Num (Fin 7))])
   \<and> a_err (fst (process_raw_data [''inf'', ''0.2'', ''0.3'', ''0.4'', ''0.5'', ''10'', ''20'', ''3000'',
        ''2000'', ''1000'', ''25.5'', ''7''] 3 1700000000123456)) = Fin 7
   \<and> map_of (snd (process_raw_data [''inf'', ''0.2'', ''0.3'', ''0.4'', ''0.5'', ''10'', ''20'', ''3000'',
        ''2000'', ''1000'', ''25.5'', ''7''] 3 1700000000123456)) ''Error'' = Some (Num (Fin 7))
   \<and> process_raw_data [''inf'', ''0.2'', ''0.3'', ''0.4'', ''0.5'', ''10'', ''20'', ''3000'',
        ''2000'', ''1000'', ''25.5'', ''7''] 99 1700000000123456 =
      process_raw_data [''inf'', ''0.2'', ''0.3'', ''0.4'', ''0.5'', ''10'', ''20'', ''3000'',
        ''2000'', ''1000'', ''25.5'', ''7''] 3 1700000000123456
   \<and> length [''1'', ''2''] < 12
   \<and> process_raw_data [''1'', ''2''] 3 1700000000123456 =
        (\<lparr>a_tNow = 1700000000123456, a_u = Fin 0, a_v = Fin 0, a_w = Fin 0, a_d2 = Fin 0,
          a_d3 = Fin 0, a_az = Fin 0, a_ele = Fin 0, a_press = Fin 0, a_temp = Fin 0,
          a_rh = Fin 0, a_sonic = Fin 0, a_err = Fin 4\<rparr>,
         [(''tNow'', Time 1700000000123456), (''u_m_s'', Num (Fin 0)), (''v_m_s'', Num (Fin 0)),
          (''w_m_s'', Num (Fin 0)), (''2dSpeed_m_s'', Num (Fin 0)),
          (''3DSpeed_m_s'', Num (Fin 0)), (''Azimuth_deg'', Num (Fin 0)),
          (''Elev_deg'', Num (Fin 0)), (''Press_Pa'', Num (Fin 0)), (''Temp_C'', Num (Fin 0)),
          (''Hum_RH'', Num (Fin 0)), (''SonicTemp_C'', Num (Fin 0)),
          (''Error'', Num (Fin 4))])
   \<and> map fst (snd (process_raw_data [''1'', ''2''] 3 1700000000123456)) = FIELDNAMES
   \<and> py_float ([[CHR 0x1F, CHR ''1''], ''0.5'', ''0.25'', ''8'', ''1.5'', ''90'', ''45'', ''3200'',
        ''2900'', ''2100'', ''18'', ''0''] ! 0) = None
   \<and> process_raw_data [[CHR 0x1F, CHR ''1''], ''0.5'', ''0.25'', ''8'', ''1.5'', ''90'', ''45'', ''3200'',
        ''2900'', ''2100'', ''18'', ''0''] 3 1700000000123456 =
        (\<lparr>a_tNow = 1700000000123456, a_u = Fin 0, a_v = Fin 0, a_w = Fin 0, a_d2 = Fin 0,
          a_d3 = Fin 0, a_az = Fin 0, a_ele = Fin 0, a_press = Fin 0, a_temp = Fin 0,
          a_rh = Fin 0, a_sonic = Fin 0, a_err = Fin 4\<rparr>,
         [(''tNow'', Time 1700000000123456), (''u_m_s'', Num (Fin 0)), (''v_m_s'', Num (Fin 0)),
          (''w_m_s'', Num (Fin 0)), (''2dSpeed_m_s'', Num (Fin 0)),
          (''3DSpeed_m_s'', Num (Fin 0)), (''Azimuth_deg'', Num (Fin 0)),
          (''Elev_deg'', Num (Fin 0)), (''Press_Pa'', Num (Fin 0)), (''Temp_C'', Num (Fin 0)),
          (''Hum_RH'', Num (Fin 0)), (''SonicTemp_C'', Num (Fin 0)),
          (''Error'', Num (Fin 4))])"
proof -
  have h1: "map py_float (take 12 [''inf'', ''0.2'', ''0.3'', ''0.4'', ''0.5'', ''10'', ''20'', ''3000'',
        ''2000'', ''1000'', ''25.5'', ''7'']) =
      map Some [PInf, Fin (1 / 5), Fin (3 / 10), Fin (2 / 5), Fin (1 / 2), Fin 10, Fin 20, Fin 3000,
        Fin 2000, Fin 1000, Fin (51 / 2), Fin 7]"
    by code_simp
  have h2: "length [PInf, Fin (1 / 5), Fin (3 / 10), Fin (2 / 5), Fin (1 / 2), Fin 10, Fin 20, Fin 3000,
        Fin 2000, Fin 1000, Fin (51 / 2), Fin 7] = 12"
    by simp
  have h3: "length [''1'', ''2''] < 12" by simp
  have h4: "py_float ([[CHR 0x1F, CHR ''1''], ''0.5'', ''0.25'', ''8'', ''1.5'', ''90'', ''45'', ''3200'',
        ''2900'', ''2100'', ''18'', ''0''] ! 0) = None"
    by code_simp
  have h4': "\<exists>i<12. py_float ([[CHR 0x1F, CHR ''1''], ''0.5'', ''0.25'', ''8'', ''1.5'', ''90'', ''45'', ''3200'',
        ''2900'', ''2100'', ''18'', ''0''] ! i) = None"
    using h4 by (intro exI [of _ 0] conjI) simp_all
  note a = process_raw_data_error_field [of "[''inf'', ''0.2'', ''0.3'', ''0.4'', ''0.5'', ''10'', ''20'', ''3000'',
        ''2000'', ''1000'', ''25.5'', ''7'']"
      "[PInf, Fin (1 / 5), Fin (3 / 10), Fin (2 / 5), Fin (1 / 2), Fin 10, Fin 20, Fin 3000,
        Fin 2000, Fin 1000, Fin (51 / 2), Fin 7]"
      3 1700000000123456 99, THEN conjunct1, THEN mp, OF conjI [OF h1 h2]]
  note b = process_raw_data_error_field [of "[''1'', ''2'']" _ 3 1700000000123456]
  note c = process_raw_data_error_field [of "[[CHR 0x1F, CHR ''1''], ''0.5'', ''0.25'', ''8'', ''1.5'', ''90'', ''45'', ''3200'',
        ''2900'', ''2100'', ''18'', ''0'']" _ 3 1700000000123456]
  note b1 = b [THEN conjunct2, THEN conjunct1, THEN mp, OF disjI1 [OF h3]]
    and b2 = b [THEN conjunct2, THEN conjunct2, THEN conjunct2]
    and c1 = c [THEN conjunct2, THEN conjunct1, THEN mp, OF disjI2 [OF h4']]
  from a [THEN conjunct1] have a0: "process_raw_data [''inf'', ''0.2'', ''0.3'', ''0.4'', ''0.5'', ''10'', ''20'', ''3000'',
        ''2000'', ''1000'', ''25.5'', ''7''] 3 1700000000123456 =
        (\<lparr>a_tNow = 1700000000123456, a_u = PInf, a_v = Fin (1 / 5), a_w = Fin (3 / 10),
          a_d2 = Fin (2 / 5), a_d3 = Fin (1 / 2), a_az = Fin 10, a_ele = Fin 20,
          a_press = Fin 101000, a_temp = Fin 0, a_rh = Fin 25, a_sonic = Fin (51 / 2),
          a_err = Fin 7\<rparr>,
         [(''tNow'', Time 1700000000123456), (''u_m_s'', Num PInf), (''v_m_s'', Num (Fin (1 / 5))),
          (''w_m_s'', Num (Fin (3 / 10))), (''2dSpeed_m_s'', Num (Fin (2 / 5))),
          (''3DSpeed_m_s'', Num (Fin (1 / 2))), (''Azimuth_deg'', Num (Fin 10)),
          (''Elev_deg'', Num (Fin 20)), (''Press_Pa'', Num (Fin 101000)),
          (''Temp_C'', Num (Fin 0)), (''Hum_RH'', Num (Fin 25)),
          (''SonicTemp_C'', Num (Fin (51 / 2))), (''Error'', Num (Fin 7))])"
    by (simp add: fsub_def)
  from a [THEN conjunct2, THEN conjunct1] have a1: "a_err (fst (process_raw_data [''inf'', ''0.2'', ''0.3'', ''0.4'', ''0.5'', ''10'', ''20'', ''3000'',
        ''2000'', ''1000'', ''25.5'', ''7''] 3 1700000000123456)) = Fin 7"
    by simp
  from a [THEN conjunct2, THEN conjunct2, THEN conjunct1] have a2: "map_of (snd (process_raw_data [''inf'', ''0.2'', ''0.3'', ''0.4'', ''0.5'', ''10'', ''20'', ''3000'',
        ''2000'', ''1000'', ''25.5'', ''7''] 3 1700000000123456)) ''Error'' = Some (Num (Fin 7))"
    by simp
  note a3 = a [THEN conjunct2, THEN conjunct2, THEN conjunct2]
  from b1 have b1': "process_raw_data [''1'', ''2''] 3 1700000000123456 =
        (\<lparr>a_tNow = 1700000000123456, a_u = Fin 0, a_v = Fin 0, a_w = Fin 0, a_d2 = Fin 0,
          a_d3 = Fin 0, a_az = Fin 0, a_ele = Fin 0, a_press = Fin 0, a_temp = Fin 0,
          a_rh = Fin 0, a_sonic = Fin 0, a_err = Fin 4\<rparr>,
         [(''tNow'', Time 1700000000123456), (''u_m_s'', Num (Fin 0)), (''v_m_s'', Num (Fin 0)),
          (''w_m_s'', Num (Fin 0)), (''2dSpeed_m_s'', Num (Fin 0)),
          (''3DSpeed_m_s'', Num (Fin 0)), (''Azimuth_deg'', Num (Fin 0)),
          (''Elev_deg'', Num (Fin 0)), (''Press_Pa'', Num (Fin 0)), (''Temp_C'', Num (Fin 0)),
          (''Hum_RH'', Num (Fin 0)), (''SonicTemp_C'', Num (Fin 0)),
          (''Error'', Num (Fin 4))])"
    by simp
  from c1 have c1': "process_raw_data [[CHR 0x1F, CHR ''1''], ''0.5'', ''0.25'', ''8'', ''1.5'', ''90'', ''45'', ''3200'',
        ''2900'', ''2100'', ''18'', ''0''] 3 1700000000123456 =
        (\<lparr>a_tNow = 1700000000123456, a_u = Fin 0, a_v = Fin 0, a_w = Fin 0, a_d2 = Fin 0,
          a_d3 = Fin 0, a_az = Fin 0, a_ele = Fin 0, a_press = Fin 0, a_temp = Fin 0,
          a_rh = Fin 0, a_sonic = Fin 0, a_err = Fin 4\<rparr>,
         [(''tNow'', Time 1700000000123456), (''u_m_s'', Num (Fin 0)), (''v_m_s'', Num (Fin 0)),
          (''w_m_s'', Num (Fin 0)), (''2dSpeed_m_s'', Num (Fin 0)),
          (''3DSpeed_m_s'', Num (Fin 0)), (''Azimuth_deg'', Num (Fin 0)),
          (''Elev_deg'', Num (Fin 0)), (''Press_Pa'', Num (Fin 0)), (''Temp_C'', Num (Fin 0)),
          (''Hum_RH'', Num (Fin 0)), (''SonicTemp_C'', Num (Fin 0)),
          (''Error'', Num (Fin 4))])"
    by simp
  from h1 h2 a0 a1 a2 a3 h3 b1' b2 h4 c1' show ?thesis by (intro conjI)
qed

subsection \<open>Preparing a row for logging\<close>

lemma round_half_even_near: "\<bar>of_int (round_half_even x) - x\<bar> \<le> 1 / 2"
proof -
  have "of_int \<lfloor>x\<rfloor> \<le> x" "x < of_int \<lfloor>x\<rfloor> + 1" by linarith+
  then show ?thesis
    by (auto simp: round_half_even_def Let_def)
qed

lemma round8_near:
  "\<bar>of_int (round_half_even (x * 10 ^ 8)) / 10 ^ 8 - x\<bar> \<le> 5 / 10 ^ 9"
proof -
  define r :: rat where "r = of_int (round_half_even (x * 10 ^ 8))"
  have near: "\<bar>r - x * 10 ^ 8\<bar> \<le> 1 / 2"
    unfolding r_def by (rule round_half_even_near)
  have "r / 10 ^ 8 - x = (r - x * 10 ^ 8) / 10 ^ 8"
    by (simp add: diff_divide_distrib)
  then have "\<bar>r / 10 ^ 8 - x\<bar> = \<bar>r - x * 10 ^ 8\<bar> / 10 ^ 8"
    by (simp only: abs_divide) simp
  also have "\<dots> \<le> (1 / 2) / 10 ^ 8"
    using near by (rule divide_right_mono) simp
  also have "\<dots> = 5 / 10 ^ 9" by simp
  finally show ?thesis unfolding r_def .
qed

lemma round8_finite:
  "\<exists>y. round8 (Fin x) = Fin y \<and> (\<exists>n::int. y = of_int n / 10 ^ 8) \<and> \<bar>y - x\<bar> \<le> 5 / 10 ^ 9"
proof (intro exI conjI)
  show "round8 (Fin x) = Fin (of_int (round_half_even (x * 10 ^ 8)) / 10 ^ 8)" by simp
  show "of_int (round_half_even (x * 10 ^ 8)) / 10 ^ 8
      = (of_int (round_half_even (x * 10 ^ 8)) :: rat) / 10 ^ 8"
    by (rule refl)
  show "\<bar>of_int (round_half_even (x * 10 ^ 8)) / 10 ^ 8 - x\<bar> \<le> 5 / 10 ^ 9"
    by (rule round8_near)
qed

lemma prepare_data_dict:
  "prepare_data_for_logging (data_dict_of a) =
     Inr [(''tNow'', Time (a_tNow a)), (''u_m_s'', Num (round8 (a_u a))),
          (''v_m_s'', Num (round8 (a_v a))), (''w_m_s'', Num (round8 (a_w a))),
          (''2dSpeed_m_s'', Num (round8 (a_d2 a))), (''3DSpeed_m_s'', Num (round8 (a_d3 a))),
          (''Azimuth_deg'', Num (round8 (a_az a))), (''Elev_deg'', Num (round8 (a_ele a))),
          (''Press_Pa'', Num (round8 (a_press a))), (''Temp_C'', Num (round8 (a_temp a))),
          (''Hum_RH'', Num (round8 (a_rh a))), (''SonicTemp_C'', Num (round8 (a_sonic a))),
          (''Error'', Num (round8 (a_err a)))]"
  by (simp add: prepare_data_for_logging_def round_only_roundable_dict_keys_def data_dict_of_def
      keys_to_round_def py_round8_def)

text \<open>
  C2, as stated, fails: \<open>"Error"\<close> is one of the keys \<open>prepare_data_for_logging\<close> rounds.
  A row whose \<open>Error\<close> entry is \<open>0.123456789\<close> is logged with \<open>0.12345679\<close>.
\<close>

theorem prepare_data_for_logging_rounds_error:
  "prepare_data_for_logging
     [(''tNow'', Time 1700000000123456), (''u_m_s'', Num (Fin 1)), (''v_m_s'', Num (Fin 2)),
      (''w_m_s'', Num (Fin 3)), (''2dSpeed_m_s'', Num (Fin 4)), (''3DSpeed_m_s'', Num (Fin 5)),
      (''Azimuth_deg'', Num (Fin 6)), (''Elev_deg'', Num (Fin 7)),
      (''Press_Pa'', Num (Fin 102000)), (''Temp_C'', Num (Fin 20)), (''Hum_RH'', Num (Fin 50)),
      (''SonicTemp_C'', Num (Fin 21)), (''Error'', Num (Fin (123456789 / 1000000000)))]
   = Inr
     [(''tNow'', Time 1700000000123456), (''u_m_s'', Num (Fin 1)), (''v_m_s'', Num (Fin 2)),
      (''w_m_s'', Num (Fin 3)), (''2dSpeed_m_s'', Num (Fin 4)), (''3DSpeed_m_s'', Num (Fin 5)),
      (''Azimuth_deg'', Num (Fin 6)), (''Elev_deg'', Num (Fin 7)),
      (''Press_Pa'', Num (Fin 102000)), (''Temp_C'', Num (Fin 20)), (''Hum_RH'', Num (Fin 50)),
      (''SonicTemp_C'', Num (Fin 21)), (''Error'', Num (Fin (12345679 / 100000000)))]
   \<and> Num (Fin (12345679 / 100000000)) \<noteq> Num (Fin (123456789 / 1000000000))"
  by code_simp

text \<open>
  C2, amended. A row with the thirteen fields is prepared by rounding every numeric field,
  the \<open>Error\<close> field included, to 8 decimal places; only the time stamp is carried
  through with its original value. Rounding a finite number to 8 decimal places gives a
  multiple of \<open>10\<^sup>-\<^sup>8\<close> at most \<open>5 * 10\<^sup>-\<^sup>9\<close> away; rounding leaves a number that is not
  finite as it is.
\<close>

theorem prepare_data_for_logging_rounds:
  "prepare_data_for_logging (data_dict_of a) =
     Inr [(''tNow'', Time (a_tNow a)), (''u_m_s'', Num (round8 (a_u a))),
          (''v_m_s'', Num (round8 (a_v a))), (''w_m_s'', Num (round8 (a_w a))),
          (''2dSpeed_m_s'', Num (round8 (a_d2 a))), (''3DSpeed_m_s'', Num (round8 (a_d3 a))),
          (''Azimuth_deg'', Num (round8 (a_az a))), (''Elev_deg'', Num (round8 (a_ele a))),
          (''Press_Pa'', Num (round8 (a_press a))), (''Temp_C'', Num (round8 (a_temp a))),
          (''Hum_RH'', Num (round8 (a_rh a))), (''SonicTemp_C'', Num (round8 (a_sonic a))),
          (''Error'', Num (round8 (a_err a)))]
   \<and> (\<exists>y. round8 (Fin x) = Fin y \<and> (\<exists>n::int. y = of_int n / 10 ^ 8)
        \<and> \<bar>y - x\<bar> \<le> 5 / 10 ^ 9)
   \<and> round8 PInf = PInf \<and> round8 NInf = NInf \<and> round8 NaN = NaN"
  using prepare_data_dict [of a] round8_finite [of x] by simp

subsection \<open>Control datagrams\<close>

lemma star_chars: "w \<in> star A \<Longrightarrow> (\<And>u. u \<in> A \<Longrightarrow> set u \<subseteq> C) \<Longrightarrow> set w \<subseteq> C"
  by (induction rule: star.induct) auto

lemma lang_chars: "w \<in> lang r \<Longrightarrow> set w \<subseteq> rchars r"
proof (induction r arbitrary: w)
  case (Star r)
  then show ?case using star_chars [of w "lang r" "rchars r"] by auto
next
  case (Seq r s)
  from Seq.prems obtain u v where "w = u @ v" "u \<in> lang r" "v \<in> lang s"
    by (auto simp: conc_def)
  with Seq.IH [of u] Seq.IH(2) [of v] show ?case by auto
qed auto

lemma float_chars:
  "rchars float_grammar \<union> rchars infinity_grammar \<union> rchars nan_grammar
     \<subseteq> set (float_space_chars @ ''0123456789-+._eEiInNfFtTyYaA'')"
  by (auto simp: float_grammar_def infinity_grammar_def nan_grammar_def rx_space_def rx_sign_def
      rx_number_def rx_digitpart_def rx_digit_def rx_dot_def rx_exponent_def rx_e_def
      rx_infinity_def rx_nan_def Opt_def)

lemma float_no_letter_S:
  assumes "py_float s \<noteq> None" shows "upper s \<noteq> ''STATUS''"
proof
  assume u: "upper s = ''STATUS''"
  then obtain c cs where s: "s = c # cs" and c: "upper_char c = CHR ''S''"
    by (cases s) (auto simp: upper_def)
  have "matches float_grammar s \<or> matches infinity_grammar s \<or> matches nan_grammar s"
    using assms
    by (cases "matches float_grammar s"; cases "matches infinity_grammar s";
        cases "matches nan_grammar s") (simp_all add: py_float_def)
  then have "s \<in> lang float_grammar \<or> s \<in> lang infinity_grammar \<or> s \<in> lang nan_grammar"
    by (simp only: matches_iff)
  then have sub: "set s \<subseteq> rchars float_grammar \<union> rchars infinity_grammar \<union> rchars nan_grammar"
    using lang_chars [of s float_grammar] lang_chars [of s infinity_grammar]
      lang_chars [of s nan_grammar]
    by blast
  have "c \<in> set s" by (simp add: s)
  then have "c \<in> rchars float_grammar \<union> rchars infinity_grammar \<union> rchars nan_grammar"
    by (rule subsetD [OF sub])
  then have mem: "c \<in> set (float_space_chars @ ''0123456789-+._eEiInNfFtTyYaA'')"
    by (rule subsetD [OF float_chars])
  have "list_all (\<lambda>c. upper_char c \<noteq> CHR ''S'')
      (float_space_chars @ ''0123456789-+._eEiInNfFtTyYaA'')"
    by code_simp
  then have "\<forall>c \<in> set (float_space_chars @ ''0123456789-+._eEiInNfFtTyYaA'').
      upper_char c \<noteq> CHR ''S''"
    by (simp only: list_all_iff)
  with mem have "upper_char c \<noteq> CHR ''S''" by (rule bspec [rotated])
  with c show False by contradiction
qed

text \<open>
  C7. A datagram whose text, stripped of surrounding white space, is \<open>STATUS\<close> in any
  letter case is answered with \<open>CURRENT_MODE:32Hz\<close> when the mode value is positive and
  with \<open>CURRENT_MODE:1Hz\<close> otherwise, sent to port 8251 of the monitor's host (nothing is
  sent when sending raises); the mode value is left as it was and the call returns \<open>False\<close>.
\<close>

theorem status_request_reply:
  assumes "decode data = Some text" and "upper (strip text) = ''STATUS''"
  shows "check_mode_command decode send_raises self (Datagram data) sdl_mode =
     (False, sdl_mode,
      if send_raises then []
      else [(''CURRENT_MODE:'' @ (if fgt0 sdl_mode then ''32Hz'' else ''1Hz''),
             mm_host self, 8251)])"
  using assms by (simp add: check_mode_command_def Let_def)

theorem status_request_reply_witness:
  "Some ('' StAtUs'' @ [CHR 0x0A]) = Some ('' StAtUs'' @ [CHR 0x0A])
   \<and> upper (strip ('' StAtUs'' @ [CHR 0x0A])) = ''STATUS''
   \<and> check_mode_command Some False \<lparr>mm_host = ''localhost'', mm_port = 8250\<rparr>
        (Datagram ('' StAtUs'' @ [CHR 0x0A])) (Fin 1)
      = (False, Fin 1, [(''CURRENT_MODE:32Hz'', ''localhost'', 8251)])
   \<and> check_mode_command Some False \<lparr>mm_host = ''localhost'', mm_port = 8250\<rparr>
        (Datagram ('' StAtUs'' @ [CHR 0x0A])) (Fin 0)
      = (False, Fin 0, [(''CURRENT_MODE:1Hz'', ''localhost'', 8251)])
   \<and> check_mode_command Some True \<lparr>mm_host = ''localhost'', mm_port = 8250\<rparr>
        (Datagram ('' StAtUs'' @ [CHR 0x0A])) (Fin 1)
      = (False, Fin 1, [])"
proof -
  have h1: "Some ('' StAtUs'' @ [CHR 0x0A]) = Some ('' StAtUs'' @ [CHR 0x0A])" by (rule refl)
  have h2: "upper (strip ('' StAtUs'' @ [CHR 0x0A])) = ''STATUS''" by code_simp
  note w = status_request_reply [of Some "'' StAtUs'' @ [CHR 0x0A]" "'' StAtUs'' @ [CHR 0x0A]"
      _ "\<lparr>mm_host = ''localhost'', mm_port = 8250\<rparr>", OF h1 h2]
  from w [of False "Fin 1"]
  have c1: "check_mode_command Some False \<lparr>mm_host = ''localhost'', mm_port = 8250\<rparr>
        (Datagram ('' StAtUs'' @ [CHR 0x0A])) (Fin 1)
      = (False, Fin 1, [(''CURRENT_MODE:32Hz'', ''localhost'', 8251)])"
    by simp
  from w [of False "Fin 0"]
  have c2: "check_mode_command Some False \<lparr>mm_host = ''localhost'', mm_port = 8250\<rparr>
        (Datagram ('' StAtUs'' @ [CHR 0x0A])) (Fin 0)
      = (False, Fin 0, [(''CURRENT_MODE:1Hz'', ''localhost'', 8251)])"
    by simp
  from w [of True "Fin 1"]
  have c3: "check_mode_command Some True \<lparr>mm_host = ''localhost'', mm_port = 8250\<rparr>
        (Datagram ('' StAtUs'' @ [CHR 0x0A])) (Fin 1)
      = (False, Fin 1, [])"
    by simp
  from h1 h2 c1 c2 c3 show ?thesis by (intro conjI)
qed

text \<open>
  C8. A datagram that carries a number equal to the mode value changes nothing, however
  often it is processed: the mode value stays, nothing is sent, and \<open>check_mode_command\<close>
  returns \<open>False\<close>. Equality is that of floats, under which not-a-number equals no
  float.
\<close>

theorem same_mode_value_is_noop:
  assumes "decode data = Some text" and "py_float (strip text) = Some new_status"
    and "feq new_status sdl_mode"
  shows "check_mode_command decode send_raises self (Datagram data) sdl_mode
      = (False, sdl_mode, [])
    \<and> ((\<lambda>m. fst (snd (check_mode_command decode send_raises self (Datagram data) m))) ^^ n)
        sdl_mode = sdl_mode"
proof -
  from assms(2) have "upper (strip text) \<noteq> ''STATUS''"
    by (intro float_no_letter_S) simp
  with assms have one: "check_mode_command decode send_raises self (Datagram data) sdl_mode
      = (False, sdl_mode, [])"
    by (simp add: check_mode_command_def Let_def)
  have "((\<lambda>m. fst (snd (check_mode_command decode send_raises self (Datagram data) m))) ^^ n)
        sdl_mode = sdl_mode"
    by (induction n) (simp_all add: one)
  with one show ?thesis by (rule conjI)
qed

theorem same_mode_value_is_noop_witness:
  "Some ''1.0'' = Some ''1.0''
   \<and> py_float (strip ''1.0'') = Some (Fin 1)
   \<and> feq (Fin 1) (Fin 1)
   \<and> check_mode_command Some False \<lparr>mm_host = ''localhost'', mm_port = 8250\<rparr>
        (Datagram ''1.0'') (Fin 1) = (False, Fin 1, [])
   \<and> ((\<lambda>m. fst (snd (check_mode_command Some False \<lparr>mm_host = ''localhost'', mm_port = 8250\<rparr>
        (Datagram ''1.0'') m))) ^^ 3) (Fin 1) = Fin 1"
proof -
  have h1: "Some ''1.0'' = Some ''1.0''" by (rule refl)
  have h2: "py_float (strip ''1.0'') = Some (Fin 1)" by code_simp
  have h3: "feq (Fin 1) (Fin 1)" by (simp add: feq_def)
  note w = same_mode_value_is_noop [of Some "''1.0''" "''1.0''" "Fin 1" "Fin 1" False
      "\<lparr>mm_host = ''localhost'', mm_port = 8250\<rparr>" 3, OF h1 h2 h3]
  from h1 h2 h3 w [THEN conjunct1] w [THEN conjunct2] show ?thesis by (intro conjI)
qed

subsection \<open>The producer's queue pushes\<close>

lemma drain_not_full: "\<not> full (drain q)"
  by (auto simp: full_def drain_def)

lemma put_nowait_drain: "put_nowait (drain q) x = Inr (q\<lparr>q_items := [x]\<rparr>)"
  by (simp add: put_nowait_def drain_not_full) (simp add: drain_def)

lemma push_policy_eq:
  "push_policy q x = ((if full q then q\<lparr>q_items := [x]\<rparr> else q\<lparr>q_items := q_items q @ [x]\<rparr>), False)"
  by (simp add: push_policy_def drain_not_full)

lemma enqueue_high_freq:
  "queue_high_freq (fst (enqueue_sample sdl_mode x qs n)) =
     (if fgt0 sdl_mode then fst (push_policy (queue_high_freq qs) x) else queue_high_freq qs)"
  by (simp add: enqueue_sample_def put_nowait_drain push_policy_eq Let_def split: sum.splits)
    (simp add: put_nowait_def)

lemma enqueue_standard:
  "queue_standard (fst (enqueue_sample sdl_mode x qs n)) =
     (if full (queue_standard qs) then queue_standard qs
      else (queue_standard qs)\<lparr>q_items := q_items (queue_standard qs) @ [x]\<rparr>)"
  by (simp add: enqueue_sample_def put_nowait_drain Let_def split: sum.splits prod.splits)
    (auto simp: put_nowait_def split: if_splits)

lemma enqueue_visualization:
  "queue_visualization (fst (enqueue_sample sdl_mode x qs n)) =
     (if full (queue_standard qs) then queue_visualization qs
      else fst (push_policy (queue_visualization qs) x))"
  by (simp add: enqueue_sample_def put_nowait_drain push_policy_eq Let_def
      split: sum.splits prod.splits)
    (auto simp: put_nowait_def split: if_splits)

lemma enqueue_standard_full_logged:
  "full (queue_standard qs) \<Longrightarrow>
   (WARNING, ''Standard queue full, skipping data point'')
     \<in> set (snd (snd (enqueue_sample sdl_mode x qs n)))"
  by (simp add: enqueue_sample_def put_nowait_drain Let_def split: sum.splits prod.splits)
    (auto simp: put_nowait_def split: if_splits)

lemma push_policy_bound:
  "q_maxsize (fst (push_policy q x)) = q_maxsize q
   \<and> (0 < q_maxsize q \<longrightarrow> length (q_items (fst (push_policy q x))) \<le> q_maxsize q)"
  by (auto simp: push_policy_eq full_def)

text \<open>
  C4, as stated, fails for the standard queue: its push is not retried. With 500 samples
  pending in the standard queue, whose bound is 500, the new sample is dropped, the queue
  keeps its 500 samples, and the only record logged is the warning that the data point is
  skipped; the policy of the claim would leave the new sample alone in the queue.
\<close>

theorem standard_queue_full_not_drained:
  "enqueue_sample (Fin 0)
      \<lparr>a_tNow = 1700000000500000, a_u = Fin 1, a_v = Fin 2, a_w = Fin 3, a_d2 = Fin 4,
        a_d3 = Fin 5, a_az = Fin 6, a_ele = Fin 7, a_press = Fin 101000, a_temp = Fin 20,
        a_rh = Fin 50, a_sonic = Fin 21, a_err = Fin 0\<rparr>
      \<lparr>queue_high_freq = \<lparr>q_maxsize = 1000, q_items = []\<rparr>,
       queue_standard = \<lparr>q_maxsize = 500, q_items = replicate 500
         \<lparr>a_tNow = 1700000000000000, a_u = Fin 0, a_v = Fin 0, a_w = Fin 0, a_d2 = Fin 0,
        a_d3 = Fin 0, a_az = Fin 0, a_ele = Fin 0, a_press = Fin 100000, a_temp = Fin 15,
        a_rh = Fin 40, a_sonic = Fin 16, a_err = Fin 0\<rparr>\<rparr>,
       queue_visualization = \<lparr>q_maxsize = 500, q_items = []\<rparr>\<rparr> 0
    = (\<lparr>queue_high_freq = \<lparr>q_maxsize = 1000, q_items = []\<rparr>,
       queue_standard = \<lparr>q_maxsize = 500, q_items = replicate 500
         \<lparr>a_tNow = 1700000000000000, a_u = Fin 0, a_v = Fin 0, a_w = Fin 0, a_d2 = Fin 0,
        a_d3 = Fin 0, a_az = Fin 0, a_ele = Fin 0, a_press = Fin 100000, a_temp = Fin 15,
        a_rh = Fin 40, a_sonic = Fin 16, a_err = Fin 0\<rparr>\<rparr>,
       queue_visualization = \<lparr>q_maxsize = 500, q_items = []\<rparr>\<rparr>,
       0, [(WARNING, ''Standard queue full, skipping data point'')])
   \<and> fst (push_policy \<lparr>q_maxsize = 500, q_items = replicate 500
         \<lparr>a_tNow = 1700000000000000, a_u = Fin 0, a_v = Fin 0, a_w = Fin 0, a_d2 = Fin 0,
        a_d3 = Fin 0, a_az = Fin 0, a_ele = Fin 0, a_press = Fin 100000, a_temp = Fin 15,
        a_rh = Fin 40, a_sonic = Fin 16, a_err = Fin 0\<rparr>\<rparr>
      \<lparr>a_tNow = 1700000000500000, a_u = Fin 1, a_v = Fin 2, a_w = Fin 3, a_d2 = Fin 4,
        a_d3 = Fin 5, a_az = Fin 6, a_ele = Fin 7, a_press = Fin 101000, a_temp = Fin 20,
        a_rh = Fin 50, a_sonic = Fin 21, a_err = Fin 0\<rparr>)
    = \<lparr>q_maxsize = 500, q_items =
        [\<lparr>a_tNow = 1700000000500000, a_u = Fin 1, a_v = Fin 2, a_w = Fin 3, a_d2 = Fin 4,
        a_d3 = Fin 5, a_az = Fin 6, a_ele = Fin 7, a_press = Fin 101000, a_temp = Fin 20,
        a_rh = Fin 50, a_sonic = Fin 21, a_err = Fin 0\<rparr>]\<rparr>"
  by (simp add: enqueue_sample_def put_nowait_def full_def push_policy_def drain_def)

text \<open>
  C4, amended. No push blocks. The high-frequency queue, pushed only while the mode value
  is positive, and, when the standard queue is not full, the visualization queue follow the
  policy: push; on a full queue drain it and push again. The drained queue is never full, so
  the sample is never dropped there, and a bounded queue stays within its bound. The standard
  queue takes the sample when it is not full; when it is full it is left as it is, the
  sample is dropped, and a warning is logged.
\<close>

theorem enqueue_sample_push_policy:
  "(fgt0 sdl_mode \<longrightarrow>
      queue_high_freq (fst (enqueue_sample sdl_mode x qs n))
        = fst (push_policy (queue_high_freq qs) x))
   \<and> (\<not> fgt0 sdl_mode \<longrightarrow>
      queue_high_freq (fst (enqueue_sample sdl_mode x qs n)) = queue_high_freq qs)
   \<and> (\<not> full (queue_standard qs) \<longrightarrow>
      queue_standard (fst (enqueue_sample sdl_mode x qs n))
        = (queue_standard qs)\<lparr>q_items := q_items (queue_standard qs) @ [x]\<rparr>
      \<and> queue_visualization (fst (enqueue_sample sdl_mode x qs n))
        = fst (push_policy (queue_visualization qs) x))
   \<and> (full (queue_standard qs) \<longrightarrow>
      queue_standard (fst (enqueue_sample sdl_mode x qs n)) = queue_standard qs
      \<and> (WARNING, ''Standard queue full, skipping data point'')
          \<in> set (snd (snd (enqueue_sample sdl_mode x qs n))))
   \<and> push_policy q x
        = (if full q then q\<lparr>q_items := [x]\<rparr> else q\<lparr>q_items := q_items q @ [x]\<rparr>, False)
   \<and> q_maxsize (fst (push_policy q x)) = q_maxsize q
   \<and> (0 < q_maxsize q \<longrightarrow> length (q_items (fst (push_policy q x))) \<le> q_maxsize q)"
proof (intro conjI impI)
  assume "fgt0 sdl_mode"
  then show "queue_high_freq (fst (enqueue_sample sdl_mode x qs n))
      = fst (push_policy (queue_high_freq qs) x)"
    by (simp add: enqueue_high_freq)
next
  assume "\<not> fgt0 sdl_mode"
  then show "queue_high_freq (fst (enqueue_sample sdl_mode x qs n)) = queue_high_freq qs"
    by (simp add: enqueue_high_freq)
next
  assume "\<not> full (queue_standard qs)"
  then show "queue_standard (fst (enqueue_sample sdl_mode x qs n))
      = (queue_standard qs)\<lparr>q_items := q_items (queue_standard qs) @ [x]\<rparr>"
    and "queue_visualization (fst (enqueue_sample sdl_mode x qs n))
      = fst (push_policy (queue_visualization qs) x)"
    by (simp_all add: enqueue_standard enqueue_visualization)
next
  assume f: "full (queue_standard qs)"
  then show "queue_standard (fst (enqueue_sample sdl_mode x qs n)) = queue_standard qs"
    by (simp add: enqueue_standard)
  from f show "(WARNING, ''Standard queue full, skipping data point'')
      \<in> set (snd (snd (enqueue_sample sdl_mode x qs n)))"
    by (rule enqueue_standard_full_logged)
next
  show "push_policy q x
      = (if full q then q\<lparr>q_items := [x]\<rparr> else q\<lparr>q_items := q_items q @ [x]\<rparr>, False)"
    by (rule push_policy_eq)
next
  show "q_maxsize (fst (push_policy q x)) = q_maxsize q"
    using push_policy_bound [of q x] by (rule conjunct1)
next
  assume "0 < q_maxsize q"
  then show "length (q_items (fst (push_policy q x))) \<le> q_maxsize q"
    using push_policy_bound [of q x] by simp
qed

theorem enqueue_sample_push_policy_witness:
  "fgt0 (Fin 1)
   \<and> \<not> fgt0 (Fin 0)
   \<and> \<not> full \<lparr>q_maxsize = 2, q_items = [\<lparr>a_tNow = 1700000000000000, a_u = Fin 0, a_v = Fin 0, a_w = Fin 0, a_d2 = Fin 0,
        a_d3 = Fin 0, a_az = Fin 0, a_ele = Fin 0, a_press = Fin 100000, a_temp = Fin 15,
        a_rh = Fin 40, a_sonic = Fin 16, a_err = Fin 0\<rparr>]\<rparr>
   \<and> full \<lparr>q_maxsize = 2, q_items = [\<lparr>a_tNow = 1700000000000000, a_u = Fin 0, a_v = Fin 0, a_w = Fin 0, a_d2 = Fin 0,
        a_d3 = Fin 0, a_az = Fin 0, a_ele = Fin 0, a_press = Fin 100000, a_temp = Fin 15,
        a_rh = Fin 40, a_sonic = Fin 16, a_err = Fin 0\<rparr>, \<lparr>a_tNow = 1700000000000000, a_u = Fin 0, a_v = Fin 0, a_w = Fin 0, a_d2 = Fin 0,
        a_d3 = Fin 0, a_az = Fin 0, a_ele = Fin 0, a_press = Fin 100000, a_temp = Fin 15,
        a_rh = Fin 40, a_sonic = Fin 16, a_err = Fin 0\<rparr>]\<rparr>
   \<and> 0 < q_maxsize \<lparr>q_maxsize = 2, q_items = [\<lparr>a_tNow = 1700000000000000, a_u = Fin 0, a_v = Fin 0, a_w = Fin 0, a_d2 = Fin 0,
        a_d3 = Fin 0, a_az = Fin 0, a_ele = Fin 0, a_press = Fin 100000, a_temp = Fin 15,
        a_rh = Fin 40, a_sonic = Fin 16, a_err = Fin 0\<rparr>, \<lparr>a_tNow = 1700000000000000, a_u = Fin 0, a_v = Fin 0, a_w = Fin 0, a_d2 = Fin 0,
        a_d3 = Fin 0, a_az = Fin 0, a_ele = Fin 0, a_press = Fin 100000, a_temp = Fin 15,
        a_rh = Fin 40, a_sonic = Fin 16, a_err = Fin 0\<rparr>]\<rparr>
   \<and> queue_high_freq (fst (enqueue_sample (Fin 1) \<lparr>a_tNow = 1700000000500000, a_u = Fin 1, a_v = Fin 2, a_w = Fin 3, a_d2 = Fin 4,
        a_d3 = Fin 5, a_az = Fin 6, a_ele = Fin 7, a_press = Fin 101000, a_temp = Fin 20,
        a_rh = Fin 50, a_sonic = Fin 21, a_err = Fin 0\<rparr> \<lparr>queue_high_freq = \<lparr>q_maxsize = 2, q_items = [\<lparr>a_tNow = 1700000000000000, a_u = Fin 0, a_v = Fin 0, a_w = Fin 0, a_d2 = Fin 0,
        a_d3 = Fin 0, a_az = Fin 0, a_ele = Fin 0, a_press = Fin 100000, a_temp = Fin 15,
        a_rh = Fin 40, a_sonic = Fin 16, a_err = Fin 0\<rparr>, \<lparr>a_tNow = 1700000000000000, a_u = Fin 0, a_v = Fin 0, a_w = Fin 0, a_d2 = Fin 0,
        a_d3 = Fin 0, a_az = Fin 0, a_ele = Fin 0, a_press = Fin 100000, a_temp = Fin 15,
        a_rh = Fin 40, a_sonic = Fin 16, a_err = Fin 0\<rparr>]\<rparr>, queue_standard = \<lparr>q_maxsize = 2, q_items = [\<lparr>a_tNow = 1700000000000000, a_u = Fin 0, a_v = Fin 0, a_w = Fin 0, a_d2 = Fin 0,
        a_d3 = Fin 0, a_az = Fin 0, a_ele = Fin 0, a_press = Fin 100000, a_temp = Fin 15,
        a_rh = Fin 40, a_sonic = Fin 16, a_err = Fin 0\<rparr>]\<rparr>, queue_visualization = \<lparr>q_maxsize = 2, q_items = [\<lparr>a_tNow = 1700000000000000, a_u = Fin 0, a_v = Fin 0, a_w = Fin 0, a_d2 = Fin 0,
        a_d3 = Fin 0, a_az = Fin 0, a_ele = Fin 0, a_press = Fin 100000, a_temp = Fin 15,
        a_rh = Fin 40, a_sonic = Fin 16, a_err = Fin 0\<rparr>, \<lparr>a_tNow = 1700000000000000, a_u = Fin 0, a_v = Fin 0, a_w = Fin 0, a_d2 = Fin 0,
        a_d3 = Fin 0, a_az = Fin 0, a_ele = Fin 0, a_press = Fin 100000, a_temp = Fin 15,
        a_rh = Fin 40, a_sonic = Fin 16, a_err = Fin 0\<rparr>]\<rparr>\<rparr> 7)) = \<lparr>q_maxsize = 2, q_items = [\<lparr>a_tNow = 1700000000500000, a_u = Fin 1, a_v = Fin 2, a_w = Fin 3, a_d2 = Fin 4,
        a_d3 = Fin 5, a_az = Fin 6, a_ele = Fin 7, a_press = Fin 101000, a_temp = Fin 20,
        a_rh = Fin 50, a_sonic = Fin 21, a_err = Fin 0\<rparr>]\<rparr>
   \<and> queue_standard (fst (enqueue_sample (Fin 1) \<lparr>a_tNow = 1700000000500000, a_u = Fin 1, a_v = Fin 2, a_w = Fin 3, a_d2 = Fin 4,
        a_d3 = Fin 5, a_az = Fin 6, a_ele = Fin 7, a_press = Fin 101000, a_temp = Fin 20,
        a_rh = Fin 50, a_sonic = Fin 21, a_err = Fin 0\<rparr> \<lparr>queue_high_freq = \<lparr>q_maxsize = 2, q_items = [\<lparr>a_tNow = 1700000000000000, a_u = Fin 0, a_v = Fin 0, a_w = Fin 0, a_d2 = Fin 0,
        a_d3 = Fin 0, a_az = Fin 0, a_ele = Fin 0, a_press = Fin 100000, a_temp = Fin 15,
        a_rh = Fin 40, a_sonic = Fin 16, a_err = Fin 0\<rparr>, \<lparr>a_tNow = 1700000000000000, a_u = Fin 0, a_v = Fin 0, a_w = Fin 0, a_d2 = Fin 0,
        a_d3 = Fin 0, a_az = Fin 0, a_ele = Fin 0, a_press = Fin 100000, a_temp = Fin 15,
        a_rh = Fin 40, a_sonic = Fin 16, a_err = Fin 0\<rparr>]\<rparr>, queue_standard = \<lparr>q_maxsize = 2, q_items = [\<lparr>a_tNow = 1700000000000000, a_u = Fin 0, a_v = Fin 0, a_w = Fin 0, a_d2 = Fin 0,
        a_d3 = Fin 0, a_az = Fin 0, a_ele = Fin 0, a_press = Fin 100000, a_temp = Fin 15,
        a_rh = Fin 40, a_sonic = Fin 16, a_err = Fin 0\<rparr>]\<rparr>, queue_visualization = \<lparr>q_maxsize = 2, q_items = [\<lparr>a_tNow = 1700000000000000, a_u = Fin 0, a_v = Fin 0, a_w = Fin 0, a_d2 = Fin 0,
        a_d3 = Fin 0, a_az = Fin 0, a_ele = Fin 0, a_press = Fin 100000, a_temp = Fin 15,
        a_rh = Fin 40, a_sonic = Fin 16, a_err = Fin 0\<rparr>, \<lparr>a_tNow = 1700000000000000, a_u = Fin 0, a_v = Fin 0, a_w = Fin 0, a_d2 = Fin 0,
        a_d3 = Fin 0, a_az = Fin 0, a_ele = Fin 0, a_press = Fin 100000, a_temp = Fin 15,
        a_rh = Fin 40, a_sonic = Fin 16, a_err = Fin 0\<rparr>]\<rparr>\<rparr> 7)) = \<lparr>q_maxsize = 2, q_items = [\<lparr>a_tNow = 1700000000000000, a_u = Fin 0, a_v = Fin 0, a_w = Fin 0, a_d2 = Fin 0,
        a_d3 = Fin 0, a_az = Fin 0, a_ele = Fin 0, a_press = Fin 100000, a_temp = Fin 15,
        a_rh = Fin 40, a_sonic = Fin 16, a_err = Fin 0\<rparr>, \<lparr>a_tNow = 1700000000500000, a_u = Fin 1, a_v = Fin 2, a_w = Fin 3, a_d2 = Fin 4,
        a_d3 = Fin 5, a_az = Fin 6, a_ele = Fin 7, a_press = Fin 101000, a_temp = Fin 20,
        a_rh = Fin 50, a_sonic = Fin 21, a_err = Fin 0\<rparr>]\<rparr>
   \<and> queue_visualization (fst (enqueue_sample (Fin 1) \<lparr>a_tNow = 1700000000500000, a_u = Fin 1, a_v = Fin 2, a_w = Fin 3, a_d2 = Fin 4,
        a_d3 = Fin 5, a_az = Fin 6, a_ele = Fin 7, a_press = Fin 101000, a_temp = Fin 20,
        a_rh = Fin 50, a_sonic = Fin 21, a_err = Fin 0\<rparr> \<lparr>queue_high_freq = \<lparr>q_maxsize = 2, q_items = [\<lparr>a_tNow = 1700000000000000, a_u = Fin 0, a_v = Fin 0, a_w = Fin 0, a_d2 = Fin 0,
        a_d3 = Fin 0, a_az = Fin 0, a_ele = Fin 0, a_press = Fin 100000, a_temp = Fin 15,
        a_rh = Fin 40, a_sonic = Fin 16, a_err = Fin 0\<rparr>, \<lparr>a_tNow = 1700000000000000, a_u = Fin 0, a_v = Fin 0, a_w = Fin 0, a_d2 = Fin 0,
        a_d3 = Fin 0, a_az = Fin 0, a_ele = Fin 0, a_press = Fin 100000, a_temp = Fin 15,
        a_rh = Fin 40, a_sonic = Fin 16, a_err = Fin 0\<rparr>]\<rparr>, queue_standard = \<lparr>q_maxsize = 2, q_items = [\<lparr>a_tNow = 1700000000000000, a_u = Fin 0, a_v = Fin 0, a_w = Fin 0, a_d2 = Fin 0,
        a_d3 = Fin 0, a_az = Fin 0, a_ele = Fin 0, a_press = Fin 100000, a_temp = Fin 15,
        a_rh = Fin 40, a_sonic = Fin 16, a_err = Fin 0\<rparr>]\<rparr>, queue_visualization = \<lparr>q_maxsize = 2, q_items = [\<lparr>a_tNow = 1700000000000000, a_u = Fin 0, a_v = Fin 0, a_w = Fin 0, a_d2 = Fin 0,
        a_d3 = Fin 0, a_az = Fin 0, a_ele = Fin 0, a_press = Fin 100000, a_temp = Fin 15,
        a_rh = Fin 40, a_sonic = Fin 16, a_err = Fin 0\<rparr>, \<lparr>a_tNow = 1700000000000000, a_u = Fin 0, a_v = Fin 0, a_w = Fin 0, a_d2 = Fin 0,
        a_d3 = Fin 0, a_az = Fin 0, a_ele = Fin 0, a_press = Fin 100000, a_temp = Fin 15,
        a_rh = Fin 40, a_sonic = Fin 16, a_err = Fin 0\<rparr>]\<rparr>\<rparr> 7)) = \<lparr>q_maxsize = 2, q_items = [\<lparr>a_tNow = 1700000000500000, a_u = Fin 1, a_v = Fin 2, a_w = Fin 3, a_d2 = Fin 4,
        a_d3 = Fin 5, a_az = Fin 6, a_ele = Fin 7, a_press = Fin 101000, a_temp = Fin 20,
        a_rh = Fin 50, a_sonic = Fin 21, a_err = Fin 0\<rparr>]\<rparr>
   \<and> queue_high_freq (fst (enqueue_sample (Fin 0) \<lparr>a_tNow = 1700000000500000, a_u = Fin 1, a_v = Fin 2, a_w = Fin 3, a_d2 = Fin 4,
        a_d3 = Fin 5, a_az = Fin 6, a_ele = Fin 7, a_press = Fin 101000, a_temp = Fin 20,
        a_rh = Fin 50, a_sonic = Fin 21, a_err = Fin 0\<rparr> \<lparr>queue_high_freq = \<lparr>q_maxsize = 2, q_items = [\<lparr>a_tNow = 1700000000000000, a_u = Fin 0, a_v = Fin 0, a_w = Fin 0, a_d2 = Fin 0,
        a_d3 = Fin 0, a_az = Fin 0, a_ele = Fin 0, a_press = Fin 100000, a_temp = Fin 15,
        a_rh = Fin 40, a_sonic = Fin 16, a_err = Fin 0\<rparr>]\<rparr>, queue_standard = \<lparr>q_maxsize = 2, q_items = [\<lparr>a_tNow = 1700000000000000, a_u = Fin 0, a_v = Fin 0, a_w = Fin 0, a_d2 = Fin 0,
        a_d3 = Fin 0, a_az = Fin 0, a_ele = Fin 0, a_press = Fin 100000, a_temp = Fin 15,
        a_rh = Fin 40, a_sonic = Fin 16, a_err = Fin 0\<rparr>, \<lparr>a_tNow = 1700000000000000, a_u = Fin 0, a_v = Fin 0, a_w = Fin 0, a_d2 = Fin 0,
        a_d3 = Fin 0, a_az = Fin 0, a_ele = Fin 0, a_press = Fin 100000, a_temp = Fin 15,
        a_rh = Fin 40, a_sonic = Fin 16, a_err = Fin 0\<rparr>]\<rparr>, queue_visualization = \<lparr>q_maxsize = 2, q_items = []\<rparr>\<rparr> 7)) = \<lparr>q_maxsize = 2, q_items = [\<lparr>a_tNow = 1700000000000000, a_u = Fin 0, a_v = Fin 0, a_w = Fin 0, a_d2 = Fin 0,
        a_d3 = Fin 0, a_az = Fin 0, a_ele = Fin 0, a_press = Fin 100000, a_temp = Fin 15,
        a_rh = Fin 40, a_sonic = Fin 16, a_err = Fin 0\<rparr>]\<rparr>
   \<and> queue_standard (fst (enqueue_sample (Fin 0) \<lparr>a_tNow = 1700000000500000, a_u = Fin 1, a_v = Fin 2, a_w = Fin 3, a_d2 = Fin 4,
        a_d3 = Fin 5, a_az = Fin 6, a_ele = Fin 7, a_press = Fin 101000, a_temp = Fin 20,
        a_rh = Fin 50, a_sonic = Fin 21, a_err = Fin 0\<rparr> \<lparr>queue_high_freq = \<lparr>q_maxsize = 2, q_items = [\<lparr>a_tNow = 1700000000000000, a_u = Fin 0, a_v = Fin 0, a_w = Fin 0, a_d2 = Fin 0,
        a_d3 = Fin 0, a_az = Fin 0, a_ele = Fin 0, a_press = Fin 100000, a_temp = Fin 15,
        a_rh = Fin 40, a_sonic = Fin 16, a_err = Fin 0\<rparr>]\<rparr>, queue_standard = \<lparr>q_maxsize = 2, q_items = [\<lparr>a_tNow = 1700000000000000, a_u = Fin 0, a_v = Fin 0, a_w = Fin 0, a_d2 = Fin 0,
        a_d3 = Fin 0, a_az = Fin 0, a_ele = Fin 0, a_press = Fin 100000, a_temp = Fin 15,
        a_rh = Fin 40, a_sonic = Fin 16, a_err = Fin 0\<rparr>, \<lparr>a_tNow = 1700000000000000, a_u = Fin 0, a_v = Fin 0, a_w = Fin 0, a_d2 = Fin 0,
        a_d3 = Fin 0, a_az = Fin 0, a_ele = Fin 0, a_press = Fin 100000, a_temp = Fin 15,
        a_rh = Fin 40, a_sonic = Fin 16, a_err = Fin 0\<rparr>]\<rparr>, queue_visualization = \<lparr>q_maxsize = 2, q_items = []\<rparr>\<rparr> 7)) = \<lparr>q_maxsize = 2, q_items = [\<lparr>a_tNow = 1700000000000000, a_u = Fin 0, a_v = Fin 0, a_w = Fin 0, a_d2 = Fin 0,
        a_d3 = Fin 0, a_az = Fin 0, a_ele = Fin 0, a_press = Fin 100000, a_temp = Fin 15,
        a_rh = Fin 40, a_sonic = Fin 16, a_err = Fin 0\<rparr>, \<lparr>a_tNow = 1700000000000000, a_u = Fin 0, a_v = Fin 0, a_w = Fin 0, a_d2 = Fin 0,
        a_d3 = Fin 0, a_az = Fin 0, a_ele = Fin 0, a_press = Fin 100000, a_temp = Fin 15,
        a_rh = Fin 40, a_sonic = Fin 16, a_err = Fin 0\<rparr>]\<rparr>
   \<and> (WARNING, ''Standard queue full, skipping data point'') \<in> set (snd (snd (enqueue_sample (Fin 0) \<lparr>a_tNow = 1700000000500000, a_u = Fin 1, a_v = Fin 2, a_w = Fin 3, a_d2 = Fin 4,
        a_d3 = Fin 5, a_az = Fin 6, a_ele = Fin 7, a_press = Fin 101000, a_temp = Fin 20,
        a_rh = Fin 50, a_sonic = Fin 21, a_err = Fin 0\<rparr> \<lparr>queue_high_freq = \<lparr>q_maxsize = 2, q_items = [\<lparr>a_tNow = 1700000000000000, a_u = Fin 0, a_v = Fin 0, a_w = Fin 0, a_d2 = Fin 0,
        a_d3 = Fin 0, a_az = Fin 0, a_ele = Fin 0, a_press = Fin 100000, a_temp = Fin 15,
        a_rh = Fin 40, a_sonic = Fin 16, a_err = Fin 0\<rparr>]\<rparr>, queue_standard = \<lparr>q_maxsize = 2, q_items = [\<lparr>a_tNow = 1700000000000000, a_u = Fin 0, a_v = Fin 0, a_w = Fin 0, a_d2 = Fin 0,
        a_d3 = Fin 0, a_az = Fin 0, a_ele = Fin 0, a_press = Fin 100000, a_temp = Fin 15,
        a_rh = Fin 40, a_sonic = Fin 16, a_err = Fin 0\<rparr>, \<lparr>a_tNow = 1700000000000000, a_u = Fin 0, a_v = Fin 0, a_w = Fin 0, a_d2 = Fin 0,
        a_d3 = Fin 0, a_az = Fin 0, a_ele = Fin 0, a_press = Fin 100000, a_temp = Fin 15,
        a_rh = Fin 40, a_sonic = Fin 16, a_err = Fin 0\<rparr>]\<rparr>, queue_visualization = \<lparr>q_maxsize = 2, q_items = []\<rparr>\<rparr> 7)))
   \<and> push_policy \<lparr>q_maxsize = 2, q_items = [\<lparr>a_tNow = 1700000000000000, a_u = Fin 0, a_v = Fin 0, a_w = Fin 0, a_d2 = Fin 0,
        a_d3 = Fin 0, a_az = Fin 0, a_ele = Fin 0, a_press = Fin 100000, a_temp = Fin 15,
        a_rh = Fin 40, a_sonic = Fin 16, a_err = Fin 0\<rparr>, \<lparr>a_tNow = 1700000000000000, a_u = Fin 0, a_v = Fin 0, a_w = Fin 0, a_d2 = Fin 0,
        a_d3 = Fin 0, a_az = Fin 0, a_ele = Fin 0, a_press = Fin 100000, a_temp = Fin 15,
        a_rh = Fin 40, a_sonic = Fin 16, a_err = Fin 0\<rparr>]\<rparr> \<lparr>a_tNow = 1700000000500000, a_u = Fin 1, a_v = Fin 2, a_w = Fin 3, a_d2 = Fin 4,
        a_d3 = Fin 5, a_az = Fin 6, a_ele = Fin 7, a_press = Fin 101000, a_temp = Fin 20,
        a_rh = Fin 50, a_sonic = Fin 21, a_err = Fin 0\<rparr> = (\<lparr>q_maxsize = 2, q_items = [\<lparr>a_tNow = 1700000000500000, a_u = Fin 1, a_v = Fin 2, a_w = Fin 3, a_d2 = Fin 4,
        a_d3 = Fin 5, a_az = Fin 6, a_ele = Fin 7, a_press = Fin 101000, a_temp = Fin 20,
        a_rh = Fin 50, a_sonic = Fin 21, a_err = Fin 0\<rparr>]\<rparr>, False)
   \<and> length (q_items (fst (push_policy \<lparr>q_maxsize = 2, q_items = [\<lparr>a_tNow = 1700000000000000, a_u = Fin 0, a_v = Fin 0, a_w = Fin 0, a_d2 = Fin 0,
        a_d3 = Fin 0, a_az = Fin 0, a_ele = Fin 0, a_press = Fin 100000, a_temp = Fin 15,
        a_rh = Fin 40, a_sonic = Fin 16, a_err = Fin 0\<rparr>, \<lparr>a_tNow = 1700000000000000, a_u = Fin 0, a_v = Fin 0, a_w = Fin 0, a_d2 = Fin 0,
        a_d3 = Fin 0, a_az = Fin 0, a_ele = Fin 0, a_press = Fin 100000, a_temp = Fin 15,
        a_rh = Fin 40, a_sonic = Fin 16, a_err = Fin 0\<rparr>]\<rparr> \<lparr>a_tNow = 1700000000500000, a_u = Fin 1, a_v = Fin 2, a_w = Fin 3, a_d2 = Fin 4,
        a_d3 = Fin 5, a_az = Fin 6, a_ele = Fin 7, a_press = Fin 101000, a_temp = Fin 20,
        a_rh = Fin 50, a_sonic = Fin 21, a_err = Fin 0\<rparr>))) \<le> 2"
proof -
  have h1: "fgt0 (Fin 1)"
    by (simp add: full_def)
  have h2: "\<not> fgt0 (Fin 0)"
    by (simp add: full_def)
  have h3: "\<not> full \<lparr>q_maxsize = 2, q_items = [\<lparr>a_tNow = 1700000000000000, a_u = Fin 0, a_v = Fin 0, a_w = Fin 0, a_d2 = Fin 0,
        a_d3 = Fin 0, a_az = Fin 0, a_ele = Fin 0, a_press = Fin 100000, a_temp = Fin 15,
        a_rh = Fin 40, a_sonic = Fin 16, a_err = Fin 0\<rparr>]\<rparr>"
    by (simp add: full_def)
  have h4: "full \<lparr>q_maxsize = 2, q_items = [\<lparr>a_tNow = 1700000000000000, a_u = Fin 0, a_v = Fin 0, a_w = Fin 0, a_d2 = Fin 0,
        a_d3 = Fin 0, a_az = Fin 0, a_ele = Fin 0, a_press = Fin 100000, a_temp = Fin 15,
        a_rh = Fin 40, a_sonic = Fin 16, a_err = Fin 0\<rparr>, \<lparr>a_tNow = 1700000000000000, a_u = Fin 0, a_v = Fin 0, a_w = Fin 0, a_d2 = Fin 0,
        a_d3 = Fin 0, a_az = Fin 0, a_ele = Fin 0, a_press = Fin 100000, a_temp = Fin 15,
        a_rh = Fin 40, a_sonic = Fin 16, a_err = Fin 0\<rparr>]\<rparr>"
    by (simp add: full_def)
  have h5: "0 < q_maxsize \<lparr>q_maxsize = 2, q_items = [\<lparr>a_tNow = 1700000000000000, a_u = Fin 0, a_v = Fin 0, a_w = Fin 0, a_d2 = Fin 0,
        a_d3 = Fin 0, a_az = Fin 0, a_ele = Fin 0, a_press = Fin 100000, a_temp = Fin 15,
        a_rh = Fin 40, a_sonic = Fin 16, a_err = Fin 0\<rparr>, \<lparr>a_tNow = 1700000000000000, a_u = Fin 0, a_v = Fin 0, a_w = Fin 0, a_d2 = Fin 0,
        a_d3 = Fin 0, a_az = Fin 0, a_ele = Fin 0, a_press = Fin 100000, a_temp = Fin 15,
        a_rh = Fin 40, a_sonic = Fin 16, a_err = Fin 0\<rparr>]\<rparr>"
    by (simp add: full_def)
  note A = enqueue_sample_push_policy [of "Fin 1" "\<lparr>a_tNow = 1700000000500000, a_u = Fin 1, a_v = Fin 2, a_w = Fin 3, a_d2 = Fin 4,
        a_d3 = Fin 5, a_az = Fin 6, a_ele = Fin 7, a_press = Fin 101000, a_temp = Fin 20,
        a_rh = Fin 50, a_sonic = Fin 21, a_err = Fin 0\<rparr>"
      "\<lparr>queue_high_freq = \<lparr>q_maxsize = 2, q_items = [\<lparr>a_tNow = 1700000000000000, a_u = Fin 0, a_v = Fin 0, a_w = Fin 0, a_d2 = Fin 0,
        a_d3 = Fin 0, a_az = Fin 0, a_ele = Fin 0, a_press = Fin 100000, a_temp = Fin 15,
        a_rh = Fin 40, a_sonic = Fin 16, a_err = Fin 0\<rparr>, \<lparr>a_tNow = 1700000000000000, a_u = Fin 0, a_v = Fin 0, a_w = Fin 0, a_d2 = Fin 0,
        a_d3 = Fin 0, a_az = Fin 0, a_ele = Fin 0, a_press = Fin 100000, a_temp = Fin 15,
        a_rh = Fin 40, a_sonic = Fin 16, a_err = Fin 0\<rparr>]\<rparr>, queue_standard = \<lparr>q_maxsize = 2, q_items = [\<lparr>a_tNow = 1700000000000000, a_u = Fin 0, a_v = Fin 0, a_w = Fin 0, a_d2 = Fin 0,
        a_d3 = Fin 0, a_az = Fin 0, a_ele = Fin 0, a_press = Fin 100000, a_temp = Fin 15,
        a_rh = Fin 40, a_sonic = Fin 16, a_err = Fin 0\<rparr>]\<rparr>, queue_visualization = \<lparr>q_maxsize = 2, q_items = [\<lparr>a_tNow = 1700000000000000, a_u = Fin 0, a_v = Fin 0, a_w = Fin 0, a_d2 = Fin 0,
        a_d3 = Fin 0, a_az = Fin 0, a_ele = Fin 0, a_press = Fin 100000, a_temp = Fin 15,
        a_rh = Fin 40, a_sonic = Fin 16, a_err = Fin 0\<rparr>, \<lparr>a_tNow = 1700000000000000, a_u = Fin 0, a_v = Fin 0, a_w = Fin 0, a_d2 = Fin 0,
        a_d3 = Fin 0, a_az = Fin 0, a_ele = Fin 0, a_press = Fin 100000, a_temp = Fin 15,
        a_rh = Fin 40, a_sonic = Fin 16, a_err = Fin 0\<rparr>]\<rparr>\<rparr>" 7
      "\<lparr>q_maxsize = 2, q_items = [\<lparr>a_tNow = 1700000000000000, a_u = Fin 0, a_v = Fin 0, a_w = Fin 0, a_d2 = Fin 0,
        a_d3 = Fin 0, a_az = Fin 0, a_ele = Fin 0, a_press = Fin 100000, a_temp = Fin 15,
        a_rh = Fin 40, a_sonic = Fin 16, a_err = Fin 0\<rparr>, \<lparr>a_tNow = 1700000000000000, a_u = Fin 0, a_v = Fin 0, a_w = Fin 0, a_d2 = Fin 0,
        a_d3 = Fin 0, a_az = Fin 0, a_ele = Fin 0, a_press = Fin 100000, a_temp = Fin 15,
        a_rh = Fin 40, a_sonic = Fin 16, a_err = Fin 0\<rparr>]\<rparr>"]
  note B = enqueue_sample_push_policy [of "Fin 0" "\<lparr>a_tNow = 1700000000500000, a_u = Fin 1, a_v = Fin 2, a_w = Fin 3, a_d2 = Fin 4,
        a_d3 = Fin 5, a_az = Fin 6, a_ele = Fin 7, a_press = Fin 101000, a_temp = Fin 20,
        a_rh = Fin 50, a_sonic = Fin 21, a_err = Fin 0\<rparr>"
      "\<lparr>queue_high_freq = \<lparr>q_maxsize = 2, q_items = [\<lparr>a_tNow = 1700000000000000, a_u = Fin 0, a_v = Fin 0, a_w = Fin 0, a_d2 = Fin 0,
        a_d3 = Fin 0, a_az = Fin 0, a_ele = Fin 0, a_press = Fin 100000, a_temp = Fin 15,
        a_rh = Fin 40, a_sonic = Fin 16, a_err = Fin 0\<rparr>]\<rparr>, queue_standard = \<lparr>q_maxsize = 2, q_items = [\<lparr>a_tNow = 1700000000000000, a_u = Fin 0, a_v = Fin 0, a_w = Fin 0, a_d2 = Fin 0,
        a_d3 = Fin 0, a_az = Fin 0, a_ele = Fin 0, a_press = Fin 100000, a_temp = Fin 15,
        a_rh = Fin 40, a_sonic = Fin 16, a_err = Fin 0\<rparr>, \<lparr>a_tNow = 1700000000000000, a_u = Fin 0, a_v = Fin 0, a_w = Fin 0, a_d2 = Fin 0,
        a_d3 = Fin 0, a_az = Fin 0, a_ele = Fin 0, a_press = Fin 100000, a_temp = Fin 15,
        a_rh = Fin 40, a_sonic = Fin 16, a_err = Fin 0\<rparr>]\<rparr>, queue_visualization = \<lparr>q_maxsize = 2, q_items = []\<rparr>\<rparr>" 7
      "\<lparr>q_maxsize = 2, q_items = [\<lparr>a_tNow = 1700000000000000, a_u = Fin 0, a_v = Fin 0, a_w = Fin 0, a_d2 = Fin 0,
        a_d3 = Fin 0, a_az = Fin 0, a_ele = Fin 0, a_press = Fin 100000, a_temp = Fin 15,
        a_rh = Fin 40, a_sonic = Fin 16, a_err = Fin 0\<rparr>, \<lparr>a_tNow = 1700000000000000, a_u = Fin 0, a_v = Fin 0, a_w = Fin 0, a_d2 = Fin 0,
        a_d3 = Fin 0, a_az = Fin 0, a_ele = Fin 0, a_press = Fin 100000, a_temp = Fin 15,
        a_rh = Fin 40, a_sonic = Fin 16, a_err = Fin 0\<rparr>]\<rparr>"]
  have h3': "\<not> full (queue_standard \<lparr>queue_high_freq = \<lparr>q_maxsize = 2, q_items = [\<lparr>a_tNow = 1700000000000000, a_u = Fin 0, a_v = Fin 0, a_w = Fin 0, a_d2 = Fin 0,
        a_d3 = Fin 0, a_az = Fin 0, a_ele = Fin 0, a_press = Fin 100000, a_temp = Fin 15,
        a_rh = Fin 40, a_sonic = Fin 16, a_err = Fin 0\<rparr>, \<lparr>a_tNow = 1700000000000000, a_u = Fin 0, a_v = Fin 0, a_w = Fin 0, a_d2 = Fin 0,
        a_d3 = Fin 0, a_az = Fin 0, a_ele = Fin 0, a_press = Fin 100000, a_temp = Fin 15,
        a_rh = Fin 40, a_sonic = Fin 16, a_err = Fin 0\<rparr>]\<rparr>, queue_standard = \<lparr>q_maxsize = 2, q_items = [\<lparr>a_tNow = 1700000000000000, a_u = Fin 0, a_v = Fin 0, a_w = Fin 0, a_d2 = Fin 0,
        a_d3 = Fin 0, a_az = Fin 0, a_ele = Fin 0, a_press = Fin 100000, a_temp = Fin 15,
        a_rh = Fin 40, a_sonic = Fin 16, a_err = Fin 0\<rparr>]\<rparr>, queue_visualization = \<lparr>q_maxsize = 2, q_items = [\<lparr>a_tNow = 1700000000000000, a_u = Fin 0, a_v = Fin 0, a_w = Fin 0, a_d2 = Fin 0,
        a_d3 = Fin 0, a_az = Fin 0, a_ele = Fin 0, a_press = Fin 100000, a_temp = Fin 15,
        a_rh = Fin 40, a_sonic = Fin 16, a_err = Fin 0\<rparr>, \<lparr>a_tNow = 1700000000000000, a_u = Fin 0, a_v = Fin 0, a_w = Fin 0, a_d2 = Fin 0,
        a_d3 = Fin 0, a_az = Fin 0, a_ele = Fin 0, a_press = Fin 100000, a_temp = Fin 15,
        a_rh = Fin 40, a_sonic = Fin 16, a_err = Fin 0\<rparr>]\<rparr>\<rparr>)"
    using h3 by simp
  have h4': "full (queue_standard \<lparr>queue_high_freq = \<lparr>q_maxsize = 2, q_items = [\<lparr>a_tNow = 1700000000000000, a_u = Fin 0, a_v = Fin 0, a_w = Fin 0, a_d2 = Fin 0,
        a_d3 = Fin 0, a_az = Fin 0, a_ele = Fin 0, a_press = Fin 100000, a_temp = Fin 15,
        a_rh = Fin 40, a_sonic = Fin 16, a_err = Fin 0\<rparr>]\<rparr>, queue_standard = \<lparr>q_maxsize = 2, q_items = [\<lparr>a_tNow = 1700000000000000, a_u = Fin 0, a_v = Fin 0, a_w = Fin 0, a_d2 = Fin 0,
        a_d3 = Fin 0, a_az = Fin 0, a_ele = Fin 0, a_press = Fin 100000, a_temp = Fin 15,
        a_rh = Fin 40, a_sonic = Fin 16, a_err = Fin 0\<rparr>, \<lparr>a_tNow = 1700000000000000, a_u = Fin 0, a_v = Fin 0, a_w = Fin 0, a_d2 = Fin 0,
        a_d3 = Fin 0, a_az = Fin 0, a_ele = Fin 0, a_press = Fin 100000, a_temp = Fin 15,
        a_rh = Fin 40, a_sonic = Fin 16, a_err = Fin 0\<rparr>]\<rparr>, queue_visualization = \<lparr>q_maxsize = 2, q_items = []\<rparr>\<rparr>)"
    using h4 by simp
  from A [THEN conjunct1, THEN mp, OF h1]
  have a1: "queue_high_freq (fst (enqueue_sample (Fin 1) \<lparr>a_tNow = 1700000000500000, a_u = Fin 1, a_v = Fin 2, a_w = Fin 3, a_d2 = Fin 4,
        a_d3 = Fin 5, a_az = Fin 6, a_ele = Fin 7, a_press = Fin 101000, a_temp = Fin 20,
        a_rh = Fin 50, a_sonic = Fin 21, a_err = Fin 0\<rparr> \<lparr>queue_high_freq = \<lparr>q_maxsize = 2, q_items = [\<lparr>a_tNow = 1700000000000000, a_u = Fin 0, a_v = Fin 0, a_w = Fin 0, a_d2 = Fin 0,
        a_d3 = Fin 0, a_az = Fin 0, a_ele = Fin 0, a_press = Fin 100000, a_temp = Fin 15,
        a_rh = Fin 40, a_sonic = Fin 16, a_err = Fin 0\<rparr>, \<lparr>a_tNow = 1700000000000000, a_u = Fin 0, a_v = Fin 0, a_w = Fin 0, a_d2 = Fin 0,
        a_d3 = Fin 0, a_az = Fin 0, a_ele = Fin 0, a_press = Fin 100000, a_temp = Fin 15,
        a_rh = Fin 40, a_sonic = Fin 16, a_err = Fin 0\<rparr>]\<rparr>, queue_standard = \<lparr>q_maxsize = 2, q_items = [\<lparr>a_tNow = 1700000000000000, a_u = Fin 0, a_v = Fin 0, a_w = Fin 0, a_d2 = Fin 0,
        a_d3 = Fin 0, a_az = Fin 0, a_ele = Fin 0, a_press = Fin 100000, a_temp = Fin 15,
        a_rh = Fin 40, a_sonic = Fin 16, a_err = Fin 0\<rparr>]\<rparr>, queue_visualization = \<lparr>q_maxsize = 2, q_items = [\<lparr>a_tNow = 1700000000000000, a_u = Fin 0, a_v = Fin 0, a_w = Fin 0, a_d2 = Fin 0,
        a_d3 = Fin 0, a_az = Fin 0, a_ele = Fin 0, a_press = Fin 100000, a_temp = Fin 15,
        a_rh = Fin 40, a_sonic = Fin 16, a_err = Fin 0\<rparr>, \<lparr>a_tNow = 1700000000000000, a_u = Fin 0, a_v = Fin 0, a_w = Fin 0, a_d2 = Fin 0,
        a_d3 = Fin 0, a_az = Fin 0, a_ele = Fin 0, a_press = Fin 100000, a_temp = Fin 15,
        a_rh = Fin 40, a_sonic = Fin 16, a_err = Fin 0\<rparr>]\<rparr>\<rparr> 7)) = \<lparr>q_maxsize = 2, q_items = [\<lparr>a_tNow = 1700000000500000, a_u = Fin 1, a_v = Fin 2, a_w = Fin 3, a_d2 = Fin 4,
        a_d3 = Fin 5, a_az = Fin 6, a_ele = Fin 7, a_press = Fin 101000, a_temp = Fin 20,
        a_rh = Fin 50, a_sonic = Fin 21, a_err = Fin 0\<rparr>]\<rparr>"
    by (simp add: push_policy_eq full_def)
  from A [THEN conjunct2, THEN conjunct2, THEN conjunct1, THEN mp, OF h3', THEN conjunct1]
  have a2: "queue_standard (fst (enqueue_sample (Fin 1) \<lparr>a_tNow = 1700000000500000, a_u = Fin 1, a_v = Fin 2, a_w = Fin 3, a_d2 = Fin 4,
        a_d3 = Fin 5, a_az = Fin 6, a_ele = Fin 7, a_press = Fin 101000, a_temp = Fin 20,
        a_rh = Fin 50, a_sonic = Fin 21, a_err = Fin 0\<rparr> \<lparr>queue_high_freq = \<lparr>q_maxsize = 2, q_items = [\<lparr>a_tNow = 1700000000000000, a_u = Fin 0, a_v = Fin 0, a_w = Fin 0, a_d2 = Fin 0,
        a_d3 = Fin 0, a_az = Fin 0, a_ele = Fin 0, a_press = Fin 100000, a_temp = Fin 15,
        a_rh = Fin 40, a_sonic = Fin 16, a_err = Fin 0\<rparr>, \<lparr>a_tNow = 1700000000000000, a_u = Fin 0, a_v = Fin 0, a_w = Fin 0, a_d2 = Fin 0,
        a_d3 = Fin 0, a_az = Fin 0, a_ele = Fin 0, a_press = Fin 100000, a_temp = Fin 15,
        a_rh = Fin 40, a_sonic = Fin 16, a_err = Fin 0\<rparr>]\<rparr>, queue_standard = \<lparr>q_maxsize = 2, q_items = [\<lparr>a_tNow = 1700000000000000, a_u = Fin 0, a_v = Fin 0, a_w = Fin 0, a_d2 = Fin 0,
        a_d3 = Fin 0, a_az = Fin 0, a_ele = Fin 0, a_press = Fin 100000, a_temp = Fin 15,
        a_rh = Fin 40, a_sonic = Fin 16, a_err = Fin 0\<rparr>]\<rparr>, queue_visualization = \<lparr>q_maxsize = 2, q_items = [\<lparr>a_tNow = 1700000000000000, a_u = Fin 0, a_v = Fin 0, a_w = Fin 0, a_d2 = Fin 0,
        a_d3 = Fin 0, a_az = Fin 0, a_ele = Fin 0, a_press = Fin 100000, a_temp = Fin 15,
        a_rh = Fin 40, a_sonic = Fin 16, a_err = Fin 0\<rparr>, \<lparr>a_tNow = 1700000000000000, a_u = Fin 0, a_v = Fin 0, a_w = Fin 0, a_d2 = Fin 0,
        a_d3 = Fin 0, a_az = Fin 0, a_ele = Fin 0, a_press = Fin 100000, a_temp = Fin 15,
        a_rh = Fin 40, a_sonic = Fin 16, a_err = Fin 0\<rparr>]\<rparr>\<rparr> 7)) = \<lparr>q_maxsize = 2, q_items = [\<lparr>a_tNow = 1700000000000000, a_u = Fin 0, a_v = Fin 0, a_w = Fin 0, a_d2 = Fin 0,
        a_d3 = Fin 0, a_az = Fin 0, a_ele = Fin 0, a_press = Fin 100000, a_temp = Fin 15,
        a_rh = Fin 40, a_sonic = Fin 16, a_err = Fin 0\<rparr>, \<lparr>a_tNow = 1700000000500000, a_u = Fin 1, a_v = Fin 2, a_w = Fin 3, a_d2 = Fin 4,
        a_d3 = Fin 5, a_az = Fin 6, a_ele = Fin 7, a_press = Fin 101000, a_temp = Fin 20,
        a_rh = Fin 50, a_sonic = Fin 21, a_err = Fin 0\<rparr>]\<rparr>"
    by simp
  from A [THEN conjunct2, THEN conjunct2, THEN conjunct1, THEN mp, OF h3', THEN conjunct2]
  have a3: "queue_visualization (fst (enqueue_sample (Fin 1) \<lparr>a_tNow = 1700000000500000, a_u = Fin 1, a_v = Fin 2, a_w = Fin 3, a_d2 = Fin 4,
        a_d3 = Fin 5, a_az = Fin 6, a_ele = Fin 7, a_press = Fin 101000, a_temp = Fin 20,
        a_rh = Fin 50, a_sonic = Fin 21, a_err = Fin 0\<rparr> \<lparr>queue_high_freq = \<lparr>q_maxsize = 2, q_items = [\<lparr>a_tNow = 1700000000000000, a_u = Fin 0, a_v = Fin 0, a_w = Fin 0, a_d2 = Fin 0,
        a_d3 = Fin 0, a_az = Fin 0, a_ele = Fin 0, a_press = Fin 100000, a_temp = Fin 15,
        a_rh = Fin 40, a_sonic = Fin 16, a_err = Fin 0\<rparr>, \<lparr>a_tNow = 1700000000000000, a_u = Fin 0, a_v = Fin 0, a_w = Fin 0, a_d2 = Fin 0,
        a_d3 = Fin 0, a_az = Fin 0, a_ele = Fin 0, a_press = Fin 100000, a_temp = Fin 15,
        a_rh = Fin 40, a_sonic = Fin 16, a_err = Fin 0\<rparr>]\<rparr>, queue_standard = \<lparr>q_maxsize = 2, q_items = [\<lparr>a_tNow = 1700000000000000, a_u = Fin 0, a_v = Fin 0, a_w = Fin 0, a_d2 = Fin 0,
        a_d3 = Fin 0, a_az = Fin 0, a_ele = Fin 0, a_press = Fin 100000, a_temp = Fin 15,
        a_rh = Fin 40, a_sonic = Fin 16, a_err = Fin 0\<rparr>]\<rparr>, queue_visualization = \<lparr>q_maxsize = 2, q_items = [\<lparr>a_tNow = 1700000000000000, a_u = Fin 0, a_v = Fin 0, a_w = Fin 0, a_d2 = Fin 0,
        a_d3 = Fin 0, a_az = Fin 0, a_ele = Fin 0, a_press = Fin 100000, a_temp = Fin 15,
        a_rh = Fin 40, a_sonic = Fin 16, a_err = Fin 0\<rparr>, \<lparr>a_tNow = 1700000000000000, a_u = Fin 0, a_v = Fin 0, a_w = Fin 0, a_d2 = Fin 0,
        a_d3 = Fin 0, a_az = Fin 0, a_ele = Fin 0, a_press = Fin 100000, a_temp = Fin 15,
        a_rh = Fin 40, a_sonic = Fin 16, a_err = Fin 0\<rparr>]\<rparr>\<rparr> 7)) = \<lparr>q_maxsize = 2, q_items = [\<lparr>a_tNow = 1700000000500000, a_u = Fin 1, a_v = Fin 2, a_w = Fin 3, a_d2 = Fin 4,
        a_d3 = Fin 5, a_az = Fin 6, a_ele = Fin 7, a_press = Fin 101000, a_temp = Fin 20,
        a_rh = Fin 50, a_sonic = Fin 21, a_err = Fin 0\<rparr>]\<rparr>"
    by (simp add: push_policy_eq full_def)
  from B [THEN conjunct2, THEN conjunct1, THEN mp, OF h2]
  have b1: "queue_high_freq (fst (enqueue_sample (Fin 0) \<lparr>a_tNow = 1700000000500000, a_u = Fin 1, a_v = Fin 2, a_w = Fin 3, a_d2 = Fin 4,
        a_d3 = Fin 5, a_az = Fin 6, a_ele = Fin 7, a_press = Fin 101000, a_temp = Fin 20,
        a_rh = Fin 50, a_sonic = Fin 21, a_err = Fin 0\<rparr> \<lparr>queue_high_freq = \<lparr>q_maxsize = 2, q_items = [\<lparr>a_tNow = 1700000000000000, a_u = Fin 0, a_v = Fin 0, a_w = Fin 0, a_d2 = Fin 0,
        a_d3 = Fin 0, a_az = Fin 0, a_ele = Fin 0, a_press = Fin 100000, a_temp = Fin 15,
        a_rh = Fin 40, a_sonic = Fin 16, a_err = Fin 0\<rparr>]\<rparr>, queue_standard = \<lparr>q_maxsize = 2, q_items = [\<lparr>a_tNow = 1700000000000000, a_u = Fin 0, a_v = Fin 0, a_w = Fin 0, a_d2 = Fin 0,
        a_d3 = Fin 0, a_az = Fin 0, a_ele = Fin 0, a_press = Fin 100000, a_temp = Fin 15,
        a_rh = Fin 40, a_sonic = Fin 16, a_err = Fin 0\<rparr>, \<lparr>a_tNow = 1700000000000000, a_u = Fin 0, a_v = Fin 0, a_w = Fin 0, a_d2 = Fin 0,
        a_d3 = Fin 0, a_az = Fin 0, a_ele = Fin 0, a_press = Fin 100000, a_temp = Fin 15,
        a_rh = Fin 40, a_sonic = Fin 16, a_err = Fin 0\<rparr>]\<rparr>, queue_visualization = \<lparr>q_maxsize = 2, q_items = []\<rparr>\<rparr> 7)) = \<lparr>q_maxsize = 2, q_items = [\<lparr>a_tNow = 1700000000000000, a_u = Fin 0, a_v = Fin 0, a_w = Fin 0, a_d2 = Fin 0,
        a_d3 = Fin 0, a_az = Fin 0, a_ele = Fin 0, a_press = Fin 100000, a_temp = Fin 15,
        a_rh = Fin 40, a_sonic = Fin 16, a_err = Fin 0\<rparr>]\<rparr>"
    by simp
  from B [THEN conjunct2, THEN conjunct2, THEN conjunct2, THEN conjunct1, THEN mp, OF h4', THEN conjunct1]
  have b2: "queue_standard (fst (enqueue_sample (Fin 0) \<lparr>a_tNow = 1700000000500000, a_u = Fin 1, a_v = Fin 2, a_w = Fin 3, a_d2 = Fin 4,
        a_d3 = Fin 5, a_az = Fin 6, a_ele = Fin 7, a_press = Fin 101000, a_temp = Fin 20,
        a_rh = Fin 50, a_sonic = Fin 21, a_err = Fin 0\<rparr> \<lparr>queue_high_freq = \<lparr>q_maxsize = 2, q_items = [\<lparr>a_tNow = 1700000000000000, a_u = Fin 0, a_v = Fin 0, a_w = Fin 0, a_d2 = Fin 0,
        a_d3 = Fin 0, a_az = Fin 0, a_ele = Fin 0, a_press = Fin 100000, a_temp = Fin 15,
        a_rh = Fin 40, a_sonic = Fin 16, a_err = Fin 0\<rparr>]\<rparr>, queue_standard = \<lparr>q_maxsize = 2, q_items = [\<lparr>a_tNow = 1700000000000000, a_u = Fin 0, a_v = Fin 0, a_w = Fin 0, a_d2 = Fin 0,
        a_d3 = Fin 0, a_az = Fin 0, a_ele = Fin 0, a_press = Fin 100000, a_temp = Fin 15,
        a_rh = Fin 40, a_sonic = Fin 16, a_err = Fin 0\<rparr>, \<lparr>a_tNow = 1700000000000000, a_u = Fin 0, a_v = Fin 0, a_w = Fin 0, a_d2 = Fin 0,
        a_d3 = Fin 0, a_az = Fin 0, a_ele = Fin 0, a_press = Fin 100000, a_temp = Fin 15,
        a_rh = Fin 40, a_sonic = Fin 16, a_err = Fin 0\<rparr>]\<rparr>, queue_visualization = \<lparr>q_maxsize = 2, q_items = []\<rparr>\<rparr> 7)) = \<lparr>q_maxsize = 2, q_items = [\<lparr>a_tNow = 1700000000000000, a_u = Fin 0, a_v = Fin 0, a_w = Fin 0, a_d2 = Fin 0,
        a_d3 = Fin 0, a_az = Fin 0, a_ele = Fin 0, a_press = Fin 100000, a_temp = Fin 15,
        a_rh = Fin 40, a_sonic = Fin 16, a_err = Fin 0\<rparr>, \<lparr>a_tNow = 1700000000000000, a_u = Fin 0, a_v = Fin 0, a_w = Fin 0, a_d2 = Fin 0,
        a_d3 = Fin 0, a_az = Fin 0, a_ele = Fin 0, a_press = Fin 100000, a_temp = Fin 15,
        a_rh = Fin 40, a_sonic = Fin 16, a_err = Fin 0\<rparr>]\<rparr>"
    by simp
  note b3 = B [THEN conjunct2, THEN conjunct2, THEN conjunct2, THEN conjunct1, THEN mp, OF h4', THEN conjunct2]
  from A [THEN conjunct2, THEN conjunct2, THEN conjunct2, THEN conjunct2, THEN conjunct1] h4
  have c1: "push_policy \<lparr>q_maxsize = 2, q_items = [\<lparr>a_tNow = 1700000000000000, a_u = Fin 0, a_v = Fin 0, a_w = Fin 0, a_d2 = Fin 0,
        a_d3 = Fin 0, a_az = Fin 0, a_ele = Fin 0, a_press = Fin 100000, a_temp = Fin 15,
        a_rh = Fin 40, a_sonic = Fin 16, a_err = Fin 0\<rparr>, \<lparr>a_tNow = 1700000000000000, a_u = Fin 0, a_v = Fin 0, a_w = Fin 0, a_d2 = Fin 0,
        a_d3 = Fin 0, a_az = Fin 0, a_ele = Fin 0, a_press = Fin 100000, a_temp = Fin 15,
        a_rh = Fin 40, a_sonic = Fin 16, a_err = Fin 0\<rparr>]\<rparr> \<lparr>a_tNow = 1700000000500000, a_u = Fin 1, a_v = Fin 2, a_w = Fin 3, a_d2 = Fin 4,
        a_d3 = Fin 5, a_az = Fin 6, a_ele = Fin 7, a_press = Fin 101000, a_temp = Fin 20,
        a_rh = Fin 50, a_sonic = Fin 21, a_err = Fin 0\<rparr> = (\<lparr>q_maxsize = 2, q_items = [\<lparr>a_tNow = 1700000000500000, a_u = Fin 1, a_v = Fin 2, a_w = Fin 3, a_d2 = Fin 4,
        a_d3 = Fin 5, a_az = Fin 6, a_ele = Fin 7, a_press = Fin 101000, a_temp = Fin 20,
        a_rh = Fin 50, a_sonic = Fin 21, a_err = Fin 0\<rparr>]\<rparr>, False)"
    by simp
  from A [THEN conjunct2, THEN conjunct2, THEN conjunct2, THEN conjunct2, THEN conjunct2,
      THEN conjunct2, THEN mp, OF h5]
  have c2: "length (q_items (fst (push_policy \<lparr>q_maxsize = 2, q_items = [\<lparr>a_tNow = 1700000000000000, a_u = Fin 0, a_v = Fin 0, a_w = Fin 0, a_d2 = Fin 0,
        a_d3 = Fin 0, a_az = Fin 0, a_ele = Fin 0, a_press = Fin 100000, a_temp = Fin 15,
        a_rh = Fin 40, a_sonic = Fin 16, a_err = Fin 0\<rparr>, \<lparr>a_tNow = 1700000000000000, a_u = Fin 0, a_v = Fin 0, a_w = Fin 0, a_d2 = Fin 0,
        a_d3 = Fin 0, a_az = Fin 0, a_ele = Fin 0, a_press = Fin 100000, a_temp = Fin 15,
        a_rh = Fin 40, a_sonic = Fin 16, a_err = Fin 0\<rparr>]\<rparr> \<lparr>a_tNow = 1700000000500000, a_u = Fin 1, a_v = Fin 2, a_w = Fin 3, a_d2 = Fin 4,
        a_d3 = Fin 5, a_az = Fin 6, a_ele = Fin 7, a_press = Fin 101000, a_temp = Fin 20,
        a_rh = Fin 50, a_sonic = Fin 21, a_err = Fin 0\<rparr>))) \<le> 2"
    by simp
  from h1 h2 h3 h4 h5 a1 a2 a3 b1 b2 b3 c1 c2 show ?thesis by (intro conjI)
qed

subsection \<open>The logger threads\<close>

lemma take_sample_frame:
  "sl_data_frame (take_sample s x) =
     drop (length (concat_data (sl_data_frame s) x) - buffer_limit)
       (concat_data (sl_data_frame s) x)"
  by (simp add: take_sample_def Let_def)

lemma take_sample_others:
  "sl_last_data (take_sample s x) = Some x"
  "sl_standard_rate (take_sample s x) = sl_standard_rate s"
  "sl_last_1hz_update (take_sample s x) = sl_last_1hz_update s"
  "sl_last_display_update (take_sample s x) = sl_last_display_update s"
  by (simp_all add: take_sample_def Let_def)

lemma foldl_take_sample_frame:
  "sl_data_frame s = sl_data_frame s' \<Longrightarrow>
   sl_data_frame (foldl take_sample s xs) = sl_data_frame (foldl take_sample s' xs)"
proof (induction xs arbitrary: s s')
  case (Cons x xs)
  have "sl_data_frame (take_sample s x) = sl_data_frame (take_sample s' x)"
    by (simp add: take_sample_frame Cons.prems)
  then have "sl_data_frame (foldl take_sample (take_sample s x) xs)
      = sl_data_frame (foldl take_sample (take_sample s' x) xs)"
    by (rule Cons.IH)
  then show ?case by simp
qed simp

lemma foldl_take_sample_last:
  "sl_last_data (foldl take_sample s xs) = (if xs = [] then sl_last_data s else Some (last xs))"
  by (induction xs arbitrary: s) (simp_all add: take_sample_others)

lemma foldl_take_sample_last_cong:
  "sl_last_data s = sl_last_data s' \<Longrightarrow>
   sl_last_data (foldl take_sample s xs) = sl_last_data (foldl take_sample s' xs)"
  by (simp add: foldl_take_sample_last)

lemma foldl_concat_data_snoc:
  "foldl concat_data df (xs @ [x]) = concat_data (foldl concat_data df xs) x"
  by simp

lemma last_rows_append:
  "drop (length (drop (length l - n) l @ [r]) - n) (drop (length l - n) l @ [r])
     = drop (length (l @ [r]) - n) (l @ [r])"
  by (cases "length l \<le> n") (auto simp: Suc_diff_le)

lemma foldl_take_sample_window:
  assumes "length (sl_data_frame s) \<le> buffer_limit"
  shows "sl_data_frame (foldl take_sample s xs) =
     drop (length (foldl concat_data (sl_data_frame s) xs) - buffer_limit)
       (foldl concat_data (sl_data_frame s) xs)"
proof (induction xs rule: rev_induct)
  case Nil
  from assms show ?case by simp
next
  case (snoc x xs)
  have "sl_data_frame (foldl take_sample s (xs @ [x])) =
      sl_data_frame (take_sample (foldl take_sample s xs) x)"
    by simp
  also have "\<dots> = drop (length (concat_data (sl_data_frame (foldl take_sample s xs)) x)
        - buffer_limit) (concat_data (sl_data_frame (foldl take_sample s xs)) x)"
    by (rule take_sample_frame)
  finally show ?case
    unfolding snoc.IH foldl_concat_data_snoc
    by (simp only: concat_data_def last_rows_append)
qed

lemma fmean_finite:
  "xs \<noteq> [] \<Longrightarrow> fmean (map Fin xs) = Fin (sum_list xs / of_nat (length xs))"
proof -
  assume ne: "xs \<noteq> []"
  have f: "foldl fadd (Fin a) (map Fin ys) = Fin (a + sum_list ys)" for a ys
    by (induction ys arbitrary: a) (simp_all add: algebra_simps)
  have "filter (\<lambda>x. x \<noteq> NaN) (map Fin xs) = map Fin xs"
    by (induction xs) simp_all
  with ne show ?thesis by (simp add: fmean_def f)
qed

lemma prepare_averaged_row:
  "prepare_data_for_logging (averaged_row df ts d) =
     Inr [(''tNow'', Time ts),
          (''u_m_s'', Num (round8 (fmean (map col_U (first_second df))))),
          (''v_m_s'', Num (round8 (fmean (map col_V (first_second df))))),
          (''w_m_s'', Num (round8 (fmean (map col_W (first_second df))))),
          (''2dSpeed_m_s'', Num (round8 (fmean (map col_d2 (first_second df))))),
          (''3DSpeed_m_s'', Num (round8 (fmean (map col_d3 (first_second df))))),
          (''Azimuth_deg'', Num (round8 (fmean (map col_Az (first_second df))))),
          (''Elev_deg'', Num (round8 (fmean (map col_Ele_deg (first_second df))))),
          (''Press_Pa'', Num (round8 (fmean (map col_Press_raw (first_second df))))),
          (''Temp_C'', Num (round8 (fmean (map col_Temp (first_second df))))),
          (''Hum_RH'', Num (round8 (fmean (map col_RH (first_second df))))),
          (''SonicTemp_C'', Num (round8 (fmean (map col_Sonic (first_second df))))),
          (''Error'', Num (round8 (a_err d)))]"
  by (simp add: averaged_row_def prepare_data_for_logging_def round_only_roundable_dict_keys_def
      keys_to_round_def py_round8_def Let_def)

text \<open>
  C3: what the code does on the datagram \<open>-1\<close> received in standard mode. The mode value
  becomes \<open>-1.0\<close>, and a mode change is reported. From then on no pass of the
  \<open>StandardLogger\<close> writes a row, because it writes only when the mode value equals \<open>0\<close>,
  and no pass of the \<open>HighFrequencyLogger\<close> writes a row, because it writes only when the
  mode value is positive.
\<close>

theorem negative_mode_nothing_written:
  "check_mode_command Some False mm (Datagram ''-1'') (Fin 0) = (True, Fin (- 1), [])
   \<and> written (snd (standard_pass self (\<lambda>k. Fin (- 1)) current_time incoming now)) = None
   \<and> snd (snd (hf_pass hf (\<lambda>k. Fin (- 1)) current_time data_queue)) = None"
proof (intro conjI)
  have a: "upper (strip ''-1'') \<noteq> ''STATUS''" by code_simp
  have b: "py_float (strip ''-1'') = Some (Fin (- 1))" by code_simp
  show "check_mode_command Some False mm (Datagram ''-1'') (Fin 0) = (True, Fin (- 1), [])"
    using a b by (simp add: check_mode_command_def Let_def feq_def)
  show "written (snd (standard_pass self (\<lambda>k. Fin (- 1)) current_time incoming now)) = None"
    by (simp add: standard_pass_def Let_def feq_def split: option.splits sum.splits)
  show "snd (snd (hf_pass hf (\<lambda>k. Fin (- 1)) current_time data_queue)) = None"
    by (simp add: hf_pass_def Let_def split: prod.splits)
qed

text \<open>
  C1, as stated, fails: the averaged row is row \<open>0\<close> of the frame resampled by wall-clock
  second, not the mean over the window. Take a window of 32 samples, one every tenth of a
  second, whose oldest has \<open>U = 32\<close> and \<open>V = 64\<close> and is the only one in its second, and whose
  other 31 have \<open>U = V = 0\<close>. The row written has \<open>U = 32\<close> and \<open>V = 64\<close>, while the mean of
  \<open>U\<close> over the window is \<open>1\<close>.
\<close>

theorem standard_pass_not_window_mean:
  "written (snd (standard_pass
      \<lparr>sl_standard_rate = 1,
      sl_data_frame = [
       \<lparr>col_TIME = 1700000000950000, col_U = Fin 32, col_V = Fin 64, col_W = Fin 0,
        col_d2 = Fin 0, col_d3 = Fin 0, col_Az = Fin 0, col_Ele_deg = Fin 0,
        col_Press_raw = Fin 101000, col_Temp = Fin 20, col_RH = Fin 50,
        col_Sonic = Fin 21\<rparr>,
       \<lparr>col_TIME = 1700000001050000, col_U = Fin 0, col_V = Fin 0, col_W = Fin 0, col_d2 = Fin 0,
        col_d3 = Fin 0, col_Az = Fin 0, col_Ele_deg = Fin 0, col_Press_raw = Fin 101000,
        col_Temp = Fin 20, col_RH = Fin 50, col_Sonic = Fin 21\<rparr>,
       \<lparr>col_TIME = 1700000001150000, col_U = Fin 0, col_V = Fin 0, col_W = Fin 0, col_d2 = Fin 0,
        col_d3 = Fin 0, col_Az = Fin 0, col_Ele_deg = Fin 0, col_Press_raw = Fin 101000,
        col_Temp = Fin 20, col_RH = Fin 50, col_Sonic = Fin 21\<rparr>,
       \<lparr>col_TIME = 1700000001250000, col_U = Fin 0, col_V = Fin 0, col_W = Fin 0, col_d2 = Fin 0,
        col_d3 = Fin 0, col_Az = Fin 0, col_Ele_deg = Fin 0, col_Press_raw = Fin 101000,
        col_Temp = Fin 20, col_RH = Fin 50, col_Sonic = Fin 21\<rparr>,
       \<lparr>col_TIME = 1700000001350000, col_U = Fin 0, col_V = Fin 0, col_W = Fin 0, col_d2 = Fin 0,
        col_d3 = Fin 0, col_Az = Fin 0, col_Ele_deg = Fin 0, col_Press_raw = Fin 101000,
        col_Temp = Fin 20, col_RH = Fin 50, col_Sonic = Fin 21\<rparr>,
       \<lparr>col_TIME = 1700000001450000, col_U = Fin 0, col_V = Fin 0, col_W = Fin 0, col_d2 = Fin 0,
        col_d3 = Fin 0, col_Az = Fin 0, col_Ele_deg = Fin 0, col_Press_raw = Fin 101000,
        col_Temp = Fin 20, col_RH = Fin 50, col_Sonic = Fin 21\<rparr>,
       \<lparr>col_TIME = 1700000001550000, col_U = Fin 0, col_V = Fin 0, col_W = Fin 0, col_d2 = Fin 0,
        col_d3 = Fin 0, col_Az = Fin 0, col_Ele_deg = Fin 0, col_Press_raw = Fin 101000,
        col_Temp = Fin 20, col_RH = Fin 50, col_Sonic = Fin 21\<rparr>,
       \<lparr>col_TIME = 1700000001650000, col_U = Fin 0, col_V = Fin 0, col_W = Fin 0, col_d2 = Fin 0,
        col_d3 = Fin 0, col_Az = Fin 0, col_Ele_deg = Fin 0, col_Press_raw = Fin 101000,
        col_Temp = Fin 20, col_RH = Fin 50, col_Sonic = Fin 21\<rparr>,
       \<lparr>col_TIME = 1700000001750000, col_U = Fin 0, col_V = Fin 0, col_W = Fin 0, col_d2 = Fin 0,
        col_d3 = Fin 0, col_Az = Fin 0, col_Ele_deg = Fin 0, col_Press_raw = Fin 101000,
        col_Temp = Fin 20, col_RH = Fin 50, col_Sonic = Fin 21\<rparr>,
       \<lparr>col_TIME = 1700000001850000, col_U = Fin 0, col_V = Fin 0, col_W = Fin 0, col_d2 = Fin 0,
        col_d3 = Fin 0, col_Az = Fin 0, col_Ele_deg = Fin 0, col_Press_raw = Fin 101000,
        col_Temp = Fin 20, col_RH = Fin 50, col_Sonic = Fin 21\<rparr>,
       \<lparr>col_TIME = 1700000001950000, col_U = Fin 0, col_V = Fin 0, col_W = Fin 0, col_d2 = Fin 0,
        col_d3 = Fin 0, col_Az = Fin 0, col_Ele_deg = Fin 0, col_Press_raw = Fin 101000,
        col_Temp = Fin 20, col_RH = Fin 50, col_Sonic = Fin 21\<rparr>,
       \<lparr>col_TIME = 1700000002050000, col_U = Fin 0, col_V = Fin 0, col_W = Fin 0, col_d2 = Fin 0,
        col_d3 = Fin 0, col_Az = Fin 0, col_Ele_deg = Fin 0, col_Press_raw = Fin 101000,
        col_Temp = Fin 20, col_RH = Fin 50, col_Sonic = Fin 21\<rparr>,
       \<lparr>col_TIME = 1700000002150000, col_U = Fin 0, col_V = Fin 0, col_W = Fin 0, col_d2 = Fin 0,
        col_d3 = Fin 0, col_Az = Fin 0, col_Ele_deg = Fin 0, col_Press_raw = Fin 101000,
        col_Temp = Fin 20, col_RH = Fin 50, col_Sonic = Fin 21\<rparr>,
       \<lparr>col_TIME = 1700000002250000, col_U = Fin 0, col_V = Fin 0, col_W = Fin 0, col_d2 = Fin 0,
        col_d3 = Fin 0, col_Az = Fin 0, col_Ele_deg = Fin 0, col_Press_raw = Fin 101000,
        col_Temp = Fin 20, col_RH = Fin 50, col_Sonic = Fin 21\<rparr>,
       \<lparr>col_TIME = 1700000002350000, col_U = Fin 0, col_V = Fin 0, col_W = Fin 0, col_d2 = Fin 0,
        col_d3 = Fin 0, col_Az = Fin 0, col_Ele_deg = Fin 0, col_Press_raw = Fin 101000,
        col_Temp = Fin 20, col_RH = Fin 50, col_Sonic = Fin 21\<rparr>,
       \<lparr>col_TIME = 1700000002450000, col_U = Fin 0, col_V = Fin 0, col_W = Fin 0, col_d2 = Fin 0,
        col_d3 = Fin 0, col_Az = Fin 0, col_Ele_deg = Fin 0, col_Press_raw = Fin 101000,
        col_Temp = Fin 20, col_RH = Fin 50, col_Sonic = Fin 21\<rparr>,
       \<lparr>col_TIME = 1700000002550000, col_U = Fin 0, col_V = Fin 0, col_W = Fin 0, col_d2 = Fin 0,
        col_d3 = Fin 0, col_Az = Fin 0, col_Ele_deg = Fin 0, col_Press_raw = Fin 101000,
        col_Temp = Fin 20, col_RH = Fin 50, col_Sonic = Fin 21\<rparr>,
       \<lparr>col_TIME = 1700000002650000, col_U = Fin 0, col_V = Fin 0, col_W = Fin 0, col_d2 = Fin 0,
        col_d3 = Fin 0, col_Az = Fin 0, col_Ele_deg = Fin 0, col_Press_raw = Fin 101000,
        col_Temp = Fin 20, col_RH = Fin 50, col_Sonic = Fin 21\<rparr>,
       \<lparr>col_TIME = 1700000002750000, col_U = Fin 0, col_V = Fin 0, col_W = Fin 0, col_d2 = Fin 0,
        col_d3 = Fin 0, col_Az = Fin 0, col_Ele_deg = Fin 0, col_Press_raw = Fin 101000,
        col_Temp = Fin 20, col_RH = Fin 50, col_Sonic = Fin 21\<rparr>,
       \<lparr>col_TIME = 1700000002850000, col_U = Fin 0, col_V = Fin 0, col_W = Fin 0, col_d2 = Fin 0,
        col_d3 = Fin 0, col_Az = Fin 0, col_Ele_deg = Fin 0, col_Press_raw = Fin 101000,
        col_Temp = Fin 20, col_RH = Fin 50, col_Sonic = Fin 21\<rparr>,
       \<lparr>col_TIME = 1700000002950000, col_U = Fin 0, col_V = Fin 0, col_W = Fin 0, col_d2 = Fin 0,
        col_d3 = Fin 0, col_Az = Fin 0, col_Ele_deg = Fin 0, col_Press_raw = Fin 101000,
        col_Temp = Fin 20, col_RH = Fin 50, col_Sonic = Fin 21\<rparr>,
       \<lparr>col_TIME = 1700000003050000, col_U = Fin 0, col_V = Fin 0, col_W = Fin 0, col_d2 = Fin 0,
        col_d3 = Fin 0, col_Az = Fin 0, col_Ele_deg = Fin 0, col_Press_raw = Fin 101000,
        col_Temp = Fin 20, col_RH = Fin 50, col_Sonic = Fin 21\<rparr>,
       \<lparr>col_TIME = 1700000003150000, col_U = Fin 0, col_V = Fin 0, col_W = Fin 0, col_d2 = Fin 0,
        col_d3 = Fin 0, col_Az = Fin 0, col_Ele_deg = Fin 0, col_Press_raw = Fin 101000,
        col_Temp = Fin 20, col_RH = Fin 50, col_Sonic = Fin 21\<rparr>,
       \<lparr>col_TIME = 1700000003250000, col_U = Fin 0, col_V = Fin 0, col_W = Fin 0, col_d2 = Fin 0,
        col_d3 = Fin 0, col_Az = Fin 0, col_Ele_deg = Fin 0, col_Press_raw = Fin 101000,
        col_Temp = Fin 20, col_RH = Fin 50, col_Sonic = Fin 21\<rparr>,
       \<lparr>col_TIME = 1700000003350000, col_U = Fin 0, col_V = Fin 0, col_W = Fin 0, col_d2 = Fin 0,
        col_d3 = Fin 0, col_Az = Fin 0, col_Ele_deg = Fin 0, col_Press_raw = Fin 101000,
        col_Temp = Fin 20, col_RH = Fin 50, col_Sonic = Fin 21\<rparr>,
       \<lparr>col_TIME = 1700000003450000, col_U = Fin 0, col_V = Fin 0, col_W = Fin 0, col_d2 = Fin 0,
        col_d3 = Fin 0, col_Az = Fin 0, col_Ele_deg = Fin 0, col_Press_raw = Fin 101000,
        col_Temp = Fin 20, col_RH = Fin 50, col_Sonic = Fin 21\<rparr>,
       \<lparr>col_TIME = 1700000003550000, col_U = Fin 0, col_V = Fin 0, col_W = Fin 0, col_d2 = Fin 0,
        col_d3 = Fin 0, col_Az = Fin 0, col_Ele_deg = Fin 0, col_Press_raw = Fin 101000,
        col_Temp = Fin 20, col_RH = Fin 50, col_Sonic = Fin 21\<rparr>,
       \<lparr>col_TIME = 1700000003650000, col_U = Fin 0, col_V = Fin 0, col_W = Fin 0, col_d2 = Fin 0,
        col_d3 = Fin 0, col_Az = Fin 0, col_Ele_deg = Fin 0, col_Press_raw = Fin 101000,
        col_Temp = Fin 20, col_RH = Fin 50, col_Sonic = Fin 21\<rparr>,
       \<lparr>col_TIME = 1700000003750000, col_U = Fin 0, col_V = Fin 0, col_W = Fin 0, col_d2 = Fin 0,
        col_d3 = Fin 0, col_Az = Fin 0, col_Ele_deg = Fin 0, col_Press_raw = Fin 101000,
        col_Temp = Fin 20, col_RH = Fin 50, col_Sonic = Fin 21\<rparr>,
       \<lparr>col_TIME = 1700000003850000, col_U = Fin 0, col_V = Fin 0, col_W = Fin 0, col_d2 = Fin 0,
        col_d3 = Fin 0, col_Az = Fin 0, col_Ele_deg = Fin 0, col_Press_raw = Fin 101000,
        col_Temp = Fin 20, col_RH = Fin 50, col_Sonic = Fin 21\<rparr>,
       \<lparr>col_TIME = 1700000003950000, col_U = Fin 0, col_V = Fin 0, col_W = Fin 0, col_d2 = Fin 0,
        col_d3 = Fin 0, col_Az = Fin 0, col_Ele_deg = Fin 0, col_Press_raw = Fin 101000,
        col_Temp = Fin 20, col_RH = Fin 50, col_Sonic = Fin 21\<rparr>,
       \<lparr>col_TIME = 1700000004050000, col_U = Fin 0, col_V = Fin 0, col_W = Fin 0, col_d2 = Fin 0,
        col_d3 = Fin 0, col_Az = Fin 0, col_Ele_deg = Fin 0, col_Press_raw = Fin 101000,
        col_Temp = Fin 20, col_RH = Fin 50, col_Sonic = Fin 21\<rparr>],
      sl_mode_changed = False, sl_display_counter = 0, sl_last_1hz_update = 1700000003,
      sl_last_display_update = 1700000003,
      sl_last_data = Some \<lparr>a_tNow = 1700000004050000, a_u = Fin 0, a_v = Fin 0, a_w = Fin 0, a_d2 = Fin 0,
        a_d3 = Fin 0, a_az = Fin 0, a_ele = Fin 0, a_press = Fin 101000, a_temp = Fin 20,
        a_rh = Fin 50, a_sonic = Fin 21, a_err = Fin 3\<rparr>,
      sl_last_mode = Fin 0\<rparr>
      (\<lambda>k. Fin 0) (17000000041 / 10) [] 1700000004100000))
    = Some [(''tNow'', Time 1700000004000000), (''u_m_s'', Num (Fin 32)), (''v_m_s'', Num (Fin 64)),
      (''w_m_s'', Num (Fin 0)), (''2dSpeed_m_s'', Num (Fin 0)), (''3DSpeed_m_s'', Num (Fin 0)),
      (''Azimuth_deg'', Num (Fin 0)), (''Elev_deg'', Num (Fin 0)), (''Press_Pa'',
      Num (Fin 101000)), (''Temp_C'', Num (Fin 20)), (''Hum_RH'', Num (Fin 50)),
      (''SonicTemp_C'', Num (Fin 21)), (''Error'', Num (Fin 3))]
   \<and> length [
       \<lparr>col_TIME = 1700000000950000, col_U = Fin 32, col_V = Fin 64, col_W = Fin 0,
        col_d2 = Fin 0, col_d3 = Fin 0, col_Az = Fin 0, col_Ele_deg = Fin 0,
        col_Press_raw = Fin 101000, col_Temp = Fin 20, col_RH = Fin 50,
        col_Sonic = Fin 21\<rparr>,
       \<lparr>col_TIME = 1700000001050000, col_U = Fin 0, col_V = Fin 0, col_W = Fin 0, col_d2 = Fin 0,
        col_d3 = Fin 0, col_Az = Fin 0, col_Ele_deg = Fin 0, col_Press_raw = Fin 101000,
        col_Temp = Fin 20, col_RH = Fin 50, col_Sonic = Fin 21\<rparr>,
       \<lparr>col_TIME = 1700000001150000, col_U = Fin 0, col_V = Fin 0, col_W = Fin 0, col_d2 = Fin 0,
        col_d3 = Fin 0, col_Az = Fin 0, col_Ele_deg = Fin 0, col_Press_raw = Fin 101000,
        col_Temp = Fin 20, col_RH = Fin 50, col_Sonic = Fin 21\<rparr>,
       \<lparr>col_TIME = 1700000001250000, col_U = Fin 0, col_V = Fin 0, col_W = Fin 0, col_d2 = Fin 0,
        col_d3 = Fin 0, col_Az = Fin 0, col_Ele_deg = Fin 0, col_Press_raw = Fin 101000,
        col_Temp = Fin 20, col_RH = Fin 50, col_Sonic = Fin 21\<rparr>,
       \<lparr>col_TIME = 1700000001350000, col_U = Fin 0, col_V = Fin 0, col_W = Fin 0, col_d2 = Fin 0,
        col_d3 = Fin 0, col_Az = Fin 0, col_Ele_deg = Fin 0, col_Press_raw = Fin 101000,
        col_Temp = Fin 20, col_RH = Fin 50, col_Sonic = Fin 21\<rparr>,
       \<lparr>col_TIME = 1700000001450000, col_U = Fin 0, col_V = Fin 0, col_W = Fin 0, col_d2 = Fin 0,
        col_d3 = Fin 0, col_Az = Fin 0, col_Ele_deg = Fin 0, col_Press_raw = Fin 101000,
        col_Temp = Fin 20, col_RH = Fin 50, col_Sonic = Fin 21\<rparr>,
       \<lparr>col_TIME = 1700000001550000, col_U = Fin 0, col_V = Fin 0, col_W = Fin 0, col_d2 = Fin 0,
        col_d3 = Fin 0, col_Az = Fin 0, col_Ele_deg = Fin 0, col_Press_raw = Fin 101000,
        col_Temp = Fin 20, col_RH = Fin 50, col_Sonic = Fin 21\<rparr>,
       \<lparr>col_TIME = 1700000001650000, col_U = Fin 0, col_V = Fin 0, col_W = Fin 0, col_d2 = Fin 0,
        col_d3 = Fin 0, col_Az = Fin 0, col_Ele_deg = Fin 0, col_Press_raw = Fin 101000,
        col_Temp = Fin 20, col_RH = Fin 50, col_Sonic = Fin 21\<rparr>,
       \<lparr>col_TIME = 1700000001750000, col_U = Fin 0, col_V = Fin 0, col_W = Fin 0, col_d2 = Fin 0,
        col_d3 = Fin 0, col_Az = Fin 0, col_Ele_deg = Fin 0, col_Press_raw = Fin 101000,
        col_Temp = Fin 20, col_RH = Fin 50, col_Sonic = Fin 21\<rparr>,
       \<lparr>col_TIME = 1700000001850000, col_U = Fin 0, col_V = Fin 0, col_W = Fin 0, col_d2 = Fin 0,
        col_d3 = Fin 0, col_Az = Fin 0, col_Ele_deg = Fin 0, col_Press_raw = Fin 101000,
        col_Temp = Fin 20, col_RH = Fin 50, col_Sonic = Fin 21\<rparr>,
       \<lparr>col_TIME = 1700000001950000, col_U = Fin 0, col_V = Fin 0, col_W = Fin 0, col_d2 = Fin 0,
        col_d3 = Fin 0, col_Az = Fin 0, col_Ele_deg = Fin 0, col_Press_raw = Fin 101000,
        col_Temp = Fin 20, col_RH = Fin 50, col_Sonic = Fin 21\<rparr>,
       \<lparr>col_TIME = 1700000002050000, col_U = Fin 0, col_V = Fin 0, col_W = Fin 0, col_d2 = Fin 0,
        col_d3 = Fin 0, col_Az = Fin 0, col_Ele_deg = Fin 0, col_Press_raw = Fin 101000,
        col_Temp = Fin 20, col_RH = Fin 50, col_Sonic = Fin 21\<rparr>,
       \<lparr>col_TIME = 1700000002150000, col_U = Fin 0, col_V = Fin 0, col_W = Fin 0, col_d2 = Fin 0,
        col_d3 = Fin 0, col_Az = Fin 0, col_Ele_deg = Fin 0, col_Press_raw = Fin 101000,
        col_Temp = Fin 20, col_RH = Fin 50, col_Sonic = Fin 21\<rparr>,
       \<lparr>col_TIME = 1700000002250000, col_U = Fin 0, col_V = Fin 0, col_W = Fin 0, col_d2 = Fin 0,
        col_d3 = Fin 0, col_Az = Fin 0, col_Ele_deg = Fin 0, col_Press_raw = Fin 101000,
        col_Temp = Fin 20, col_RH = Fin 50, col_Sonic = Fin 21\<rparr>,
       \<lparr>col_TIME = 1700000002350000, col_U = Fin 0, col_V = Fin 0, col_W = Fin 0, col_d2 = Fin 0,
        col_d3 = Fin 0, col_Az = Fin 0, col_Ele_deg = Fin 0, col_Press_raw = Fin 101000,
        col_Temp = Fin 20, col_RH = Fin 50, col_Sonic = Fin 21\<rparr>,
       \<lparr>col_TIME = 1700000002450000, col_U = Fin 0, col_V = Fin 0, col_W = Fin 0, col_d2 = Fin 0,
        col_d3 = Fin 0, col_Az = Fin 0, col_Ele_deg = Fin 0, col_Press_raw = Fin 101000,
        col_Temp = Fin 20, col_RH = Fin 50, col_Sonic = Fin 21\<rparr>,
       \<lparr>col_TIME = 1700000002550000, col_U = Fin 0, col_V = Fin 0, col_W = Fin 0, col_d2 = Fin 0,
        col_d3 = Fin 0, col_Az = Fin 0, col_Ele_deg = Fin 0, col_Press_raw = Fin 101000,
        col_Temp = Fin 20, col_RH = Fin 50, col_Sonic = Fin 21\<rparr>,
       \<lparr>col_TIME = 1700000002650000, col_U = Fin 0, col_V = Fin 0, col_W = Fin 0, col_d2 = Fin 0,
        col_d3 = Fin 0, col_Az = Fin 0, col_Ele_deg = Fin 0, col_Press_raw = Fin 101000,
        col_Temp = Fin 20, col_RH = Fin 50, col_Sonic = Fin 21\<rparr>,
       \<lparr>col_TIME = 1700000002750000, col_U = Fin 0, col_V = Fin 0, col_W = Fin 0, col_d2 = Fin 0,
        col_d3 = Fin 0, col_Az = Fin 0, col_Ele_deg = Fin 0, col_Press_raw = Fin 101000,
        col_Temp = Fin 20, col_RH = Fin 50, col_Sonic = Fin 21\<rparr>,
       \<lparr>col_TIME = 1700000002850000, col_U = Fin 0, col_V = Fin 0, col_W = Fin 0, col_d2 = Fin 0,
        col_d3 = Fin 0, col_Az = Fin 0, col_Ele_deg = Fin 0, col_Press_raw = Fin 101000,
        col_Temp = Fin 20, col_RH = Fin 50, col_Sonic = Fin 21\<rparr>,
       \<lparr>col_TIME = 1700000002950000, col_U = Fin 0, col_V = Fin 0, col_W = Fin 0, col_d2 = Fin 0,
        col_d3 = Fin 0, col_Az = Fin 0, col_Ele_deg = Fin 0, col_Press_raw = Fin 101000,
        col_Temp = Fin 20, col_RH = Fin 50, col_Sonic = Fin 21\<rparr>,
       \<lparr>col_TIME = 1700000003050000, col_U = Fin 0, col_V = Fin 0, col_W = Fin 0, col_d2 = Fin 0,
        col_d3 = Fin 0, col_Az = Fin 0, col_Ele_deg = Fin 0, col_Press_raw = Fin 101000,
        col_Temp = Fin 20, col_RH = Fin 50, col_Sonic = Fin 21\<rparr>,
       \<lparr>col_TIME = 1700000003150000, col_U = Fin 0, col_V = Fin 0, col_W = Fin 0, col_d2 = Fin 0,
        col_d3 = Fin 0, col_Az = Fin 0, col_Ele_deg = Fin 0, col_Press_raw = Fin 101000,
        col_Temp = Fin 20, col_RH = Fin 50, col_Sonic = Fin 21\<rparr>,
       \<lparr>col_TIME = 1700000003250000, col_U = Fin 0, col_V = Fin 0, col_W = Fin 0, col_d2 = Fin 0,
        col_d3 = Fin 0, col_Az = Fin 0, col_Ele_deg = Fin 0, col_Press_raw = Fin 101000,
        col_Temp = Fin 20, col_RH = Fin 50, col_Sonic = Fin 21\<rparr>,
       \<lparr>col_TIME = 1700000003350000, col_U = Fin 0, col_V = Fin 0, col_W = Fin 0, col_d2 = Fin 0,
        col_d3 = Fin 0, col_Az = Fin 0, col_Ele_deg = Fin 0, col_Press_raw = Fin 101000,
        col_Temp = Fin 20, col_RH = Fin 50, col_Sonic = Fin 21\<rparr>,
       \<lparr>col_TIME = 1700000003450000, col_U = Fin 0, col_V = Fin 0, col_W = Fin 0, col_d2 = Fin 0,
        col_d3 = Fin 0, col_Az = Fin 0, col_Ele_deg = Fin 0, col_Press_raw = Fin 101000,
        col_Temp = Fin 20, col_RH = Fin 50, col_Sonic = Fin 21\<rparr>,
       \<lparr>col_TIME = 1700000003550000, col_U = Fin 0, col_V = Fin 0, col_W = Fin 0, col_d2 = Fin 0,
        col_d3 = Fin 0, col_Az = Fin 0, col_Ele_deg = Fin 0, col_Press_raw = Fin 101000,
        col_Temp = Fin 20, col_RH = Fin 50, col_Sonic = Fin 21\<rparr>,
       \<lparr>col_TIME = 1700000003650000, col_U = Fin 0, col_V = Fin 0, col_W = Fin 0, col_d2 = Fin 0,
        col_d3 = Fin 0, col_Az = Fin 0, col_Ele_deg = Fin 0, col_Press_raw = Fin 101000,
        col_Temp = Fin 20, col_RH = Fin 50, col_Sonic = Fin 21\<rparr>,
       \<lparr>col_TIME = 1700000003750000, col_U = Fin 0, col_V = Fin 0, col_W = Fin 0, col_d2 = Fin 0,
        col_d3 = Fin 0, col_Az = Fin 0, col_Ele_deg = Fin 0, col_Press_raw = Fin 101000,
        col_Temp = Fin 20, col_RH = Fin 50, col_Sonic = Fin 21\<rparr>,
       \<lparr>col_TIME = 1700000003850000, col_U = Fin 0, col_V = Fin 0, col_W = Fin 0, col_d2 = Fin 0,
        col_d3 = Fin 0, col_Az = Fin 0, col_Ele_deg = Fin 0, col_Press_raw = Fin 101000,
        col_Temp = Fin 20, col_RH = Fin 50, col_Sonic = Fin 21\<rparr>,
       \<lparr>col_TIME = 1700000003950000, col_U = Fin 0, col_V = Fin 0, col_W = Fin 0, col_d2 = Fin 0,
        col_d3 = Fin 0, col_Az = Fin 0, col_Ele_deg = Fin 0, col_Press_raw = Fin 101000,
        col_Temp = Fin 20, col_RH = Fin 50, col_Sonic = Fin 21\<rparr>,
       \<lparr>col_TIME = 1700000004050000, col_U = Fin 0, col_V = Fin 0, col_W = Fin 0, col_d2 = Fin 0,
        col_d3 = Fin 0, col_Az = Fin 0, col_Ele_deg = Fin 0, col_Press_raw = Fin 101000,
        col_Temp = Fin 20, col_RH = Fin 50, col_Sonic = Fin 21\<rparr>] = 32
   \<and> fmean (map col_U [
       \<lparr>col_TIME = 1700000000950000, col_U = Fin 32, col_V = Fin 64, col_W = Fin 0,
        col_d2 = Fin 0, col_d3 = Fin 0, col_Az = Fin 0, col_Ele_deg = Fin 0,
        col_Press_raw = Fin 101000, col_Temp = Fin 20, col_RH = Fin 50,
        col_Sonic = Fin 21\<rparr>,
       \<lparr>col_TIME = 1700000001050000, col_U = Fin 0, col_V = Fin 0, col_W = Fin 0, col_d2 = Fin 0,
        col_d3 = Fin 0, col_Az = Fin 0, col_Ele_deg = Fin 0, col_Press_raw = Fin 101000,
        col_Temp = Fin 20, col_RH = Fin 50, col_Sonic = Fin 21\<rparr>,
       \<lparr>col_TIME = 1700000001150000, col_U = Fin 0, col_V = Fin 0, col_W = Fin 0, col_d2 = Fin 0,
        col_d3 = Fin 0, col_Az = Fin 0, col_Ele_deg = Fin 0, col_Press_raw = Fin 101000,
        col_Temp = Fin 20, col_RH = Fin 50, col_Sonic = Fin 21\<rparr>,
       \<lparr>col_TIME = 1700000001250000, col_U = Fin 0, col_V = Fin 0, col_W = Fin 0, col_d2 = Fin 0,
        col_d3 = Fin 0, col_Az = Fin 0, col_Ele_deg = Fin 0, col_Press_raw = Fin 101000,
        col_Temp = Fin 20, col_RH = Fin 50, col_Sonic = Fin 21\<rparr>,
       \<lparr>col_TIME = 1700000001350000, col_U = Fin 0, col_V = Fin 0, col_W = Fin 0, col_d2 = Fin 0,
        col_d3 = Fin 0, col_Az = Fin 0, col_Ele_deg = Fin 0, col_Press_raw = Fin 101000,
        col_Temp = Fin 20, col_RH = Fin 50, col_Sonic = Fin 21\<rparr>,
       \<lparr>col_TIME = 1700000001450000, col_U = Fin 0, col_V = Fin 0, col_W = Fin 0, col_d2 = Fin 0,
        col_d3 = Fin 0, col_Az = Fin 0, col_Ele_deg = Fin 0, col_Press_raw = Fin 101000,
        col_Temp = Fin 20, col_RH = Fin 50, col_Sonic = Fin 21\<rparr>,
       \<lparr>col_TIME = 1700000001550000, col_U = Fin 0, col_V = Fin 0, col_W = Fin 0, col_d2 = Fin 0,
        col_d3 = Fin 0, col_Az = Fin 0, col_Ele_deg = Fin 0, col_Press_raw = Fin 101000,
        col_Temp = Fin 20, col_RH = Fin 50, col_Sonic = Fin 21\<rparr>,
       \<lparr>col_TIME = 1700000001650000, col_U = Fin 0, col_V = Fin 0, col_W = Fin 0, col_d2 = Fin 0,
        col_d3 = Fin 0, col_Az = Fin 0, col_Ele_deg = Fin 0, col_Press_raw = Fin 101000,
        col_Temp = Fin 20, col_RH = Fin 50, col_Sonic = Fin 21\<rparr>,
       \<lparr>col_TIME = 1700000001750000, col_U = Fin 0, col_V = Fin 0, col_W = Fin 0, col_d2 = Fin 0,
        col_d3 = Fin 0, col_Az = Fin 0, col_Ele_deg = Fin 0, col_Press_raw = Fin 101000,
        col_Temp = Fin 20, col_RH = Fin 50, col_Sonic = Fin 21\<rparr>,
       \<lparr>col_TIME = 1700000001850000, col_U = Fin 0, col_V = Fin 0, col_W = Fin 0, col_d2 = Fin 0,
        col_d3 = Fin 0, col_Az = Fin 0, col_Ele_deg = Fin 0, col_Press_raw = Fin 101000,
        col_Temp = Fin 20, col_RH = Fin 50, col_Sonic = Fin 21\<rparr>,
       \<lparr>col_TIME = 1700000001950000, col_U = Fin 0, col_V = Fin 0, col_W = Fin 0, col_d2 = Fin 0,
        col_d3 = Fin 0, col_Az = Fin 0, col_Ele_deg = Fin 0, col_Press_raw = Fin 101000,
        col_Temp = Fin 20, col_RH = Fin 50, col_Sonic = Fin 21\<rparr>,
       \<lparr>col_TIME = 1700000002050000, col_U = Fin 0, col_V = Fin 0, col_W = Fin 0, col_d2 = Fin 0,
        col_d3 = Fin 0, col_Az = Fin 0, col_Ele_deg = Fin 0, col_Press_raw = Fin 101000,
        col_Temp = Fin 20, col_RH = Fin 50, col_Sonic = Fin 21\<rparr>,
       \<lparr>col_TIME = 1700000002150000, col_U = Fin 0, col_V = Fin 0, col_W = Fin 0, col_d2 = Fin 0,
        col_d3 = Fin 0, col_Az = Fin 0, col_Ele_deg = Fin 0, col_Press_raw = Fin 101000,
        col_Temp = Fin 20, col_RH = Fin 50, col_Sonic = Fin 21\<rparr>,
       \<lparr>col_TIME = 1700000002250000, col_U = Fin 0, col_V = Fin 0, col_W = Fin 0, col_d2 = Fin 0,
        col_d3 = Fin 0, col_Az = Fin 0, col_Ele_deg = Fin 0, col_Press_raw = Fin 101000,
        col_Temp = Fin 20, col_RH = Fin 50, col_Sonic = Fin 21\<rparr>,
       \<lparr>col_TIME = 1700000002350000, col_U = Fin 0, col_V = Fin 0, col_W = Fin 0, col_d2 = Fin 0,
        col_d3 = Fin 0, col_Az = Fin 0, col_Ele_deg = Fin 0, col_Press_raw = Fin 101000,
        col_Temp = Fin 20, col_RH = Fin 50, col_Sonic = Fin 21\<rparr>,
       \<lparr>col_TIME = 1700000002450000, col_U = Fin 0, col_V = Fin 0, col_W = Fin 0, col_d2 = Fin 0,
        col_d3 = Fin 0, col_Az = Fin 0, col_Ele_deg = Fin 0, col_Press_raw = Fin 101000,
        col_Temp = Fin 20, col_RH = Fin 50, col_Sonic = Fin 21\<rparr>,
       \<lparr>col_TIME = 1700000002550000, col_U = Fin 0, col_V = Fin 0, col_W = Fin 0, col_d2 = Fin 0,
        col_d3 = Fin 0, col_Az = Fin 0, col_Ele_deg = Fin 0, col_Press_raw = Fin 101000,
        col_Temp = Fin 20, col_RH = Fin 50, col_Sonic = Fin 21\<rparr>,
       \<lparr>col_TIME = 1700000002650000, col_U = Fin 0, col_V = Fin 0, col_W = Fin 0, col_d2 = Fin 0,
        col_d3 = Fin 0, col_Az = Fin 0, col_Ele_deg = Fin 0, col_Press_raw = Fin 101000,
        col_Temp = Fin 20, col_RH = Fin 50, col_Sonic = Fin 21\<rparr>,
       \<lparr>col_TIME = 1700000002750000, col_U = Fin 0, col_V = Fin 0, col_W = Fin 0, col_d2 = Fin 0,
        col_d3 = Fin 0, col_Az = Fin 0, col_Ele_deg = Fin 0, col_Press_raw = Fin 101000,
        col_Temp = Fin 20, col_RH = Fin 50, col_Sonic = Fin 21\<rparr>,
       \<lparr>col_TIME = 1700000002850000, col_U = Fin 0, col_V = Fin 0, col_W = Fin 0, col_d2 = Fin 0,
        col_d3 = Fin 0, col_Az = Fin 0, col_Ele_deg = Fin 0, col_Press_raw = Fin 101000,
        col_Temp = Fin 20, col_RH = Fin 50, col_Sonic = Fin 21\<rparr>,
       \<lparr>col_TIME = 1700000002950000, col_U = Fin 0, col_V = Fin 0, col_W = Fin 0, col_d2 = Fin 0,
        col_d3 = Fin 0, col_Az = Fin 0, col_Ele_deg = Fin 0, col_Press_raw = Fin 101000,
        col_Temp = Fin 20, col_RH = Fin 50, col_Sonic = Fin 21\<rparr>,
       \<lparr>col_TIME = 1700000003050000, col_U = Fin 0, col_V = Fin 0, col_W = Fin 0, col_d2 = Fin 0,
        col_d3 = Fin 0, col_Az = Fin 0, col_Ele_deg = Fin 0, col_Press_raw = Fin 101000,
        col_Temp = Fin 20, col_RH = Fin 50, col_Sonic = Fin 21\<rparr>,
       \<lparr>col_TIME = 1700000003150000, col_U = Fin 0, col_V = Fin 0, col_W = Fin 0, col_d2 = Fin 0,
        col_d3 = Fin 0, col_Az = Fin 0, col_Ele_deg = Fin 0, col_Press_raw = Fin 101000,
        col_Temp = Fin 20, col_RH = Fin 50, col_Sonic = Fin 21\<rparr>,
       \<lparr>col_TIME = 1700000003250000, col_U = Fin 0, col_V = Fin 0, col_W = Fin 0, col_d2 = Fin 0,
        col_d3 = Fin 0, col_Az = Fin 0, col_Ele_deg = Fin 0, col_Press_raw = Fin 101000,
        col_Temp = Fin 20, col_RH = Fin 50, col_Sonic = Fin 21\<rparr>,
       \<lparr>col_TIME = 1700000003350000, col_U = Fin 0, col_V = Fin 0, col_W = Fin 0, col_d2 = Fin 0,
        col_d3 = Fin 0, col_Az = Fin 0, col_Ele_deg = Fin 0, col_Press_raw = Fin 101000,
        col_Temp = Fin 20, col_RH = Fin 50, col_Sonic = Fin 21\<rparr>,
       \<lparr>col_TIME = 1700000003450000, col_U = Fin 0, col_V = Fin 0, col_W = Fin 0, col_d2 = Fin 0,
        col_d3 = Fin 0, col_Az = Fin 0, col_Ele_deg = Fin 0, col_Press_raw = Fin 101000,
        col_Temp = Fin 20, col_RH = Fin 50, col_Sonic = Fin 21\<rparr>,
       \<lparr>col_TIME = 1700000003550000, col_U = Fin 0, col_V = Fin 0, col_W = Fin 0, col_d2 = Fin 0,
        col_d3 = Fin 0, col_Az = Fin 0, col_Ele_deg = Fin 0, col_Press_raw = Fin 101000,
        col_Temp = Fin 20, col_RH = Fin 50, col_Sonic = Fin 21\<rparr>,
       \<lparr>col_TIME = 1700000003650000, col_U = Fin 0, col_V = Fin 0, col_W = Fin 0, col_d2 = Fin 0,
        col_d3 = Fin 0, col_Az = Fin 0, col_Ele_deg = Fin 0, col_Press_raw = Fin 101000,
        col_Temp = Fin 20, col_RH = Fin 50, col_Sonic = Fin 21\<rparr>,
       \<lparr>col_TIME = 1700000003750000, col_U = Fin 0, col_V = Fin 0, col_W = Fin 0, col_d2 = Fin 0,
        col_d3 = Fin 0, col_Az = Fin 0, col_Ele_deg = Fin 0, col_Press_raw = Fin 101000,
        col_Temp = Fin 20, col_RH = Fin 50, col_Sonic = Fin 21\<rparr>,
       \<lparr>col_TIME = 1700000003850000, col_U = Fin 0, col_V = Fin 0, col_W = Fin 0, col_d2 = Fin 0,
        col_d3 = Fin 0, col_Az = Fin 0, col_Ele_deg = Fin 0, col_Press_raw = Fin 101000,
        col_Temp = Fin 20, col_RH = Fin 50, col_Sonic = Fin 21\<rparr>,
       \<lparr>col_TIME = 1700000003950000, col_U = Fin 0, col_V = Fin 0, col_W = Fin 0, col_d2 = Fin 0,
        col_d3 = Fin 0, col_Az = Fin 0, col_Ele_deg = Fin 0, col_Press_raw = Fin 101000,
        col_Temp = Fin 20, col_RH = Fin 50, col_Sonic = Fin 21\<rparr>,
       \<lparr>col_TIME = 1700000004050000, col_U = Fin 0, col_V = Fin 0, col_W = Fin 0, col_d2 = Fin 0,
        col_d3 = Fin 0, col_Az = Fin 0, col_Ele_deg = Fin 0, col_Press_raw = Fin 101000,
        col_Temp = Fin 20, col_RH = Fin 50, col_Sonic = Fin 21\<rparr>]) = Fin 1"
  by code_simp

text \<open>
  C1, amended. In a pass that starts with at least 32 samples in the window, in which the
  1 Hz interval has elapsed and the mode value read before writing equals \<open>0\<close>, the row
  written holds, for each averaged field, the mean of that field over those samples of the
  window that lie in the earliest wall-clock second present in it, rounded to 8 decimal
  places, and as \<open>Error\<close> the error value of the sample taken last from the queue, rounded
  likewise and not averaged. The window is the last 32 of the samples held and taken in the
  pass. The mean skips not-a-number; over finite numbers it is their sum divided by their
  count.
\<close>

theorem standard_pass_first_second_mean:
  assumes "buffer_limit \<le> length (sl_data_frame self)"
    and "sl_standard_rate self \<le> current_time - sl_last_1hz_update self"
    and "feq (sdl_mode 4) (Fin 0)"
    and "sl_last_data (foldl take_sample self incoming) = Some last_data"
  shows "written (snd (standard_pass self sdl_mode current_time incoming now)) =
     Some [(''tNow'', Time (now - now mod 1000000)),
           (''u_m_s'', Num (round8 (fmean (map col_U
               (first_second (sl_data_frame (foldl take_sample self incoming))))))),
           (''v_m_s'', Num (round8 (fmean (map col_V
               (first_second (sl_data_frame (foldl take_sample self incoming))))))),
           (''w_m_s'', Num (round8 (fmean (map col_W
               (first_second (sl_data_frame (foldl take_sample self incoming))))))),
           (''2dSpeed_m_s'', Num (round8 (fmean (map col_d2
               (first_second (sl_data_frame (foldl take_sample self incoming))))))),
           (''3DSpeed_m_s'', Num (round8 (fmean (map col_d3
               (first_second (sl_data_frame (foldl take_sample self incoming))))))),
           (''Azimuth_deg'', Num (round8 (fmean (map col_Az
               (first_second (sl_data_frame (foldl take_sample self incoming))))))),
           (''Elev_deg'', Num (round8 (fmean (map col_Ele_deg
               (first_second (sl_data_frame (foldl take_sample self incoming))))))),
           (''Press_Pa'', Num (round8 (fmean (map col_Press_raw
               (first_second (sl_data_frame (foldl take_sample self incoming))))))),
           (''Temp_C'', Num (round8 (fmean (map col_Temp
               (first_second (sl_data_frame (foldl take_sample self incoming))))))),
           (''Hum_RH'', Num (round8 (fmean (map col_RH
               (first_second (sl_data_frame (foldl take_sample self incoming))))))),
           (''SonicTemp_C'', Num (round8 (fmean (map col_Sonic
               (first_second (sl_data_frame (foldl take_sample self incoming))))))),
           (''Error'', Num (round8 (a_err last_data)))]
   \<and> (length (sl_data_frame self) \<le> buffer_limit \<longrightarrow>
     sl_data_frame (foldl take_sample self incoming) =
       drop (length (foldl concat_data (sl_data_frame self) incoming) - buffer_limit)
         (foldl concat_data (sl_data_frame self) incoming))
   \<and> (xs \<noteq> [] \<longrightarrow> fmean (map Fin xs) = Fin (sum_list xs / of_nat (length xs)))"
proof (intro conjI impI)
  let ?s1 = "if \<not> feq (sdl_mode 0) (sl_last_mode self)
      then self\<lparr>sl_last_mode := sdl_mode 0,
             sl_last_display_update :=
               (if fgt0 (sdl_mode 0) then 0 else sl_last_display_update self),
             sl_mode_changed := True, sl_display_counter := 0\<rparr>
      else self"
  have f1: "sl_data_frame ?s1 = sl_data_frame self" by simp
  have r1: "sl_standard_rate ?s1 = sl_standard_rate self" by simp
  have u1: "sl_last_1hz_update ?s1 = sl_last_1hz_update self" by simp
  have l1: "sl_last_data ?s1 = sl_last_data self" by simp
  have f2: "sl_data_frame (foldl take_sample ?s1 incoming)
      = sl_data_frame (foldl take_sample self incoming)"
    using f1 by (rule foldl_take_sample_frame)
  have l2: "sl_last_data (foldl take_sample ?s1 incoming) = Some last_data"
    using foldl_take_sample_last_cong [OF l1, of incoming] assms(4) by simp
  show "written (snd (standard_pass self sdl_mode current_time incoming now)) =
     Some [(''tNow'', Time (now - now mod 1000000)),
           (''u_m_s'', Num (round8 (fmean (map col_U
               (first_second (sl_data_frame (foldl take_sample self incoming))))))),
           (''v_m_s'', Num (round8 (fmean (map col_V
               (first_second (sl_data_frame (foldl take_sample self incoming))))))),
           (''w_m_s'', Num (round8 (fmean (map col_W
               (first_second (sl_data_frame (foldl take_sample self incoming))))))),
           (''2dSpeed_m_s'', Num (round8 (fmean (map col_d2
               (first_second (sl_data_frame (foldl take_sample self incoming))))))),
           (''3DSpeed_m_s'', Num (round8 (fmean (map col_d3
               (first_second (sl_data_frame (foldl take_sample self incoming))))))),
           (''Azimuth_deg'', Num (round8 (fmean (map col_Az
               (first_second (sl_data_frame (foldl take_sample self incoming))))))),
           (''Elev_deg'', Num (round8 (fmean (map col_Ele_deg
               (first_second (sl_data_frame (foldl take_sample self incoming))))))),
           (''Press_Pa'', Num (round8 (fmean (map col_Press_raw
               (first_second (sl_data_frame (foldl take_sample self incoming))))))),
           (''Temp_C'', Num (round8 (fmean (map col_Temp
               (first_second (sl_data_frame (foldl take_sample self incoming))))))),
           (''Hum_RH'', Num (round8 (fmean (map col_RH
               (first_second (sl_data_frame (foldl take_sample self incoming))))))),
           (''SonicTemp_C'', Num (round8 (fmean (map col_Sonic
               (first_second (sl_data_frame (foldl take_sample self incoming))))))),
           (''Error'', Num (round8 (a_err last_data)))]"
    unfolding standard_pass_def Let_def
    using assms(1,2,3) f2 l2
    by (simp add: f1 r1 u1 prepare_averaged_row)
next
  assume "length (sl_data_frame self) \<le> buffer_limit"
  then show "sl_data_frame (foldl take_sample self incoming) =
       drop (length (foldl concat_data (sl_data_frame self) incoming) - buffer_limit)
         (foldl concat_data (sl_data_frame self) incoming)"
    by (rule foldl_take_sample_window)
next
  assume "xs \<noteq> []"
  then show "fmean (map Fin xs) = Fin (sum_list xs / of_nat (length xs))"
    by (rule fmean_finite)
qed

theorem standard_pass_first_second_mean_witness:
  "buffer_limit \<le> length (sl_data_frame
      \<lparr>sl_standard_rate = 1, sl_data_frame = \<lparr>col_TIME = 1700000000900000,
      col_U = Fin 32, col_V = Fin 64, col_W = Fin 0, col_d2 = Fin 0, col_d3 = Fin 0,
      col_Az = Fin 0, col_Ele_deg = Fin 0, col_Press_raw = Fin 101000, col_Temp = Fin 20,
      col_RH = Fin 50,
      col_Sonic = Fin 21\<rparr> # replicate 31 \<lparr>col_TIME = 1700000001100000,
      col_U = Fin (3 / 2), col_V = Fin (- 2), col_W = Fin (1 / 4),
      col_d2 = Fin (5 / 2),
      col_d3 = Fin 3, col_Az = Fin 270, col_Ele_deg = Fin 10,
      col_Press_raw = Fin 101500,
      col_Temp = Fin (41 / 2), col_RH = Fin 55,
      col_Sonic = Fin 22\<rparr>,
      sl_mode_changed = False, sl_display_counter = 0, sl_last_1hz_update = 1700000001,
      sl_last_display_update = 1700000001, sl_last_data = Some \<lparr>a_tNow = 1700000001100000,
      a_u = Fin (3 / 2), a_v = Fin (- 2), a_w = Fin (1 / 4), a_d2 = Fin (5 / 2), a_d3 = Fin 3,
      a_az = Fin 270, a_ele = Fin 10, a_press = Fin 101500, a_temp = Fin (41 / 2), a_rh = Fin 55,
      a_sonic = Fin 22, a_err = Fin 1\<rparr>, sl_last_mode = Fin 0\<rparr>)
   \<and> sl_standard_rate
      \<lparr>sl_standard_rate = 1, sl_data_frame = \<lparr>col_TIME = 1700000000900000,
      col_U = Fin 32, col_V = Fin 64, col_W = Fin 0, col_d2 = Fin 0, col_d3 = Fin 0,
      col_Az = Fin 0, col_Ele_deg = Fin 0, col_Press_raw = Fin 101000, col_Temp = Fin 20,
      col_RH = Fin 50,
      col_Sonic = Fin 21\<rparr> # replicate 31 \<lparr>col_TIME = 1700000001100000,
      col_U = Fin (3 / 2), col_V = Fin (- 2), col_W = Fin (1 / 4),
      col_d2 = Fin (5 / 2),
      col_d3 = Fin 3, col_Az = Fin 270, col_Ele_deg = Fin 10,
      col_Press_raw = Fin 101500,
      col_Temp = Fin (41 / 2), col_RH = Fin 55,
      col_Sonic = Fin 22\<rparr>,
      sl_mode_changed = False, sl_display_counter = 0, sl_last_1hz_update = 1700000001,
      sl_last_display_update = 1700000001, sl_last_data = Some \<lparr>a_tNow = 1700000001100000,
      a_u = Fin (3 / 2), a_v = Fin (- 2), a_w = Fin (1 / 4), a_d2 = Fin (5 / 2), a_d3 = Fin 3,
      a_az = Fin 270, a_ele = Fin 10, a_press = Fin 101500, a_temp = Fin (41 / 2), a_rh = Fin 55,
      a_sonic = Fin 22, a_err = Fin 1\<rparr>, sl_last_mode = Fin 0\<rparr>
    \<le> (3400000005 / 2) - sl_last_1hz_update
      \<lparr>sl_standard_rate = 1, sl_data_frame = \<lparr>col_TIME = 1700000000900000,
      col_U = Fin 32, col_V = Fin 64, col_W = Fin 0, col_d2 = Fin 0, col_d3 = Fin 0,
      col_Az = Fin 0, col_Ele_deg = Fin 0, col_Press_raw = Fin 101000, col_Temp = Fin 20,
      col_RH = Fin 50,
      col_Sonic = Fin 21\<rparr> # replicate 31 \<lparr>col_TIME = 1700000001100000,
      col_U = Fin (3 / 2), col_V = Fin (- 2), col_W = Fin (1 / 4),
      col_d2 = Fin (5 / 2),
      col_d3 = Fin 3, col_Az = Fin 270, col_Ele_deg = Fin 10,
      col_Press_raw = Fin 101500,
      col_Temp = Fin (41 / 2), col_RH = Fin 55,
      col_Sonic = Fin 22\<rparr>,
      sl_mode_changed = False, sl_display_counter = 0, sl_last_1hz_update = 1700000001,
      sl_last_display_update = 1700000001, sl_last_data = Some \<lparr>a_tNow = 1700000001100000,
      a_u = Fin (3 / 2), a_v = Fin (- 2), a_w = Fin (1 / 4), a_d2 = Fin (5 / 2), a_d3 = Fin 3,
      a_az = Fin 270, a_ele = Fin 10, a_press = Fin 101500, a_temp = Fin (41 / 2), a_rh = Fin 55,
      a_sonic = Fin 22, a_err = Fin 1\<rparr>, sl_last_mode = Fin 0\<rparr>
   \<and> feq (Fin 0) (Fin 0)
   \<and> sl_last_data (foldl take_sample
      \<lparr>sl_standard_rate = 1, sl_data_frame = \<lparr>col_TIME = 1700000000900000,
      col_U = Fin 32, col_V = Fin 64, col_W = Fin 0, col_d2 = Fin 0, col_d3 = Fin 0,
      col_Az = Fin 0, col_Ele_deg = Fin 0, col_Press_raw = Fin 101000, col_Temp = Fin 20,
      col_RH = Fin 50,
      col_Sonic = Fin 21\<rparr> # replicate 31 \<lparr>col_TIME = 1700000001100000,
      col_U = Fin (3 / 2), col_V = Fin (- 2), col_W = Fin (1 / 4),
      col_d2 = Fin (5 / 2),
      col_d3 = Fin 3, col_Az = Fin 270, col_Ele_deg = Fin 10,
      col_Press_raw = Fin 101500,
      col_Temp = Fin (41 / 2), col_RH = Fin 55,
      col_Sonic = Fin 22\<rparr>,
      sl_mode_changed = False, sl_display_counter = 0, sl_last_1hz_update = 1700000001,
      sl_last_display_update = 1700000001, sl_last_data = Some \<lparr>a_tNow = 1700000001100000,
      a_u = Fin (3 / 2), a_v = Fin (- 2), a_w = Fin (1 / 4), a_d2 = Fin (5 / 2), a_d3 = Fin 3,
      a_az = Fin 270, a_ele = Fin 10, a_press = Fin 101500, a_temp = Fin (41 / 2), a_rh = Fin 55,
      a_sonic = Fin 22, a_err = Fin 1\<rparr>, sl_last_mode = Fin 0\<rparr>
      [\<lparr>a_tNow = 1700000002050000, a_u = Fin 7, a_v = Fin 8, a_w = Fin 9, a_d2 = Fin 10,
      a_d3 = Fin 11, a_az = Fin 12, a_ele = Fin 13, a_press = Fin 102000, a_temp = Fin 25,
      a_rh = Fin 60, a_sonic = Fin 26, a_err = Fin 2\<rparr>])
    = Some \<lparr>a_tNow = 1700000002050000, a_u = Fin 7, a_v = Fin 8, a_w = Fin 9, a_d2 = Fin 10,
      a_d3 = Fin 11, a_az = Fin 12, a_ele = Fin 13, a_press = Fin 102000, a_temp = Fin 25,
      a_rh = Fin 60, a_sonic = Fin 26, a_err = Fin 2\<rparr>
   \<and> written (snd (standard_pass
      \<lparr>sl_standard_rate = 1, sl_data_frame = \<lparr>col_TIME = 1700000000900000,
      col_U = Fin 32, col_V = Fin 64, col_W = Fin 0, col_d2 = Fin 0, col_d3 = Fin 0,
      col_Az = Fin 0, col_Ele_deg = Fin 0, col_Press_raw = Fin 101000, col_Temp = Fin 20,
      col_RH = Fin 50,
      col_Sonic = Fin 21\<rparr> # replicate 31 \<lparr>col_TIME = 1700000001100000,
      col_U = Fin (3 / 2), col_V = Fin (- 2), col_W = Fin (1 / 4),
      col_d2 = Fin (5 / 2),
      col_d3 = Fin 3, col_Az = Fin 270, col_Ele_deg = Fin 10,
      col_Press_raw = Fin 101500,
      col_Temp = Fin (41 / 2), col_RH = Fin 55,
      col_Sonic = Fin 22\<rparr>,
      sl_mode_changed = False, sl_display_counter = 0, sl_last_1hz_update = 1700000001,
      sl_last_display_update = 1700000001, sl_last_data = Some \<lparr>a_tNow = 1700000001100000,
      a_u = Fin (3 / 2), a_v = Fin (- 2), a_w = Fin (1 / 4), a_d2 = Fin (5 / 2), a_d3 = Fin 3,
      a_az = Fin 270, a_ele = Fin 10, a_press = Fin 101500, a_temp = Fin (41 / 2), a_rh = Fin 55,
      a_sonic = Fin 22, a_err = Fin 1\<rparr>, sl_last_mode = Fin 0\<rparr>
      (\<lambda>k. Fin 0) (3400000005 / 2)
      [\<lparr>a_tNow = 1700000002050000, a_u = Fin 7, a_v = Fin 8, a_w = Fin 9, a_d2 = Fin 10,
      a_d3 = Fin 11, a_az = Fin 12, a_ele = Fin 13, a_press = Fin 102000, a_temp = Fin 25,
      a_rh = Fin 60, a_sonic = Fin 26, a_err = Fin 2\<rparr>] 1700000002500000))
    = Some [(''tNow'', Time 1700000002000000), (''u_m_s'', Num (Fin (3 / 2))), (''v_m_s'', Num (Fin (- 2))),
      (''w_m_s'', Num (Fin (1 / 4))), (''2dSpeed_m_s'', Num (Fin (5 / 2))), (''3DSpeed_m_s'',
      Num (Fin 3)), (''Azimuth_deg'', Num (Fin 270)), (''Elev_deg'', Num (Fin 10)),
      (''Press_Pa'', Num (Fin 101500)), (''Temp_C'', Num (Fin (41 / 2))), (''Hum_RH'',
      Num (Fin 55)), (''SonicTemp_C'', Num (Fin 22)), (''Error'', Num (Fin 2))]
   \<and> length (sl_data_frame
      \<lparr>sl_standard_rate = 1, sl_data_frame = \<lparr>col_TIME = 1700000000900000,
      col_U = Fin 32, col_V = Fin 64, col_W = Fin 0, col_d2 = Fin 0, col_d3 = Fin 0,
      col_Az = Fin 0, col_Ele_deg = Fin 0, col_Press_raw = Fin 101000, col_Temp = Fin 20,
      col_RH = Fin 50,
      col_Sonic = Fin 21\<rparr> # replicate 31 \<lparr>col_TIME = 1700000001100000,
      col_U = Fin (3 / 2), col_V = Fin (- 2), col_W = Fin (1 / 4),
      col_d2 = Fin (5 / 2),
      col_d3 = Fin 3, col_Az = Fin 270, col_Ele_deg = Fin 10,
      col_Press_raw = Fin 101500,
      col_Temp = Fin (41 / 2), col_RH = Fin 55,
      col_Sonic = Fin 22\<rparr>,
      sl_mode_changed = False, sl_display_counter = 0, sl_last_1hz_update = 1700000001,
      sl_last_display_update = 1700000001, sl_last_data = Some \<lparr>a_tNow = 1700000001100000,
      a_u = Fin (3 / 2), a_v = Fin (- 2), a_w = Fin (1 / 4), a_d2 = Fin (5 / 2), a_d3 = Fin 3,
      a_az = Fin 270, a_ele = Fin 10, a_press = Fin 101500, a_temp = Fin (41 / 2), a_rh = Fin 55,
      a_sonic = Fin 22, a_err = Fin 1\<rparr>, sl_last_mode = Fin 0\<rparr>) \<le> buffer_limit
   \<and> sl_data_frame (foldl take_sample
      \<lparr>sl_standard_rate = 1, sl_data_frame = \<lparr>col_TIME = 1700000000900000,
      col_U = Fin 32, col_V = Fin 64, col_W = Fin 0, col_d2 = Fin 0, col_d3 = Fin 0,
      col_Az = Fin 0, col_Ele_deg = Fin 0, col_Press_raw = Fin 101000, col_Temp = Fin 20,
      col_RH = Fin 50,
      col_Sonic = Fin 21\<rparr> # replicate 31 \<lparr>col_TIME = 1700000001100000,
      col_U = Fin (3 / 2), col_V = Fin (- 2), col_W = Fin (1 / 4),
      col_d2 = Fin (5 / 2),
      col_d3 = Fin 3, col_Az = Fin 270, col_Ele_deg = Fin 10,
      col_Press_raw = Fin 101500,
      col_Temp = Fin (41 / 2), col_RH = Fin 55,
      col_Sonic = Fin 22\<rparr>,
      sl_mode_changed = False, sl_display_counter = 0, sl_last_1hz_update = 1700000001,
      sl_last_display_update = 1700000001, sl_last_data = Some \<lparr>a_tNow = 1700000001100000,
      a_u = Fin (3 / 2), a_v = Fin (- 2), a_w = Fin (1 / 4), a_d2 = Fin (5 / 2), a_d3 = Fin 3,
      a_az = Fin 270, a_ele = Fin 10, a_press = Fin 101500, a_temp = Fin (41 / 2), a_rh = Fin 55,
      a_sonic = Fin 22, a_err = Fin 1\<rparr>, sl_last_mode = Fin 0\<rparr>
      [\<lparr>a_tNow = 1700000002050000, a_u = Fin 7, a_v = Fin 8, a_w = Fin 9, a_d2 = Fin 10,
      a_d3 = Fin 11, a_az = Fin 12, a_ele = Fin 13, a_press = Fin 102000, a_temp = Fin 25,
      a_rh = Fin 60, a_sonic = Fin 26, a_err = Fin 2\<rparr>])
    = replicate 31 \<lparr>col_TIME = 1700000001100000, col_U = Fin (3 / 2), col_V = Fin (- 2), col_W = Fin (1 / 4),
      col_d2 = Fin (5 / 2), col_d3 = Fin 3, col_Az = Fin 270, col_Ele_deg = Fin 10,
      col_Press_raw = Fin 101500, col_Temp = Fin (41 / 2), col_RH = Fin 55,
      col_Sonic = Fin 22\<rparr>
      @ [\<lparr>col_TIME = 1700000002050000, col_U = Fin 7, col_V = Fin 8, col_W = Fin 9,
      col_d2 = Fin 10, col_d3 = Fin 11, col_Az = Fin 12, col_Ele_deg = Fin 13,
      col_Press_raw = Fin 102000, col_Temp = Fin 25, col_RH = Fin 60, col_Sonic = Fin 26\<rparr>]
   \<and> [1, 2, 6 :: rat] \<noteq> []
   \<and> fmean (map Fin [1, 2, 6]) = Fin 3"
proof -
  have h1: "buffer_limit \<le> length (sl_data_frame
      \<lparr>sl_standard_rate = 1, sl_data_frame = \<lparr>col_TIME = 1700000000900000,
      col_U = Fin 32, col_V = Fin 64, col_W = Fin 0, col_d2 = Fin 0, col_d3 = Fin 0,
      col_Az = Fin 0, col_Ele_deg = Fin 0, col_Press_raw = Fin 101000, col_Temp = Fin 20,
      col_RH = Fin 50,
      col_Sonic = Fin 21\<rparr> # replicate 31 \<lparr>col_TIME = 1700000001100000,
      col_U = Fin (3 / 2), col_V = Fin (- 2), col_W = Fin (1 / 4),
      col_d2 = Fin (5 / 2),
      col_d3 = Fin 3, col_Az = Fin 270, col_Ele_deg = Fin 10,
      col_Press_raw = Fin 101500,
      col_Temp = Fin (41 / 2), col_RH = Fin 55,
      col_Sonic = Fin 22\<rparr>,
      sl_mode_changed = False, sl_display_counter = 0, sl_last_1hz_update = 1700000001,
      sl_last_display_update = 1700000001, sl_last_data = Some \<lparr>a_tNow = 1700000001100000,
      a_u = Fin (3 / 2), a_v = Fin (- 2), a_w = Fin (1 / 4), a_d2 = Fin (5 / 2), a_d3 = Fin 3,
      a_az = Fin 270, a_ele = Fin 10, a_press = Fin 101500, a_temp = Fin (41 / 2), a_rh = Fin 55,
      a_sonic = Fin 22, a_err = Fin 1\<rparr>, sl_last_mode = Fin 0\<rparr>)"
    by code_simp
  have h2: "sl_standard_rate
      \<lparr>sl_standard_rate = 1, sl_data_frame = \<lparr>col_TIME = 1700000000900000,
      col_U = Fin 32, col_V = Fin 64, col_W = Fin 0, col_d2 = Fin 0, col_d3 = Fin 0,
      col_Az = Fin 0, col_Ele_deg = Fin 0, col_Press_raw = Fin 101000, col_Temp = Fin 20,
      col_RH = Fin 50,
      col_Sonic = Fin 21\<rparr> # replicate 31 \<lparr>col_TIME = 1700000001100000,
      col_U = Fin (3 / 2), col_V = Fin (- 2), col_W = Fin (1 / 4),
      col_d2 = Fin (5 / 2),
      col_d3 = Fin 3, col_Az = Fin 270, col_Ele_deg = Fin 10,
      col_Press_raw = Fin 101500,
      col_Temp = Fin (41 / 2), col_RH = Fin 55,
      col_Sonic = Fin 22\<rparr>,
      sl_mode_changed = False, sl_display_counter = 0, sl_last_1hz_update = 1700000001,
      sl_last_display_update = 1700000001, sl_last_data = Some \<lparr>a_tNow = 1700000001100000,
      a_u = Fin (3 / 2), a_v = Fin (- 2), a_w = Fin (1 / 4), a_d2 = Fin (5 / 2), a_d3 = Fin 3,
      a_az = Fin 270, a_ele = Fin 10, a_press = Fin 101500, a_temp = Fin (41 / 2), a_rh = Fin 55,
      a_sonic = Fin 22, a_err = Fin 1\<rparr>, sl_last_mode = Fin 0\<rparr>
    \<le> (3400000005 / 2) - sl_last_1hz_update
      \<lparr>sl_standard_rate = 1, sl_data_frame = \<lparr>col_TIME = 1700000000900000,
      col_U = Fin 32, col_V = Fin 64, col_W = Fin 0, col_d2 = Fin 0, col_d3 = Fin 0,
      col_Az = Fin 0, col_Ele_deg = Fin 0, col_Press_raw = Fin 101000, col_Temp = Fin 20,
      col_RH = Fin 50,
      col_Sonic = Fin 21\<rparr> # replicate 31 \<lparr>col_TIME = 1700000001100000,
      col_U = Fin (3 / 2), col_V = Fin (- 2), col_W = Fin (1 / 4),
      col_d2 = Fin (5 / 2),
      col_d3 = Fin 3, col_Az = Fin 270, col_Ele_deg = Fin 10,
      col_Press_raw = Fin 101500,
      col_Temp = Fin (41 / 2), col_RH = Fin 55,
      col_Sonic = Fin 22\<rparr>,
      sl_mode_changed = False, sl_display_counter = 0, sl_last_1hz_update = 1700000001,
      sl_last_display_update = 1700000001, sl_last_data = Some \<lparr>a_tNow = 1700000001100000,
      a_u = Fin (3 / 2), a_v = Fin (- 2), a_w = Fin (1 / 4), a_d2 = Fin (5 / 2), a_d3 = Fin 3,
      a_az = Fin 270, a_ele = Fin 10, a_press = Fin 101500, a_temp = Fin (41 / 2), a_rh = Fin 55,
      a_sonic = Fin 22, a_err = Fin 1\<rparr>, sl_last_mode = Fin 0\<rparr>"
    by code_simp
  have h3: "feq (Fin 0) (Fin 0)"
    by code_simp
  have h4: "sl_last_data (foldl take_sample
      \<lparr>sl_standard_rate = 1, sl_data_frame = \<lparr>col_TIME = 1700000000900000,
      col_U = Fin 32, col_V = Fin 64, col_W = Fin 0, col_d2 = Fin 0, col_d3 = Fin 0,
      col_Az = Fin 0, col_Ele_deg = Fin 0, col_Press_raw = Fin 101000, col_Temp = Fin 20,
      col_RH = Fin 50,
      col_Sonic = Fin 21\<rparr> # replicate 31 \<lparr>col_TIME = 1700000001100000,
      col_U = Fin (3 / 2), col_V = Fin (- 2), col_W = Fin (1 / 4),
      col_d2 = Fin (5 / 2),
      col_d3 = Fin 3, col_Az = Fin 270, col_Ele_deg = Fin 10,
      col_Press_raw = Fin 101500,
      col_Temp = Fin (41 / 2), col_RH = Fin 55,
      col_Sonic = Fin 22\<rparr>,
      sl_mode_changed = False, sl_display_counter = 0, sl_last_1hz_update = 1700000001,
      sl_last_display_update = 1700000001, sl_last_data = Some \<lparr>a_tNow = 1700000001100000,
      a_u = Fin (3 / 2), a_v = Fin (- 2), a_w = Fin (1 / 4), a_d2 = Fin (5 / 2), a_d3 = Fin 3,
      a_az = Fin 270, a_ele = Fin 10, a_press = Fin 101500, a_temp = Fin (41 / 2), a_rh = Fin 55,
      a_sonic = Fin 22, a_err = Fin 1\<rparr>, sl_last_mode = Fin 0\<rparr>
      [\<lparr>a_tNow = 1700000002050000, a_u = Fin 7, a_v = Fin 8, a_w = Fin 9, a_d2 = Fin 10,
      a_d3 = Fin 11, a_az = Fin 12, a_ele = Fin 13, a_press = Fin 102000, a_temp = Fin 25,
      a_rh = Fin 60, a_sonic = Fin 26, a_err = Fin 2\<rparr>])
    = Some \<lparr>a_tNow = 1700000002050000, a_u = Fin 7, a_v = Fin 8, a_w = Fin 9, a_d2 = Fin 10,
      a_d3 = Fin 11, a_az = Fin 12, a_ele = Fin 13, a_press = Fin 102000, a_temp = Fin 25,
      a_rh = Fin 60, a_sonic = Fin 26, a_err = Fin 2\<rparr>"
    by code_simp
  have h5: "length (sl_data_frame
      \<lparr>sl_standard_rate = 1, sl_data_frame = \<lparr>col_TIME = 1700000000900000,
      col_U = Fin 32, col_V = Fin 64, col_W = Fin 0, col_d2 = Fin 0, col_d3 = Fin 0,
      col_Az = Fin 0, col_Ele_deg = Fin 0, col_Press_raw = Fin 101000, col_Temp = Fin 20,
      col_RH = Fin 50,
      col_Sonic = Fin 21\<rparr> # replicate 31 \<lparr>col_TIME = 1700000001100000,
      col_U = Fin (3 / 2), col_V = Fin (- 2), col_W = Fin (1 / 4),
      col_d2 = Fin (5 / 2),
      col_d3 = Fin 3, col_Az = Fin 270, col_Ele_deg = Fin 10,
      col_Press_raw = Fin 101500,
      col_Temp = Fin (41 / 2), col_RH = Fin 55,
      col_Sonic = Fin 22\<rparr>,
      sl_mode_changed = False, sl_display_counter = 0, sl_last_1hz_update = 1700000001,
      sl_last_display_update = 1700000001, sl_last_data = Some \<lparr>a_tNow = 1700000001100000,
      a_u = Fin (3 / 2), a_v = Fin (- 2), a_w = Fin (1 / 4), a_d2 = Fin (5 / 2), a_d3 = Fin 3,
      a_az = Fin 270, a_ele = Fin 10, a_press = Fin 101500, a_temp = Fin (41 / 2), a_rh = Fin 55,
      a_sonic = Fin 22, a_err = Fin 1\<rparr>, sl_last_mode = Fin 0\<rparr>) \<le> buffer_limit"
    by code_simp
  have h6: "[1, 2, 6 :: rat] \<noteq> []"
    by code_simp
  note w = standard_pass_first_second_mean [where self = "\<lparr>sl_standard_rate = 1, sl_data_frame = \<lparr>col_TIME = 1700000000900000,
      col_U = Fin 32, col_V = Fin 64, col_W = Fin 0, col_d2 = Fin 0, col_d3 = Fin 0,
      col_Az = Fin 0, col_Ele_deg = Fin 0, col_Press_raw = Fin 101000, col_Temp = Fin 20,
      col_RH = Fin 50,
      col_Sonic = Fin 21\<rparr> # replicate 31 \<lparr>col_TIME = 1700000001100000,
      col_U = Fin (3 / 2), col_V = Fin (- 2), col_W = Fin (1 / 4),
      col_d2 = Fin (5 / 2),
      col_d3 = Fin 3, col_Az = Fin 270, col_Ele_deg = Fin 10,
      col_Press_raw = Fin 101500,
      col_Temp = Fin (41 / 2), col_RH = Fin 55,
      col_Sonic = Fin 22\<rparr>,
      sl_mode_changed = False, sl_display_counter = 0, sl_last_1hz_update = 1700000001,
      sl_last_display_update = 1700000001, sl_last_data = Some \<lparr>a_tNow = 1700000001100000,
      a_u = Fin (3 / 2), a_v = Fin (- 2), a_w = Fin (1 / 4), a_d2 = Fin (5 / 2), a_d3 = Fin 3,
      a_az = Fin 270, a_ele = Fin 10, a_press = Fin 101500, a_temp = Fin (41 / 2), a_rh = Fin 55,
      a_sonic = Fin 22, a_err = Fin 1\<rparr>, sl_last_mode = Fin 0\<rparr>"
      and current_time = "(3400000005 / 2)" and sdl_mode = "\<lambda>k. Fin 0"
      and incoming = "[\<lparr>a_tNow = 1700000002050000, a_u = Fin 7, a_v = Fin 8, a_w = Fin 9, a_d2 = Fin 10,
      a_d3 = Fin 11, a_az = Fin 12, a_ele = Fin 13, a_press = Fin 102000, a_temp = Fin 25,
      a_rh = Fin 60, a_sonic = Fin 26, a_err = Fin 2\<rparr>]"
      and last_data = "\<lparr>a_tNow = 1700000002050000, a_u = Fin 7, a_v = Fin 8, a_w = Fin 9, a_d2 = Fin 10,
      a_d3 = Fin 11, a_az = Fin 12, a_ele = Fin 13, a_press = Fin 102000, a_temp = Fin 25,
      a_rh = Fin 60, a_sonic = Fin 26, a_err = Fin 2\<rparr>"
      and now = 1700000002500000 and xs = "[1, 2, 6]", OF h1 h2 h3 h4]
  have e: "Some [(''tNow'', Time (1700000002500000 - 1700000002500000 mod 1000000)),
   (''u_m_s'', Num (round8 (fmean (map col_U
    (first_second (sl_data_frame (foldl take_sample
      \<lparr>sl_standard_rate = 1, sl_data_frame = \<lparr>col_TIME = 1700000000900000,
      col_U = Fin 32, col_V = Fin 64, col_W = Fin 0, col_d2 = Fin 0, col_d3 = Fin 0,
      col_Az = Fin 0, col_Ele_deg = Fin 0, col_Press_raw = Fin 101000, col_Temp = Fin 20,
      col_RH = Fin 50,
      col_Sonic = Fin 21\<rparr> # replicate 31 \<lparr>col_TIME = 1700000001100000,
      col_U = Fin (3 / 2), col_V = Fin (- 2), col_W = Fin (1 / 4),
      col_d2 = Fin (5 / 2),
      col_d3 = Fin 3, col_Az = Fin 270, col_Ele_deg = Fin 10,
      col_Press_raw = Fin 101500,
      col_Temp = Fin (41 / 2), col_RH = Fin 55,
      col_Sonic = Fin 22\<rparr>,
      sl_mode_changed = False, sl_display_counter = 0, sl_last_1hz_update = 1700000001,
      sl_last_display_update = 1700000001, sl_last_data = Some \<lparr>a_tNow = 1700000001100000,
      a_u = Fin (3 / 2), a_v = Fin (- 2), a_w = Fin (1 / 4), a_d2 = Fin (5 / 2), a_d3 = Fin 3,
      a_az = Fin 270, a_ele = Fin 10, a_press = Fin 101500, a_temp = Fin (41 / 2), a_rh = Fin 55,
      a_sonic = Fin 22, a_err = Fin 1\<rparr>, sl_last_mode = Fin 0\<rparr>
      [\<lparr>a_tNow = 1700000002050000, a_u = Fin 7, a_v = Fin 8, a_w = Fin 9, a_d2 = Fin 10,
      a_d3 = Fin 11, a_az = Fin 12, a_ele = Fin 13, a_press = Fin 102000, a_temp = Fin 25,
      a_rh = Fin 60, a_sonic = Fin 26, a_err = Fin 2\<rparr>]))))))),
   (''v_m_s'', Num (round8 (fmean (map col_V
    (first_second (sl_data_frame (foldl take_sample
      \<lparr>sl_standard_rate = 1, sl_data_frame = \<lparr>col_TIME = 1700000000900000,
      col_U = Fin 32, col_V = Fin 64, col_W = Fin 0, col_d2 = Fin 0, col_d3 = Fin 0,
      col_Az = Fin 0, col_Ele_deg = Fin 0, col_Press_raw = Fin 101000, col_Temp = Fin 20,
      col_RH = Fin 50,
      col_Sonic = Fin 21\<rparr> # replicate 31 \<lparr>col_TIME = 1700000001100000,
      col_U = Fin (3 / 2), col_V = Fin (- 2), col_W = Fin (1 / 4),
      col_d2 = Fin (5 / 2),
      col_d3 = Fin 3, col_Az = Fin 270, col_Ele_deg = Fin 10,
      col_Press_raw = Fin 101500,
      col_Temp = Fin (41 / 2), col_RH = Fin 55,
      col_Sonic = Fin 22\<rparr>,
      sl_mode_changed = False, sl_display_counter = 0, sl_last_1hz_update = 1700000001,
      sl_last_display_update = 1700000001, sl_last_data = Some \<lparr>a_tNow = 1700000001100000,
      a_u = Fin (3 / 2), a_v = Fin (- 2), a_w = Fin (1 / 4), a_d2 = Fin (5 / 2), a_d3 = Fin 3,
      a_az = Fin 270, a_ele = Fin 10, a_press = Fin 101500, a_temp = Fin (41 / 2), a_rh = Fin 55,
      a_sonic = Fin 22, a_err = Fin 1\<rparr>, sl_last_mode = Fin 0\<rparr>
      [\<lparr>a_tNow = 1700000002050000, a_u = Fin 7, a_v = Fin 8, a_w = Fin 9, a_d2 = Fin 10,
      a_d3 = Fin 11, a_az = Fin 12, a_ele = Fin 13, a_press = Fin 102000, a_temp = Fin 25,
      a_rh = Fin 60, a_sonic = Fin 26, a_err = Fin 2\<rparr>]))))))),
   (''w_m_s'', Num (round8 (fmean (map col_W
    (first_second (sl_data_frame (foldl take_sample
      \<lparr>sl_standard_rate = 1, sl_data_frame = \<lparr>col_TIME = 1700000000900000,
      col_U = Fin 32, col_V = Fin 64, col_W = Fin 0, col_d2 = Fin 0, col_d3 = Fin 0,
      col_Az = Fin 0, col_Ele_deg = Fin 0, col_Press_raw = Fin 101000, col_Temp = Fin 20,
      col_RH = Fin 50,
      col_Sonic = Fin 21\<rparr> # replicate 31 \<lparr>col_TIME = 1700000001100000,
      col_U = Fin (3 / 2), col_V = Fin (- 2), col_W = Fin (1 / 4),
      col_d2 = Fin (5 / 2),
      col_d3 = Fin 3, col_Az = Fin 270, col_Ele_deg = Fin 10,
      col_Press_raw = Fin 101500,
      col_Temp = Fin (41 / 2), col_RH = Fin 55,
      col_Sonic = Fin 22\<rparr>,
      sl_mode_changed = False, sl_display_counter = 0, sl_last_1hz_update = 1700000001,
      sl_last_display_update = 1700000001, sl_last_data = Some \<lparr>a_tNow = 1700000001100000,
      a_u = Fin (3 / 2), a_v = Fin (- 2), a_w = Fin (1 / 4), a_d2 = Fin (5 / 2), a_d3 = Fin 3,
      a_az = Fin 270, a_ele = Fin 10, a_press = Fin 101500, a_temp = Fin (41 / 2), a_rh = Fin 55,
      a_sonic = Fin 22, a_err = Fin 1\<rparr>, sl_last_mode = Fin 0\<rparr>
      [\<lparr>a_tNow = 1700000002050000, a_u = Fin 7, a_v = Fin 8, a_w = Fin 9, a_d2 = Fin 10,
      a_d3 = Fin 11, a_az = Fin 12, a_ele = Fin 13, a_press = Fin 102000, a_temp = Fin 25,
      a_rh = Fin 60, a_sonic = Fin 26, a_err = Fin 2\<rparr>]))))))),
   (''2dSpeed_m_s'', Num (round8 (fmean (map col_d2
    (first_second (sl_data_frame (foldl take_sample
      \<lparr>sl_standard_rate = 1, sl_data_frame = \<lparr>col_TIME = 1700000000900000,
      col_U = Fin 32, col_V = Fin 64, col_W = Fin 0, col_d2 = Fin 0, col_d3 = Fin 0,
      col_Az = Fin 0, col_Ele_deg = Fin 0, col_Press_raw = Fin 101000, col_Temp = Fin 20,
      col_RH = Fin 50,
      col_Sonic = Fin 21\<rparr> # replicate 31 \<lparr>col_TIME = 1700000001100000,
      col_U = Fin (3 / 2), col_V = Fin (- 2), col_W = Fin (1 / 4),
      col_d2 = Fin (5 / 2),
      col_d3 = Fin 3, col_Az = Fin 270, col_Ele_deg = Fin 10,
      col_Press_raw = Fin 101500,
      col_Temp = Fin (41 / 2), col_RH = Fin 55,
      col_Sonic = Fin 22\<rparr>,
      sl_mode_changed = False, sl_display_counter = 0, sl_last_1hz_update = 1700000001,
      sl_last_display_update = 1700000001, sl_last_data = Some \<lparr>a_tNow = 1700000001100000,
      a_u = Fin (3 / 2), a_v = Fin (- 2), a_w = Fin (1 / 4), a_d2 = Fin (5 / 2), a_d3 = Fin 3,
      a_az = Fin 270, a_ele = Fin 10, a_press = Fin 101500, a_temp = Fin (41 / 2), a_rh = Fin 55,
      a_sonic = Fin 22, a_err = Fin 1\<rparr>, sl_last_mode = Fin 0\<rparr>
      [\<lparr>a_tNow = 1700000002050000, a_u = Fin 7, a_v = Fin 8, a_w = Fin 9, a_d2 = Fin 10,
      a_d3 = Fin 11, a_az = Fin 12, a_ele = Fin 13, a_press = Fin 102000, a_temp = Fin 25,
      a_rh = Fin 60, a_sonic = Fin 26, a_err = Fin 2\<rparr>]))))))),
   (''3DSpeed_m_s'', Num (round8 (fmean (map col_d3
    (first_second (sl_data_frame (foldl take_sample
      \<lparr>sl_standard_rate = 1, sl_data_frame = \<lparr>col_TIME = 1700000000900000,
      col_U = Fin 32, col_V = Fin 64, col_W = Fin 0, col_d2 = Fin 0, col_d3 = Fin 0,
      col_Az = Fin 0, col_Ele_deg = Fin 0, col_Press_raw = Fin 101000, col_Temp = Fin 20,
      col_RH = Fin 50,
      col_Sonic = Fin 21\<rparr> # replicate 31 \<lparr>col_TIME = 1700000001100000,
      col_U = Fin (3 / 2), col_V = Fin (- 2), col_W = Fin (1 / 4),
      col_d2 = Fin (5 / 2),
      col_d3 = Fin 3, col_Az = Fin 270, col_Ele_deg = Fin 10,
      col_Press_raw = Fin 101500,
      col_Temp = Fin (41 / 2), col_RH = Fin 55,
      col_Sonic = Fin 22\<rparr>,
      sl_mode_changed = False, sl_display_counter = 0, sl_last_1hz_update = 1700000001,
      sl_last_display_update = 1700000001, sl_last_data = Some \<lparr>a_tNow = 1700000001100000,
      a_u = Fin (3 / 2), a_v = Fin (- 2), a_w = Fin (1 / 4), a_d2 = Fin (5 / 2), a_d3 = Fin 3,
      a_az = Fin 270, a_ele = Fin 10, a_press = Fin 101500, a_temp = Fin (41 / 2), a_rh = Fin 55,
      a_sonic = Fin 22, a_err = Fin 1\<rparr>, sl_last_mode = Fin 0\<rparr>
      [\<lparr>a_tNow = 1700000002050000, a_u = Fin 7, a_v = Fin 8, a_w = Fin 9, a_d2 = Fin 10,
      a_d3 = Fin 11, a_az = Fin 12, a_ele = Fin 13, a_press = Fin 102000, a_temp = Fin 25,
      a_rh = Fin 60, a_sonic = Fin 26, a_err = Fin 2\<rparr>]))))))),
   (''Azimuth_deg'', Num (round8 (fmean (map col_Az
    (first_second (sl_data_frame (foldl take_sample
      \<lparr>sl_standard_rate = 1, sl_data_frame = \<lparr>col_TIME = 1700000000900000,
      col_U = Fin 32, col_V = Fin 64, col_W = Fin 0, col_d2 = Fin 0, col_d3 = Fin 0,
      col_Az = Fin 0, col_Ele_deg = Fin 0, col_Press_raw = Fin 101000, col_Temp = Fin 20,
      col_RH = Fin 50,
      col_Sonic = Fin 21\<rparr> # replicate 31 \<lparr>col_TIME = 1700000001100000,
      col_U = Fin (3 / 2), col_V = Fin (- 2), col_W = Fin (1 / 4),
      col_d2 = Fin (5 / 2),
      col_d3 = Fin 3, col_Az = Fin 270, col_Ele_deg = Fin 10,
      col_Press_raw = Fin 101500,
      col_Temp = Fin (41 / 2), col_RH = Fin 55,
      col_Sonic = Fin 22\<rparr>,
      sl_mode_changed = False, sl_display_counter = 0, sl_last_1hz_update = 1700000001,
      sl_last_display_update = 1700000001, sl_last_data = Some \<lparr>a_tNow = 1700000001100000,
      a_u = Fin (3 / 2), a_v = Fin (- 2), a_w = Fin (1 / 4), a_d2 = Fin (5 / 2), a_d3 = Fin 3,
      a_az = Fin 270, a_ele = Fin 10, a_press = Fin 101500, a_temp = Fin (41 / 2), a_rh = Fin 55,
      a_sonic = Fin 22, a_err = Fin 1\<rparr>, sl_last_mode = Fin 0\<rparr>
      [\<lparr>a_tNow = 1700000002050000, a_u = Fin 7, a_v = Fin 8, a_w = Fin 9, a_d2 = Fin 10,
      a_d3 = Fin 11, a_az = Fin 12, a_ele = Fin 13, a_press = Fin 102000, a_temp = Fin 25,
      a_rh = Fin 60, a_sonic = Fin 26, a_err = Fin 2\<rparr>]))))))),
   (''Elev_deg'', Num (round8 (fmean (map col_Ele_deg
    (first_second (sl_data_frame (foldl take_sample
      \<lparr>sl_standard_rate = 1, sl_data_frame = \<lparr>col_TIME = 1700000000900000,
      col_U = Fin 32, col_V = Fin 64, col_W = Fin 0, col_d2 = Fin 0, col_d3 = Fin 0,
      col_Az = Fin 0, col_Ele_deg = Fin 0, col_Press_raw = Fin 101000, col_Temp = Fin 20,
      col_RH = Fin 50,
      col_Sonic = Fin 21\<rparr> # replicate 31 \<lparr>col_TIME = 1700000001100000,
      col_U = Fin (3 / 2), col_V = Fin (- 2), col_W = Fin (1 / 4),
      col_d2 = Fin (5 / 2),
      col_d3 = Fin 3, col_Az = Fin 270, col_Ele_deg = Fin 10,
      col_Press_raw = Fin 101500,
      col_Temp = Fin (41 / 2), col_RH = Fin 55,
      col_Sonic = Fin 22\<rparr>,
      sl_mode_changed = False, sl_display_counter = 0, sl_last_1hz_update = 1700000001,
      sl_last_display_update = 1700000001, sl_last_data = Some \<lparr>a_tNow = 1700000001100000,
      a_u = Fin (3 / 2), a_v = Fin (- 2), a_w = Fin (1 / 4), a_d2 = Fin (5 / 2), a_d3 = Fin 3,
      a_az = Fin 270, a_ele = Fin 10, a_press = Fin 101500, a_temp = Fin (41 / 2), a_rh = Fin 55,
      a_sonic = Fin 22, a_err = Fin 1\<rparr>, sl_last_mode = Fin 0\<rparr>
      [\<lparr>a_tNow = 1700000002050000, a_u = Fin 7, a_v = Fin 8, a_w = Fin 9, a_d2 = Fin 10,
      a_d3 = Fin 11, a_az = Fin 12, a_ele = Fin 13, a_press = Fin 102000, a_temp = Fin 25,
      a_rh = Fin 60, a_sonic = Fin 26, a_err = Fin 2\<rparr>]))))))),
   (''Press_Pa'', Num (round8 (fmean (map col_Press_raw
    (first_second (sl_data_frame (foldl take_sample
      \<lparr>sl_standard_rate = 1, sl_data_frame = \<lparr>col_TIME = 1700000000900000,
      col_U = Fin 32, col_V = Fin 64, col_W = Fin 0, col_d2 = Fin 0, col_d3 = Fin 0,
      col_Az = Fin 0, col_Ele_deg = Fin 0, col_Press_raw = Fin 101000, col_Temp = Fin 20,
      col_RH = Fin 50,
      col_Sonic = Fin 21\<rparr> # replicate 31 \<lparr>col_TIME = 1700000001100000,
      col_U = Fin (3 / 2), col_V = Fin (- 2), col_W = Fin (1 / 4),
      col_d2 = Fin (5 / 2),
      col_d3 = Fin 3, col_Az = Fin 270, col_Ele_deg = Fin 10,
      col_Press_raw = Fin 101500,
      col_Temp = Fin (41 / 2), col_RH = Fin 55,
      col_Sonic = Fin 22\<rparr>,
      sl_mode_changed = False, sl_display_counter = 0, sl_last_1hz_update = 1700000001,
      sl_last_display_update = 1700000001, sl_last_data = Some \<lparr>a_tNow = 1700000001100000,
      a_u = Fin (3 / 2), a_v = Fin (- 2), a_w = Fin (1 / 4), a_d2 = Fin (5 / 2), a_d3 = Fin 3,
      a_az = Fin 270, a_ele = Fin 10, a_press = Fin 101500, a_temp = Fin (41 / 2), a_rh = Fin 55,
      a_sonic = Fin 22, a_err = Fin 1\<rparr>, sl_last_mode = Fin 0\<rparr>
      [\<lparr>a_tNow = 1700000002050000, a_u = Fin 7, a_v = Fin 8, a_w = Fin 9, a_d2 = Fin 10,
      a_d3 = Fin 11, a_az = Fin 12, a_ele = Fin 13, a_press = Fin 102000, a_temp = Fin 25,
      a_rh = Fin 60, a_sonic = Fin 26, a_err = Fin 2\<rparr>]))))))),
   (''Temp_C'', Num (round8 (fmean (map col_Temp
    (first_second (sl_data_frame (foldl take_sample
      \<lparr>sl_standard_rate = 1, sl_data_frame = \<lparr>col_TIME = 1700000000900000,
      col_U = Fin 32, col_V = Fin 64, col_W = Fin 0, col_d2 = Fin 0, col_d3 = Fin 0,
      col_Az = Fin 0, col_Ele_deg = Fin 0, col_Press_raw = Fin 101000, col_Temp = Fin 20,
      col_RH = Fin 50,
      col_Sonic = Fin 21\<rparr> # replicate 31 \<lparr>col_TIME = 1700000001100000,
      col_U = Fin (3 / 2), col_V = Fin (- 2), col_W = Fin (1 / 4),
      col_d2 = Fin (5 / 2),
      col_d3 = Fin 3, col_Az = Fin 270, col_Ele_deg = Fin 10,
      col_Press_raw = Fin 101500,
      col_Temp = Fin (41 / 2), col_RH = Fin 55,
      col_Sonic = Fin 22\<rparr>,
      sl_mode_changed = False, sl_display_counter = 0, sl_last_1hz_update = 1700000001,
      sl_last_display_update = 1700000001, sl_last_data = Some \<lparr>a_tNow = 1700000001100000,
      a_u = Fin (3 / 2), a_v = Fin (- 2), a_w = Fin (1 / 4), a_d2 = Fin (5 / 2), a_d3 = Fin 3,
      a_az = Fin 270, a_ele = Fin 10, a_press = Fin 101500, a_temp = Fin (41 / 2), a_rh = Fin 55,
      a_sonic = Fin 22, a_err = Fin 1\<rparr>, sl_last_mode = Fin 0\<rparr>
      [\<lparr>a_tNow = 1700000002050000, a_u = Fin 7, a_v = Fin 8, a_w = Fin 9, a_d2 = Fin 10,
      a_d3 = Fin 11, a_az = Fin 12, a_ele = Fin 13, a_press = Fin 102000, a_temp = Fin 25,
      a_rh = Fin 60, a_sonic = Fin 26, a_err = Fin 2\<rparr>]))))))),
   (''Hum_RH'', Num (round8 (fmean (map col_RH
    (first_second (sl_data_frame (foldl take_sample
      \<lparr>sl_standard_rate = 1, sl_data_frame = \<lparr>col_TIME = 1700000000900000,
      col_U = Fin 32, col_V = Fin 64, col_W = Fin 0, col_d2 = Fin 0, col_d3 = Fin 0,
      col_Az = Fin 0, col_Ele_deg = Fin 0, col_Press_raw = Fin 101000, col_Temp = Fin 20,
      col_RH = Fin 50,
      col_Sonic = Fin 21\<rparr> # replicate 31 \<lparr>col_TIME = 1700000001100000,
      col_U = Fin (3 / 2), col_V = Fin (- 2), col_W = Fin (1 / 4),
      col_d2 = Fin (5 / 2),
      col_d3 = Fin 3, col_Az = Fin 270, col_Ele_deg = Fin 10,
      col_Press_raw = Fin 101500,
      col_Temp = Fin (41 / 2), col_RH = Fin 55,
      col_Sonic = Fin 22\<rparr>,
      sl_mode_changed = False, sl_display_counter = 0, sl_last_1hz_update = 1700000001,
      sl_last_display_update = 1700000001, sl_last_data = Some \<lparr>a_tNow = 1700000001100000,
      a_u = Fin (3 / 2), a_v = Fin (- 2), a_w = Fin (1 / 4), a_d2 = Fin (5 / 2), a_d3 = Fin 3,
      a_az = Fin 270, a_ele = Fin 10, a_press = Fin 101500, a_temp = Fin (41 / 2), a_rh = Fin 55,
      a_sonic = Fin 22, a_err = Fin 1\<rparr>, sl_last_mode = Fin 0\<rparr>
      [\<lparr>a_tNow = 1700000002050000, a_u = Fin 7, a_v = Fin 8, a_w = Fin 9, a_d2 = Fin 10,
      a_d3 = Fin 11, a_az = Fin 12, a_ele = Fin 13, a_press = Fin 102000, a_temp = Fin 25,
      a_rh = Fin 60, a_sonic = Fin 26, a_err = Fin 2\<rparr>]))))))),
   (''SonicTemp_C'', Num (round8 (fmean (map col_Sonic
    (first_second (sl_data_frame (foldl take_sample
      \<lparr>sl_standard_rate = 1, sl_data_frame = \<lparr>col_TIME = 1700000000900000,
      col_U = Fin 32, col_V = Fin 64, col_W = Fin 0, col_d2 = Fin 0, col_d3 = Fin 0,
      col_Az = Fin 0, col_Ele_deg = Fin 0, col_Press_raw = Fin 101000, col_Temp = Fin 20,
      col_RH = Fin 50,
      col_Sonic = Fin 21\<rparr> # replicate 31 \<lparr>col_TIME = 1700000001100000,
      col_U = Fin (3 / 2), col_V = Fin (- 2), col_W = Fin (1 / 4),
      col_d2 = Fin (5 / 2),
      col_d3 = Fin 3, col_Az = Fin 270, col_Ele_deg = Fin 10,
      col_Press_raw = Fin 101500,
      col_Temp = Fin (41 / 2), col_RH = Fin 55,
      col_Sonic = Fin 22\<rparr>,
      sl_mode_changed = False, sl_display_counter = 0, sl_last_1hz_update = 1700000001,
      sl_last_display_update = 1700000001, sl_last_data = Some \<lparr>a_tNow = 1700000001100000,
      a_u = Fin (3 / 2), a_v = Fin (- 2), a_w = Fin (1 / 4), a_d2 = Fin (5 / 2), a_d3 = Fin 3,
      a_az = Fin 270, a_ele = Fin 10, a_press = Fin 101500, a_temp = Fin (41 / 2), a_rh = Fin 55,
      a_sonic = Fin 22, a_err = Fin 1\<rparr>, sl_last_mode = Fin 0\<rparr>
      [\<lparr>a_tNow = 1700000002050000, a_u = Fin 7, a_v = Fin 8, a_w = Fin 9, a_d2 = Fin 10,
      a_d3 = Fin 11, a_az = Fin 12, a_ele = Fin 13, a_press = Fin 102000, a_temp = Fin 25,
      a_rh = Fin 60, a_sonic = Fin 26, a_err = Fin 2\<rparr>]))))))),
   (''Error'', Num (round8 (a_err
      \<lparr>a_tNow = 1700000002050000, a_u = Fin 7, a_v = Fin 8, a_w = Fin 9, a_d2 = Fin 10,
      a_d3 = Fin 11, a_az = Fin 12, a_ele = Fin 13, a_press = Fin 102000, a_temp = Fin 25,
      a_rh = Fin 60, a_sonic = Fin 26, a_err = Fin 2\<rparr>)))]
    = Some [(''tNow'', Time 1700000002000000), (''u_m_s'', Num (Fin (3 / 2))), (''v_m_s'', Num (Fin (- 2))),
      (''w_m_s'', Num (Fin (1 / 4))), (''2dSpeed_m_s'', Num (Fin (5 / 2))), (''3DSpeed_m_s'',
      Num (Fin 3)), (''Azimuth_deg'', Num (Fin 270)), (''Elev_deg'', Num (Fin 10)),
      (''Press_Pa'', Num (Fin 101500)), (''Temp_C'', Num (Fin (41 / 2))), (''Hum_RH'',
      Num (Fin 55)), (''SonicTemp_C'', Num (Fin 22)), (''Error'', Num (Fin 2))]"
    by code_simp
  note c1 = trans [OF w [THEN conjunct1] e]
  have e2: "drop (length (foldl concat_data (sl_data_frame
      \<lparr>sl_standard_rate = 1, sl_data_frame = \<lparr>col_TIME = 1700000000900000,
      col_U = Fin 32, col_V = Fin 64, col_W = Fin 0, col_d2 = Fin 0, col_d3 = Fin 0,
      col_Az = Fin 0, col_Ele_deg = Fin 0, col_Press_raw = Fin 101000, col_Temp = Fin 20,
      col_RH = Fin 50,
      col_Sonic = Fin 21\<rparr> # replicate 31 \<lparr>col_TIME = 1700000001100000,
      col_U = Fin (3 / 2), col_V = Fin (- 2), col_W = Fin (1 / 4),
      col_d2 = Fin (5 / 2),
      col_d3 = Fin 3, col_Az = Fin 270, col_Ele_deg = Fin 10,
      col_Press_raw = Fin 101500,
      col_Temp = Fin (41 / 2), col_RH = Fin 55,
      col_Sonic = Fin 22\<rparr>,
      sl_mode_changed = False, sl_display_counter = 0, sl_last_1hz_update = 1700000001,
      sl_last_display_update = 1700000001, sl_last_data = Some \<lparr>a_tNow = 1700000001100000,
      a_u = Fin (3 / 2), a_v = Fin (- 2), a_w = Fin (1 / 4), a_d2 = Fin (5 / 2), a_d3 = Fin 3,
      a_az = Fin 270, a_ele = Fin 10, a_press = Fin 101500, a_temp = Fin (41 / 2), a_rh = Fin 55,
      a_sonic = Fin 22, a_err = Fin 1\<rparr>, sl_last_mode = Fin 0\<rparr>)
      [\<lparr>a_tNow = 1700000002050000, a_u = Fin 7, a_v = Fin 8, a_w = Fin 9, a_d2 = Fin 10,
      a_d3 = Fin 11, a_az = Fin 12, a_ele = Fin 13, a_press = Fin 102000, a_temp = Fin 25,
      a_rh = Fin 60, a_sonic = Fin 26, a_err = Fin 2\<rparr>]) - buffer_limit)
      (foldl concat_data (sl_data_frame
      \<lparr>sl_standard_rate = 1, sl_data_frame = \<lparr>col_TIME = 1700000000900000,
      col_U = Fin 32, col_V = Fin 64, col_W = Fin 0, col_d2 = Fin 0, col_d3 = Fin 0,
      col_Az = Fin 0, col_Ele_deg = Fin 0, col_Press_raw = Fin 101000, col_Temp = Fin 20,
      col_RH = Fin 50,
      col_Sonic = Fin 21\<rparr> # replicate 31 \<lparr>col_TIME = 1700000001100000,
      col_U = Fin (3 / 2), col_V = Fin (- 2), col_W = Fin (1 / 4),
      col_d2 = Fin (5 / 2),
      col_d3 = Fin 3, col_Az = Fin 270, col_Ele_deg = Fin 10,
      col_Press_raw = Fin 101500,
      col_Temp = Fin (41 / 2), col_RH = Fin 55,
      col_Sonic = Fin 22\<rparr>,
      sl_mode_changed = False, sl_display_counter = 0, sl_last_1hz_update = 1700000001,
      sl_last_display_update = 1700000001, sl_last_data = Some \<lparr>a_tNow = 1700000001100000,
      a_u = Fin (3 / 2), a_v = Fin (- 2), a_w = Fin (1 / 4), a_d2 = Fin (5 / 2), a_d3 = Fin 3,
      a_az = Fin 270, a_ele = Fin 10, a_press = Fin 101500, a_temp = Fin (41 / 2), a_rh = Fin 55,
      a_sonic = Fin 22, a_err = Fin 1\<rparr>, sl_last_mode = Fin 0\<rparr>)
      [\<lparr>a_tNow = 1700000002050000, a_u = Fin 7, a_v = Fin 8, a_w = Fin 9, a_d2 = Fin 10,
      a_d3 = Fin 11, a_az = Fin 12, a_ele = Fin 13, a_press = Fin 102000, a_temp = Fin 25,
      a_rh = Fin 60, a_sonic = Fin 26, a_err = Fin 2\<rparr>])
    = replicate 31 \<lparr>col_TIME = 1700000001100000, col_U = Fin (3 / 2), col_V = Fin (- 2), col_W = Fin (1 / 4),
      col_d2 = Fin (5 / 2), col_d3 = Fin 3, col_Az = Fin 270, col_Ele_deg = Fin 10,
      col_Press_raw = Fin 101500, col_Temp = Fin (41 / 2), col_RH = Fin 55,
      col_Sonic = Fin 22\<rparr>
      @ [\<lparr>col_TIME = 1700000002050000, col_U = Fin 7, col_V = Fin 8, col_W = Fin 9,
      col_d2 = Fin 10, col_d3 = Fin 11, col_Az = Fin 12, col_Ele_deg = Fin 13,
      col_Press_raw = Fin 102000, col_Temp = Fin 25, col_RH = Fin 60, col_Sonic = Fin 26\<rparr>]"
    by code_simp
  note c2 = trans [OF w [THEN conjunct2, THEN conjunct1, THEN mp, OF h5] e2]
  have e3: "Fin (sum_list [1, 2, 6] / of_nat (length [1, 2, 6 :: rat])) = Fin 3"
    by simp
  note c3 = trans [OF w [THEN conjunct2, THEN conjunct2, THEN mp, OF h6] e3]
  from h1 h2 h3 h4 c1 h5 c2 h6 c3 show ?thesis by (intro conjI)
qed

subsection \<open>The header of a log file\<close>



lemma open_new_failed_closed:
  "\<not> fst (open_new_logfile_at_current_time strftime open_ok t s) \<Longrightarrow>
   dl_fd_open (snd (open_new_logfile_at_current_time strftime open_ok t s)) = dl_fd_open s"
  by (simp add: open_new_logfile_at_current_time_def Let_def split: if_splits)













end
